(* ===== verification/Prelude.thy ===== *)
theory Prelude
  imports Main "HOL-Library.Multiset"
begin

text \<open>
  Shared vocabulary of the job-tracker development: the types that name the
  model's values (timestamps, ObjectId strings), the JavaScript value helpers
  the controllers rely on (truthiness of an optional string, template-literal
  printing of \<open>undefined\<close>), and the digit strings used by \<open>String(Date.now())\<close>
  in the upload file name and by the hexadecimal form of a MongoDB ObjectId,
  with their round-trip lemmas.  The collections \<open>js_simps\<close> and
  \<open>digit_simps\<close> gather the evaluation rules the component proofs use.
\<close>

named_theorems js_simps "evaluation rules of the JavaScript value helpers"
named_theorems digit_simps "evaluation rules of the digit-string helpers"

type_synonym time = nat
  \<comment> \<open>\<open>Date.now()\<close>: milliseconds since the epoch\<close>
type_synonym oid = string
  \<comment> \<open>an ObjectId in its 24-character hexadecimal string form\<close>

section \<open>JavaScript values\<close>

text \<open>
  A request-body field is a string or \<open>undefined\<close> (\<open>None\<close>).  \<open>if (x)\<close> on such a
  value is true exactly for a non-empty string; a template literal prints
  \<open>undefined\<close> for a missing value.
\<close>

fun js_truthy :: "string option \<Rightarrow> bool" where
  "js_truthy None = False"
| "js_truthy (Some s) = (s \<noteq> [])"

fun js_template :: "string option \<Rightarrow> string" where
  "js_template None = ''undefined''"
| "js_template (Some s) = s"

declare js_truthy.simps [js_simps] js_template.simps [js_simps]

section \<open>Digit strings\<close>

definition digit_char :: "nat \<Rightarrow> char" where
  "digit_char d = char_of (if d < 10 then 48 + d else 87 + d)"

definition digit_val :: "char \<Rightarrow> nat" where
  "digit_val c = (let n = of_char c in if n \<le> 57 then n - 48 else n - 87)"

fun digits_fixed :: "nat \<Rightarrow> nat \<Rightarrow> nat \<Rightarrow> string" where
  "digits_fixed b 0 n = []"
| "digits_fixed b (Suc k) n = digits_fixed b k (n div b) @ [digit_char (n mod b)]"

definition digits_value :: "nat \<Rightarrow> string \<Rightarrow> nat" where
  "digits_value b cs = foldl (\<lambda>acc c. b * acc + digit_val c) 0 cs"

fun dec_string :: "nat \<Rightarrow> string" where
  "dec_string n =
     (if n < 10 then [digit_char n] else dec_string (n div 10) @ [digit_char (n mod 10)])"

declare dec_string.simps [simp del]

section \<open>Errors as values\<close>

text \<open>
  A rejected promise or a thrown exception is \<open>Inl\<close> of an error; \<open>ebind\<close>
  sequences two fallible steps the way \<open>await\<close> inside one \<open>try\<close> block does:
  the first error skips the rest.
\<close>

fun ebind :: "'e + 'a \<Rightarrow> ('a \<Rightarrow> 'e + 'b) \<Rightarrow> 'e + 'b" where
  "ebind (Inl e) f = Inl e"
| "ebind (Inr a) f = f a"


section \<open>Lemmas on digit strings\<close>

lemma digit_val_digit_char [simp, digit_simps]:
  "d < 16 \<Longrightarrow> digit_val (digit_char d) = d"
  by (simp add: digit_char_def digit_val_def)

lemma digit_char_inj [digit_simps]:
  "d < 16 \<Longrightarrow> e < 16 \<Longrightarrow> digit_char d = digit_char e \<longleftrightarrow> d = e"
  by (metis digit_val_digit_char)

lemma digit_char_code [digit_simps]:
  "d < 16 \<Longrightarrow> of_char (digit_char d) = (if d < 10 then 48 + d else 87 + d)"
  by (simp add: digit_char_def)

lemma digit_char_not_below_zero:
  assumes "d < 16" "of_char c < (48::nat)"
  shows "digit_char d \<noteq> c"
proof
  assume "digit_char d = c"
  then have "of_char (digit_char d) = (of_char c :: nat)" by simp
  with assms show False by (simp add: digit_char_code split: if_splits)
qed

lemma digits_value_snoc [simp, digit_simps]:
  "digits_value b (cs @ [c]) = b * digits_value b cs + digit_val c"
  by (simp add: digits_value_def)

lemma digits_value_Nil [simp, digit_simps]: "digits_value b [] = 0"
  by (simp add: digits_value_def)

lemma length_digits_fixed [simp]: "length (digits_fixed b k n) = k"
  by (induction k arbitrary: n) simp_all

lemma set_snoc_digit:
  assumes "0 < b" "\<forall>c \<in> set xs. \<exists>d < b. c = digit_char d"
  shows "\<forall>c \<in> set (xs @ [digit_char (n mod b)]). \<exists>d < b. c = digit_char d"
proof -
  have "n mod b < b" using assms(1) by (rule mod_less_divisor)
  with assms(2) show ?thesis by auto
qed

lemma set_digits_fixed:
  "0 < b \<Longrightarrow> \<forall>c \<in> set (digits_fixed b k n). \<exists>d < b. c = digit_char d"
proof (induction k arbitrary: n)
  case (Suc k)
  then have "\<forall>c \<in> set (digits_fixed b k (n div b) @ [digit_char (n mod b)]).
      \<exists>d < b. c = digit_char d"
    by (intro set_snoc_digit) simp_all
  then show ?case by simp
qed simp

text \<open>Reading a fixed-width digit string back gives the number modulo the width.\<close>

lemma digits_value_fixed:
  assumes "0 < b" "b \<le> 16"
  shows "digits_value b (digits_fixed b k n) = n mod b ^ k"
proof (induction k arbitrary: n)
  case 0
  then show ?case by simp
next
  case (Suc k)
  have "n mod b < 16" using assms by (meson mod_less_divisor order_less_le_trans)
  then have "digits_value b (digits_fixed b (Suc k) n) = b * (n div b mod b ^ k) + n mod b"
    using Suc.IH by simp
  also have "\<dots> = n mod b ^ Suc k"
    by (simp add: mod_mult2_eq mult.commute)
  finally show ?case .
qed

lemma digits_fixed_inj:
  assumes "0 < b" "b \<le> 16" "m < b ^ k" "n < b ^ k"
    and "digits_fixed b k m = digits_fixed b k n"
  shows "m = n"
  by (metis assms digits_value_fixed mod_less)

lemma dec_string_value [simp]: "digits_value 10 (dec_string n) = n"
proof (induction n rule: dec_string.induct)
  case (1 n)
  then show ?case
    by (cases "n < 10") (simp_all add: dec_string.simps [of n] digits_value_def)
qed

lemma dec_string_digits: "\<forall>c \<in> set (dec_string n). \<exists>d < 10. c = digit_char d"
proof (induction n rule: dec_string.induct)
  case (1 n)
  show ?case
  proof (cases "n < 10")
    case True
    then show ?thesis by (auto simp: dec_string.simps [of n])
  next
    case False
    with "1.IH" have "\<forall>c \<in> set (dec_string (n div 10) @ [digit_char (n mod 10)]).
        \<exists>d < 10. c = digit_char d"
      by (intro set_snoc_digit) simp_all
    with False show ?thesis by (simp add: dec_string.simps [of n])
  qed
qed

text \<open>No character below \<open>'0'\<close> (such as \<open>-\<close>, \<open>.\<close>, \<open>/\<close>) occurs in a decimal string.\<close>

lemma sep_notin_dec_string:
  assumes "of_char c < (48::nat)"
  shows "c \<notin> set (dec_string n)"
proof
  assume "c \<in> set (dec_string n)"
  then obtain d where "d < 10" "c = digit_char d"
    using dec_string_digits by blast
  then show False using digit_char_not_below_zero [of d c] assms by simp
qed

lemma seps_notin_dec_string [simp]:
  "CHR ''-'' \<notin> set (dec_string n)" "CHR ''.'' \<notin> set (dec_string n)"
  "CHR ''/'' \<notin> set (dec_string n)"
  by (simp_all add: sep_notin_dec_string)

lemma backslash_notin_dec_string [simp]: "CHR 0x5C \<notin> set (dec_string n)"
proof
  assume "CHR 0x5C \<in> set (dec_string n)"
  then obtain d where d: "d < 10" "CHR 0x5C = digit_char d"
    using dec_string_digits by blast
  then have "of_char (digit_char d) = (of_char (CHR 0x5C) :: nat)" by simp
  with d(1) show False by (simp add: digit_char_code)
qed

lemma dec_string_not_Nil [simp]: "dec_string n \<noteq> []"
  by (simp add: dec_string.simps [of n])

lemma dec_string_inj [simp]: "dec_string m = dec_string n \<longleftrightarrow> m = n"
  by (metis dec_string_value)

subsection \<open>Error sequencing\<close>

lemma ebind_eq_Inr [simp]: "ebind m f = Inr b \<longleftrightarrow> (\<exists>a. m = Inr a \<and> f a = Inr b)"
  by (cases m) simp_all

lemma ebind_eq_Inl: "ebind m f = Inl e \<longleftrightarrow> m = Inl e \<or> (\<exists>a. m = Inr a \<and> f a = Inl e)"
  by (cases m) simp_all

section \<open>Lists\<close>

text \<open>
  A prefix free of a separator is recovered by splitting at the first
  separator: the lemma behind the file-name and path round trips.
\<close>

lemma takeWhile_append_sep:
  "c \<notin> set xs \<Longrightarrow> takeWhile (\<lambda>x. x \<noteq> c) (xs @ c # ys) = xs"
  by (induction xs) auto

lemma dropWhile_append_sep:
  "c \<notin> set xs \<Longrightarrow> dropWhile (\<lambda>x. x \<noteq> c) (xs @ c # ys) = c # ys"
  by (induction xs) auto

lemma length_filter_eq_iff: "length (filter P xs) = length xs \<longleftrightarrow> (\<forall>x \<in> set xs. P x)"
  by (metis filter_id_conv length_filter_less less_irrefl)

lemma append_sep_inj:
  assumes "c \<notin> set xs" "c \<notin> set xs'" "xs @ c # ys = xs' @ c # ys'"
  shows "xs = xs' \<and> ys = ys'"
  by (metis assms takeWhile_append_sep dropWhile_append_sep list.inject)

text \<open>A lookup by a key that is unique in the list finds the element that has it.\<close>

lemma find_key_unique:
  "distinct (map f xs) \<Longrightarrow> x \<in> set xs \<Longrightarrow> find (\<lambda>y. f y = f x) xs = Some x"
  by (induction xs) (auto simp: rev_image_eqI)

text \<open>An element appended under a fresh key is what a lookup by that key finds, and all a removal by it removes.\<close>

lemma find_snoc_fresh:
  "f x \<notin> set (map f xs) \<Longrightarrow> find (\<lambda>y. f y = f x) (xs @ [x]) = Some x"
  by (induction xs) auto

lemma filter_snoc_fresh:
  "f x \<notin> set (map f xs) \<Longrightarrow> filter (\<lambda>y. f y \<noteq> f x) (xs @ [x]) = xs"
  by (induction xs) auto

end
