(* ===== verification/ObjectId.thy ===== *)
theory ObjectId
  imports Prelude
begin

text \<open>
  MongoDB ObjectIds as the controllers see them.  Every query the controllers
  issue with an id (\<open>Job.findById(req.params.id)\<close>, \<open>Job.find({user: req.user.id})\<close>,
  \<open>User.findById\<close>) first casts the string to an ObjectId: a string of 24
  hexadecimal digits is accepted and normalised to lower case (\<open>toString()\<close>
  prints lower case), anything else raises a \<open>CastError\<close>.  New documents get a
  fresh id from a generator, modelled as a counter printed as 24 hex digits.
  The lemmas show that generated ids are valid and canonical, that casting is
  idempotent, and that the generator is injective below \<open>16^24\<close>.
\<close>

named_theorems oid_simps "facts about ObjectId casting"

definition is_hex_char :: "char \<Rightarrow> bool" where
  "is_hex_char c =
     (let n = of_char c :: nat in
        (48 \<le> n \<and> n \<le> 57) \<or> (97 \<le> n \<and> n \<le> 102) \<or> (65 \<le> n \<and> n \<le> 70))"

definition lower_hex :: "char \<Rightarrow> char" where
  "lower_hex c = (let n = of_char c :: nat in if 65 \<le> n \<and> n \<le> 70 then char_of (n + 32) else c)"

definition cast_oid :: "string \<Rightarrow> oid option" where
  "cast_oid s =
     (if length s = 24 \<and> list_all is_hex_char s then Some (map lower_hex s) else None)"

definition oid_of_nat :: "nat \<Rightarrow> oid" where
  "oid_of_nat n = digits_fixed 16 24 n"

definition oid_value :: "oid \<Rightarrow> nat" where
  "oid_value s = digits_value 16 s"

definition valid_oid :: "oid \<Rightarrow> bool" where
  "valid_oid s = (cast_oid s = Some s)"

lemma digit_char_hex [oid_simps]:
  "d < 16 \<Longrightarrow> is_hex_char (digit_char d) \<and> lower_hex (digit_char d) = digit_char d"
  by (simp add: is_hex_char_def lower_hex_def digit_char_code)

lemma lower_hex_hex [oid_simps]: "is_hex_char c \<Longrightarrow> is_hex_char (lower_hex c)"
  by (auto simp: is_hex_char_def lower_hex_def Let_def)

lemma lower_hex_idem [simp, oid_simps]: "lower_hex (lower_hex c) = lower_hex c"
  by (auto simp: lower_hex_def Let_def)

text \<open>Casting accepts exactly its own output: a cast id casts to itself.\<close>

lemma cast_oid_canonical [oid_simps]:
  "cast_oid s = Some t \<Longrightarrow> cast_oid t = Some t"
  by (auto simp: cast_oid_def list_all_iff lower_hex_hex comp_def split: if_splits)

lemma valid_oid_cast [oid_simps]: "cast_oid s = Some t \<Longrightarrow> valid_oid t"
  by (simp add: valid_oid_def cast_oid_canonical)

lemma valid_oid_of_nat [simp, oid_simps]: "valid_oid (oid_of_nat n)"
proof -
  have "\<forall>c \<in> set (oid_of_nat n). \<exists>d < 16. c = digit_char d"
    unfolding oid_of_nat_def by (rule set_digits_fixed) simp
  then have hex: "\<And>c. c \<in> set (oid_of_nat n) \<Longrightarrow> is_hex_char c \<and> lower_hex c = c"
    using digit_char_hex by metis
  then have "map lower_hex (oid_of_nat n) = oid_of_nat n"
    by (simp add: map_idI)
  moreover have "list_all is_hex_char (oid_of_nat n)"
    using hex by (simp add: list_all_iff)
  moreover have "length (oid_of_nat n) = 24"
    by (simp add: oid_of_nat_def)
  ultimately show ?thesis
    by (simp add: valid_oid_def cast_oid_def)
qed

lemma length_oid_of_nat [simp]: "length (oid_of_nat n) = 24"
  by (simp add: oid_of_nat_def)

lemma oid_of_nat_not_Nil [simp]: "oid_of_nat n \<noteq> []"
  using length_oid_of_nat [of n] by (metis list.size(3) zero_neq_numeral)

lemma oid_value_of_nat [simp]: "oid_value (oid_of_nat n) = n mod 16 ^ 24"
  by (simp add: oid_value_def oid_of_nat_def digits_value_fixed)

lemma oid_of_nat_inj [simp]:
  "m < 16 ^ 24 \<Longrightarrow> n < 16 ^ 24 \<Longrightarrow> oid_of_nat m = oid_of_nat n \<longleftrightarrow> m = n"
  by (metis oid_value_of_nat mod_less)

end
