(* ===== verification/JobModel.thy ===== *)
theory JobModel
  imports ObjectId
begin

text \<open>
  The Job schema of \<open>models/Job.js\<close> and what mongoose does with it.  A stored
  job is the record \<open>job\<close>, one field per schema path.  Creating a document
  (\<open>new Job({...}).save()\<close> in \<open>addJob\<close>) is \<open>job_create\<close>: it casts \<open>user\<close> to an
  ObjectId and \<open>interviewDate\<close> to a Date, applies the defaults (\<open>status\<close>
  \<open>'applied'\<close>, \<open>appliedDate\<close> and \<open>lastUpdated\<close> \<open>Date.now\<close>) and runs the
  validators (\<open>required\<close> on company and role, the status \<open>enum\<close>).  Updating
  (\<open>findByIdAndUpdate\<close> in \<open>updateJob\<close>) is \<open>job_apply_update\<close>: a \<open>$set\<close> of the
  given paths in which keys whose value is \<open>undefined\<close> are dropped, the Date
  path is cast, and no validator runs (mongoose's default \<open>runValidators: false\<close>).
  The lemmas give the outcome of both on every branch and show which fields an
  update can never change.
\<close>

named_theorems job_model_simps "unfolding rules of the Job schema operations"

datatype status = Applied | Interview | Offer | Rejected

primrec status_name :: "status \<Rightarrow> string" where
  "status_name Applied = ''applied''"
| "status_name Interview = ''interview''"
| "status_name Offer = ''offer''"
| "status_name Rejected = ''rejected''"

definition status_enum :: "string list" where
  "status_enum = map status_name [Applied, Interview, Offer, Rejected]"

record job =
  job_id :: oid
  job_user :: oid
  job_company :: string
  job_role :: string
  job_status :: string
  job_applied_date :: time
  job_interview_date :: "time option"
  job_notes :: "string option"
  job_resume :: "string option"
  job_contact :: "string option"
  job_source :: "string option"
  job_last_updated :: time

text \<open>
  The value the controllers give the \<open>interviewDate\<close> path: \<open>null\<close> or a \<open>Date\<close>
  object, whose time value is \<open>None\<close> for an Invalid Date (\<open>new Date(undefined)\<close>).
\<close>

datatype js_date = JsNull | JsDate "time option"

datatype db_error = CastError string | ValidationError string | DuplicateKey oid

text \<open>The object literal \<open>addJob\<close> passes to \<open>new Job\<close>.\<close>

record job_literal =
  lit_user :: string
  lit_company :: "string option"
  lit_role :: "string option"
  lit_status :: "string option"
  lit_notes :: "string option"
  lit_contact :: "string option"
  lit_source :: "string option"
  lit_interview_date :: js_date
  lit_resume :: "string option"

text \<open>The update document \<open>updateJob\<close> passes to \<open>findByIdAndUpdate\<close>.\<close>

record job_update =
  upd_company :: "string option"
  upd_role :: "string option"
  upd_status :: "string option"
  upd_notes :: "string option"
  upd_contact :: "string option"
  upd_source :: "string option"
  upd_interview_date :: js_date
  upd_resume :: "string option"
  upd_last_updated :: time

fun cast_date :: "js_date \<Rightarrow> db_error + time option" where
  "cast_date JsNull = Inr None"
| "cast_date (JsDate None) = Inl (CastError ''interviewDate'')"
| "cast_date (JsDate (Some t)) = Inr (Some t)"

definition cast_user :: "string \<Rightarrow> db_error + oid" where
  "cast_user s = (case cast_oid s of None \<Rightarrow> Inl (CastError ''user'') | Some u \<Rightarrow> Inr u)"

text \<open>\<open>required: true\<close> on a String path accepts a string of positive length only.\<close>

fun required_string :: "string \<Rightarrow> string option \<Rightarrow> db_error + string" where
  "required_string path None = Inl (ValidationError path)"
| "required_string path (Some s) = (if s = [] then Inl (ValidationError path) else Inr s)"

definition status_default :: "string option \<Rightarrow> db_error + string" where
  "status_default st =
     (let s = (case st of None \<Rightarrow> ''applied'' | Some s \<Rightarrow> s) in
      if s \<in> set status_enum then Inr s else Inl (ValidationError ''status''))"

definition job_create :: "oid \<Rightarrow> time \<Rightarrow> job_literal \<Rightarrow> db_error + job" where
  "job_create i now lit =
     ebind (cast_user (lit_user lit)) (\<lambda>u.
     ebind (cast_date (lit_interview_date lit)) (\<lambda>d.
     ebind (required_string ''company'' (lit_company lit)) (\<lambda>c.
     ebind (required_string ''role'' (lit_role lit)) (\<lambda>r.
     ebind (status_default (lit_status lit)) (\<lambda>st.
       Inr \<lparr>job_id = i, job_user = u, job_company = c, job_role = r, job_status = st,
            job_applied_date = now, job_interview_date = d, job_notes = lit_notes lit,
            job_resume = lit_resume lit, job_contact = lit_contact lit,
            job_source = lit_source lit, job_last_updated = now\<rparr>)))))"

text \<open>A \<open>$set\<close> key whose value is \<open>undefined\<close> is dropped: the path keeps its value.\<close>

definition set_path :: "'a option \<Rightarrow> 'a \<Rightarrow> 'a" where
  "set_path v old = (case v of None \<Rightarrow> old | Some x \<Rightarrow> x)"

definition set_opt_path :: "'a option \<Rightarrow> 'a option \<Rightarrow> 'a option" where
  "set_opt_path v old = (case v of None \<Rightarrow> old | Some x \<Rightarrow> Some x)"

definition job_set :: "job_update \<Rightarrow> time option \<Rightarrow> job \<Rightarrow> job" where
  "job_set u d j =
     j\<lparr>job_company := set_path (upd_company u) (job_company j),
       job_role := set_path (upd_role u) (job_role j),
       job_status := set_path (upd_status u) (job_status j),
       job_notes := set_opt_path (upd_notes u) (job_notes j),
       job_contact := set_opt_path (upd_contact u) (job_contact j),
       job_source := set_opt_path (upd_source u) (job_source j),
       job_interview_date := d,
       job_resume := set_opt_path (upd_resume u) (job_resume j),
       job_last_updated := upd_last_updated u\<rparr>"

definition job_apply_update :: "job_update \<Rightarrow> job \<Rightarrow> db_error + job" where
  "job_apply_update u j = ebind (cast_date (upd_interview_date u)) (\<lambda>d. Inr (job_set u d j))"

text \<open>What the schema's validators guarantee of a freshly created document.\<close>

definition job_valid :: "job \<Rightarrow> bool" where
  "job_valid j =
     (valid_oid (job_user j) \<and> job_company j \<noteq> [] \<and> job_role j \<noteq> []
      \<and> job_status j \<in> set status_enum)"

declare job_create_def [job_model_simps] job_apply_update_def [job_model_simps]
  cast_user_def [job_model_simps] status_default_def [job_model_simps]
  set_path_def [job_model_simps] set_opt_path_def [job_model_simps] job_set_def [job_model_simps]

section \<open>Lemmas\<close>

lemma status_enum_iff: "s \<in> set status_enum \<longleftrightarrow> (\<exists>x. s = status_name x)"
proof
  assume "s \<in> set status_enum"
  then show "\<exists>x. s = status_name x"
    unfolding status_enum_def set_map image_iff by blast
next
  assume "\<exists>x. s = status_name x"
  then obtain x where "s = status_name x" by blast
  then show "s \<in> set status_enum" by (cases x) (simp_all add: status_enum_def)
qed

lemma status_name_inj [simp]: "status_name x = status_name y \<longleftrightarrow> x = y"
  by (cases x; cases y) simp_all

lemma required_string_Inr [simp]: "required_string p v = Inr s \<longleftrightarrow> v = Some s \<and> s \<noteq> []"
  by (cases v) auto

lemma cast_date_Inr:
  "cast_date v = Inr d \<longleftrightarrow> (v = JsNull \<and> d = None) \<or> (\<exists>t. v = JsDate (Some t) \<and> d = Some t)"
  by (cases v rule: cast_date.cases) auto

lemma job_create_Inr:
  "job_create i now lit = Inr j \<longleftrightarrow>
     (\<exists>u c r st d.
        cast_oid (lit_user lit) = Some u \<and> cast_date (lit_interview_date lit) = Inr d \<and>
        lit_company lit = Some c \<and> c \<noteq> [] \<and> lit_role lit = Some r \<and> r \<noteq> [] \<and>
        status_default (lit_status lit) = Inr st \<and>
        j = \<lparr>job_id = i, job_user = u, job_company = c, job_role = r, job_status = st,
             job_applied_date = now, job_interview_date = d, job_notes = lit_notes lit,
             job_resume = lit_resume lit, job_contact = lit_contact lit,
             job_source = lit_source lit, job_last_updated = now\<rparr>)"
  by (auto simp: job_create_def cast_user_def split: option.splits)

lemma status_default_Inr:
  "status_default st = Inr s \<Longrightarrow> s \<in> set status_enum \<and> (st = None \<longrightarrow> s = ''applied'') \<and> (\<forall>v. st = Some v \<longrightarrow> s = v)"
  by (auto simp: status_default_def Let_def split: if_splits option.splits)

lemma job_create_valid:
  "job_create i now lit = Inr j \<Longrightarrow> job_valid j"
  by (auto simp: job_create_Inr job_valid_def valid_oid_cast dest: status_default_Inr)

text \<open>The paths an update never writes: the id, the owner and the application date.\<close>

lemma job_set_frame [simp]:
  "job_id (job_set u d j) = job_id j" "job_user (job_set u d j) = job_user j"
  "job_applied_date (job_set u d j) = job_applied_date j"
  "job_interview_date (job_set u d j) = d"
  "job_last_updated (job_set u d j) = upd_last_updated u"
  by (simp_all add: job_set_def)

lemma job_apply_update_Inr:
  "job_apply_update u j = Inr j' \<longleftrightarrow> (\<exists>d. cast_date (upd_interview_date u) = Inr d \<and> j' = job_set u d j)"
  unfolding job_apply_update_def by auto

end
