(* ===== verification/JobStore.thy ===== *)
theory JobStore
  imports JobModel
begin

text \<open>
  The jobs collection and the mongoose queries the controller issues on it.
  The collection is a list of documents in natural (insertion) order.  Each
  query first casts its id argument (a \<open>CastError\<close> otherwise):
  \<^item> \<open>find_jobs\<close>: \<open>Job.find({user})\<close> and \<open>Job.find({user, status})\<close>;
  \<^item> \<open>sort_applied_desc\<close>: \<open>.sort({appliedDate: -1})\<close>, a stable sort, so jobs
    with equal dates keep their natural order;
  \<^item> \<open>find_job_by_id\<close>, \<open>insert_job\<close> (\<open>save\<close> of a new document, refused on a
    duplicate \<open>_id\<close>), \<open>update_job_by_id\<close> (\<open>findByIdAndUpdate\<close> with
    \<open>{new: true}\<close>: the update document is cast first, then the matching
    document is replaced and returned, \<open>null\<close> when there is none) and
    \<open>delete_job_by_id\<close> (\<open>findByIdAndDelete\<close>).
  The invariant \<open>jobs_wf\<close> (ids distinct, ids and owners canonical ObjectIds) is
  kept by every write; the lemmas give each query's result.
\<close>

type_synonym jobs = "job list"

named_theorems store_simps "results of the jobs-collection queries"

definition find_jobs :: "string \<Rightarrow> string option \<Rightarrow> jobs \<Rightarrow> db_error + jobs" where
  "find_jobs uid st js =
     ebind (cast_user uid) (\<lambda>u.
       Inr (filter (\<lambda>j. job_user j = u \<and> (case st of None \<Rightarrow> True | Some s \<Rightarrow> job_status j = s)) js))"

definition sort_applied_desc :: "jobs \<Rightarrow> jobs" where
  "sort_applied_desc js = sort_key (\<lambda>j. - int (job_applied_date j)) js"

definition cast_id :: "string \<Rightarrow> db_error + oid" where
  "cast_id s = (case cast_oid s of None \<Rightarrow> Inl (CastError ''_id'') | Some k \<Rightarrow> Inr k)"

definition find_job_by_id :: "string \<Rightarrow> jobs \<Rightarrow> db_error + job option" where
  "find_job_by_id i js = ebind (cast_id i) (\<lambda>k. Inr (find (\<lambda>j. job_id j = k) js))"

definition insert_job :: "job \<Rightarrow> jobs \<Rightarrow> db_error + jobs" where
  "insert_job j js =
     (if job_id j \<in> set (map job_id js) then Inl (DuplicateKey (job_id j)) else Inr (js @ [j]))"

definition update_job_by_id :: "string \<Rightarrow> job_update \<Rightarrow> jobs \<Rightarrow> db_error + (job option \<times> jobs)" where
  "update_job_by_id i u js =
     ebind (cast_id i) (\<lambda>k.
     ebind (cast_date (upd_interview_date u)) (\<lambda>d.
       (case find (\<lambda>j. job_id j = k) js of
          None \<Rightarrow> Inr (None, js)
        | Some j \<Rightarrow> Inr (Some (job_set u d j), map (\<lambda>x. if job_id x = k then job_set u d x else x) js))))"

definition delete_job_by_id :: "string \<Rightarrow> jobs \<Rightarrow> db_error + jobs" where
  "delete_job_by_id i js = ebind (cast_id i) (\<lambda>k. Inr (filter (\<lambda>j. job_id j \<noteq> k) js))"

definition jobs_wf :: "jobs \<Rightarrow> bool" where
  "jobs_wf js =
     (distinct (map job_id js) \<and> list_all (\<lambda>j. valid_oid (job_id j) \<and> valid_oid (job_user j)) js)"

text \<open>
  The abstract view of the collection: the map from an id to the document
  a lookup by that id finds, the contract of a key-value store.
\<close>

definition store_abs :: "jobs \<Rightarrow> oid \<rightharpoonup> job" where
  "store_abs js = map_of (map (\<lambda>j. (job_id j, j)) js)"

section \<open>Queries\<close>

lemma cast_user_Inr [simp]: "cast_user s = Inr u \<longleftrightarrow> cast_oid s = Some u"
  by (auto simp: cast_user_def split: option.splits)

lemma cast_id_Inr [simp]: "cast_id s = Inr k \<longleftrightarrow> cast_oid s = Some k"
  by (auto simp: cast_id_def split: option.splits)

lemma cast_oid_valid_Some [simp]: "valid_oid s \<Longrightarrow> cast_oid s = Some s"
  by (simp add: valid_oid_def)

lemma find_jobs_Inr [store_simps]:
  "find_jobs uid st js = Inr rs \<longleftrightarrow>
     (\<exists>u. cast_oid uid = Some u \<and>
        rs = filter (\<lambda>j. job_user j = u \<and> (case st of None \<Rightarrow> True | Some s \<Rightarrow> job_status j = s)) js)"
  by (auto simp: find_jobs_def)

lemma find_jobs_Inl [store_simps]: "find_jobs uid st js = Inl e \<longleftrightarrow> cast_oid uid = None \<and> e = CastError ''user''"
  by (cases "cast_oid uid") (auto simp: find_jobs_def cast_user_def)

lemma mset_sort_applied_desc [simp]: "mset (sort_applied_desc js) = mset js"
  by (simp add: sort_applied_desc_def)

lemma length_sort_applied_desc [simp]: "length (sort_applied_desc js) = length js"
  by (simp add: sort_applied_desc_def)

lemma set_sort_applied_desc [simp]: "set (sort_applied_desc js) = set js"
  by (simp add: sort_applied_desc_def)

lemma sorted_sort_applied_desc:
  "sorted_wrt (\<lambda>a b. job_applied_date b \<le> job_applied_date a) (sort_applied_desc js)"
proof -
  have "sorted (map (\<lambda>j. - int (job_applied_date j)) (sort_applied_desc js))"
    by (simp add: sort_applied_desc_def)
  then show ?thesis
    by (simp add: sorted_map sorted_wrt_iff_nth_less)
qed

lemma filter_sort_applied_desc:
  "filter P (sort_applied_desc js) = sort_applied_desc (filter P js)"
  by (simp add: sort_applied_desc_def filter_sort)

lemma find_job_by_id_Inr [store_simps]:
  "find_job_by_id i js = Inr r \<longleftrightarrow> (\<exists>k. cast_oid i = Some k \<and> r = find (\<lambda>j. job_id j = k) js)"
  by (auto simp: find_job_by_id_def)

lemma find_job_by_id_Inl [store_simps]:
  "find_job_by_id i js = Inl e \<longleftrightarrow> cast_oid i = None \<and> e = CastError ''_id''"
  by (cases "cast_oid i") (auto simp: find_job_by_id_def cast_id_def)

lemma find_Some_job_id: "find (\<lambda>j. job_id j = k) js = Some j \<Longrightarrow> job_id j = k \<and> j \<in> set js"
  by (metis (mono_tags) find_Some_iff nth_mem)

lemma find_job_id_None: "find (\<lambda>j. job_id j = k) js = None \<longleftrightarrow> k \<notin> set (map job_id js)"
  by (auto simp: find_None_iff)

lemma find_job_id_unique:
  "distinct (map job_id js) \<Longrightarrow> j \<in> set js \<Longrightarrow> find (\<lambda>x. job_id x = job_id j) js = Some j"
  by (induction js) (auto simp: rev_image_eqI)

text \<open>Once the id casts, each query is its list operation.\<close>

lemma find_jobs_cast [store_simps]:
  "cast_oid uid = Some u \<Longrightarrow>
     find_jobs uid st js =
       Inr (filter (\<lambda>j. job_user j = u \<and> (case st of None \<Rightarrow> True | Some s \<Rightarrow> job_status j = s)) js)"
  by (simp add: find_jobs_def cast_user_def)

lemma find_job_by_id_cast [store_simps]:
  "cast_oid i = Some k \<Longrightarrow> find_job_by_id i js = Inr (find (\<lambda>j. job_id j = k) js)"
  by (simp add: find_job_by_id_def cast_id_def)

lemma delete_job_by_id_cast [store_simps]:
  "cast_oid i = Some k \<Longrightarrow> delete_job_by_id i js = Inr (filter (\<lambda>j. job_id j \<noteq> k) js)"
  by (simp add: delete_job_by_id_def cast_id_def)

lemma find_jobs_uncast [store_simps]:
  "cast_oid uid = None \<Longrightarrow> find_jobs uid st js = Inl (CastError ''user'')"
  by (simp add: find_jobs_def cast_user_def)

lemma find_job_by_id_uncast [store_simps]:
  "cast_oid i = None \<Longrightarrow> find_job_by_id i js = Inl (CastError ''_id'')"
  by (simp add: find_job_by_id_def cast_id_def)

lemma find_job_id_mem:
  "find (\<lambda>j. job_id j = k) js = Some j \<Longrightarrow>
     job_set u d j \<in> set (map (\<lambda>x. if job_id x = k then job_set u d x else x) js)"
  using find_Some_job_id [of k js j] by force

section \<open>Writes keep the invariant\<close>

lemma jobs_wf_Nil [simp]: "jobs_wf []"
  by (simp add: jobs_wf_def)

lemma insert_job_wf:
  "jobs_wf js \<Longrightarrow> valid_oid (job_id j) \<Longrightarrow> valid_oid (job_user j) \<Longrightarrow>
     insert_job j js = Inr js' \<Longrightarrow> jobs_wf js'"
  by (auto simp: insert_job_def jobs_wf_def split: if_splits)

lemma job_id_replace [simp]:
  "job_id \<circ> (\<lambda>x. if job_id x = k then job_set u d x else x) = job_id"
  by (rule ext) simp

lemma update_job_by_id_ids:
  "update_job_by_id i u js = Inr (r, js') \<Longrightarrow> map job_id js' = map job_id js"
  by (auto simp: update_job_by_id_def split: option.splits)

text \<open>An update keeps the identity fields (id, owner, application date) of every record.\<close>

lemma update_job_by_id_identity:
  "update_job_by_id i u js = Inr (r, js') \<Longrightarrow>
     map (\<lambda>j. (job_id j, job_user j, job_applied_date j)) js' =
     map (\<lambda>j. (job_id j, job_user j, job_applied_date j)) js"
  by (auto simp: update_job_by_id_def split: option.splits)

lemma update_job_by_id_wf:
  "jobs_wf js \<Longrightarrow> update_job_by_id i u js = Inr (r, js') \<Longrightarrow> jobs_wf js'"
  by (auto simp: update_job_by_id_def jobs_wf_def list_all_iff split: option.splits)

lemma jobs_wf_filter: "jobs_wf js \<Longrightarrow> jobs_wf (filter P js)"
  by (auto simp: jobs_wf_def list_all_iff distinct_map_filter)

lemma delete_job_by_id_wf:
  "jobs_wf js \<Longrightarrow> delete_job_by_id i js = Inr js' \<Longrightarrow> jobs_wf js'"
  by (auto simp: delete_job_by_id_def intro: jobs_wf_filter)

section \<open>What the writes do\<close>

lemma insert_job_Inr [store_simps]:
  "insert_job j js = Inr js' \<longleftrightarrow> job_id j \<notin> set (map job_id js) \<and> js' = js @ [j]"
  by (auto simp: insert_job_def)

lemma find_replace_job_set:
  "find (\<lambda>x. job_id x = k) (map (\<lambda>x. if job_id x = k then job_set u d x else x) js) =
     map_option (job_set u d) (find (\<lambda>x. job_id x = k) js)"
  by (induction js) auto

lemma update_job_by_id_found:
  assumes "cast_oid i = Some k" "cast_date (upd_interview_date u) = Inr d"
    and "find (\<lambda>j. job_id j = k) js = Some j"
  shows "update_job_by_id i u js =
           Inr (Some (job_set u d j), map (\<lambda>x. if job_id x = k then job_set u d x else x) js)"
proof -
  have "cast_id i = Inr k" using assms(1) by (simp add: cast_id_def)
  with assms(2,3) show ?thesis
    by (simp add: update_job_by_id_def del: ebind_eq_Inr cast_id_Inr)
qed

lemma delete_job_by_id_Inr [store_simps]:
  "delete_job_by_id i js = Inr js' \<longleftrightarrow> (\<exists>k. cast_oid i = Some k \<and> js' = filter (\<lambda>j. job_id j \<noteq> k) js)"
  by (auto simp: delete_job_by_id_def)

section \<open>Writes to one record leave the others\<close>

lemma filter_replace_others:
  "(\<forall>x \<in> set xs. job_id x = k \<longrightarrow> \<not> P x) \<Longrightarrow> (\<And>x. P (f x) = P x) \<Longrightarrow>
     filter P (map (\<lambda>x. if job_id x = k then f x else x) xs) = filter P xs"
  by (induction xs) auto

lemma filter_delete_others:
  "(\<forall>x \<in> set xs. job_id x = k \<longrightarrow> \<not> P x) \<Longrightarrow> filter P (filter (\<lambda>x. job_id x \<noteq> k) xs) = filter P xs"
  by (induction xs) auto

lemma jobs_wf_same_id:
  "jobs_wf js \<Longrightarrow> find (\<lambda>x. job_id x = k) js = Some j \<Longrightarrow>
     \<forall>x \<in> set js. job_id x = k \<longrightarrow> x = j \<and> cast_oid (job_user x) = Some (job_user x)"
  using find_Some_job_id [of k js j]
  by (auto simp: jobs_wf_def list_all_iff valid_oid_def dest: inj_on_eq_iff [OF distinct_map [THEN iffD1, THEN conjunct2]])

section \<open>The collection refines a map from ids to documents\<close>

lemma find_store_abs: "find (\<lambda>j. job_id j = k) js = store_abs js k"
  by (induction js) (auto simp: store_abs_def)

lemma store_abs_None: "store_abs js k = None \<longleftrightarrow> k \<notin> set (map job_id js)"
  by (induction js) (auto simp: store_abs_def)


lemma store_abs_append_new:
  "job_id j \<notin> set (map job_id js) \<Longrightarrow> store_abs (js @ [j]) = (store_abs js)(job_id j \<mapsto> j)"
  by (induction js) (auto simp: store_abs_def fun_eq_iff)

lemma store_abs_replace:
  "store_abs (map (\<lambda>x. if job_id x = k then f x else x) js) =
     (store_abs js)(k := map_option f (store_abs js k))" if "\<And>x. job_id (f x) = job_id x"
  using that by (induction js) (auto simp: store_abs_def fun_eq_iff)

lemma store_abs_delete:
  "store_abs (filter (\<lambda>x. job_id x \<noteq> k) js) = (store_abs js)(k := None)"
  by (induction js) (auto simp: store_abs_def fun_eq_iff)

lemma update_job_by_id_abs:
  assumes "cast_oid i = Some k" "update_job_by_id i u js = Inr (r, js')"
  shows "\<exists>d. cast_date (upd_interview_date u) = Inr d \<and> r = map_option (job_set u d) (store_abs js k) \<and>
    store_abs js' = (store_abs js)(k := r)"
proof -
  from assms obtain d where d: "cast_date (upd_interview_date u) = Inr d"
    and c: "(case store_abs js k of None \<Rightarrow> Inr (None, js)
            | Some j \<Rightarrow> Inr (Some (job_set u d j), map (\<lambda>x. if job_id x = k then job_set u d x else x) js))
           = (Inr (r, js') :: db_error + (job option \<times> jobs))"
    by (auto simp: update_job_by_id_def cast_id_def find_store_abs)
  show ?thesis
  proof (cases "store_abs js k")
    case None
    with c d show ?thesis by auto
  next
    case (Some j)
    with c d show ?thesis by (auto simp: store_abs_replace)
  qed
qed

end
