(* ===== verification/Upload.thy ===== *)
theory Upload
  imports Prelude
begin

text \<open>
  The attachment store: \<open>middleware/upload.js\<close> configures multer with a disk
  storage under \<open>uploads/\<close>, the file name \<open>Date.now() + '-' + originalname\<close>,
  a filter that admits \<open>application/pdf\<close> only, and a 5 MiB size limit; the
  routes use \<open>upload.single('resume')\<close>.  The file system is the set of stored
  paths.  \<open>upload_single\<close> is one multipart request's file handling: no file,
  a rejected file (wrong field, wrong type, too large; nothing is left on disk,
  multer removes a partial file), or a stored file.  \<open>extname\<close> is Node's
  \<open>path.extname\<close>, used for the download name.  Lemmas: the type and size
  guards, what is written, the file-name round trip (the name determines the
  timestamp and the original name, so two uploads collide exactly when both
  agree), and the extension of a stored file.
  Multer reports \<open>originalname\<close> as a base name (busboy strips directories), so
  \<open>path.join('uploads/', name)\<close> is the concatenation.
\<close>

type_synonym fs = "string set"

record upload_file =
  up_fieldname :: string
  up_originalname :: string
  up_mimetype :: string
  up_size :: nat

record stored_file =
  sf_originalname :: string
  sf_mimetype :: string
  sf_filename :: string
  sf_path :: string
  sf_size :: nat

datatype upload_error = UnexpectedField | UnsupportedType | FileTooLarge

definition upload_field :: string where
  "upload_field = ''resume''"

definition allowed_types :: "string list" where
  "allowed_types = [''application/pdf'']"

definition file_filter :: "upload_file \<Rightarrow> bool" where
  "file_filter f = (up_mimetype f \<in> set allowed_types)"

definition file_size_limit :: nat where
  "file_size_limit = 5 * 1024 * 1024"

definition upload_destination :: string where
  "upload_destination = ''uploads/''"

definition upload_filename :: "time \<Rightarrow> upload_file \<Rightarrow> string" where
  "upload_filename now f = dec_string now @ ''-'' @ up_originalname f"

definition upload_single :: "time \<Rightarrow> upload_file option \<Rightarrow> fs \<Rightarrow> upload_error + (stored_file option \<times> fs)" where
  "upload_single now fo files =
     (case fo of
        None \<Rightarrow> Inr (None, files)
      | Some f \<Rightarrow>
          if up_fieldname f \<noteq> upload_field then Inl UnexpectedField
          else if \<not> file_filter f then Inl UnsupportedType
          else if file_size_limit < up_size f then Inl FileTooLarge
          else
            (let name = upload_filename now f; p = upload_destination @ name in
             Inr (Some \<lparr>sf_originalname = up_originalname f, sf_mimetype = up_mimetype f,
                        sf_filename = name, sf_path = p, sf_size = up_size f\<rparr>,
                  insert p files)))"

text \<open>Splitting a stored file name at its first dash gives back what built it.\<close>

definition split_upload_filename :: "string \<Rightarrow> time \<times> string" where
  "split_upload_filename s =
     (digits_value 10 (takeWhile (\<lambda>c. c \<noteq> CHR ''-'') s),
      tl (dropWhile (\<lambda>c. c \<noteq> CHR ''-'') s))"

text \<open>Node's \<open>path.basename\<close> and \<open>path.extname\<close> on a path without a trailing slash.\<close>

definition basename :: "string \<Rightarrow> string" where
  "basename p = rev (takeWhile (\<lambda>c. c \<noteq> CHR ''/'') (rev p))"

definition extname :: "string \<Rightarrow> string" where
  "extname p =
     (let b = basename p; before = dropWhile (\<lambda>c. c \<noteq> CHR ''.'') (rev b) in
      if before = [] \<or> tl before = [] \<or> b = ''..'' then []
      else CHR ''.'' # rev (takeWhile (\<lambda>c. c \<noteq> CHR ''.'') (rev b)))"

section \<open>Lemmas\<close>

lemma upload_single_None [simp]: "upload_single now None files = Inr (None, files)"
  by (simp add: upload_single_def)

lemma upload_single_Inr_Some:
  "upload_single now (Some f) files = Inr (Some sf, files') \<longleftrightarrow>
     up_fieldname f = upload_field \<and> file_filter f \<and> up_size f \<le> file_size_limit \<and>
     sf = \<lparr>sf_originalname = up_originalname f, sf_mimetype = up_mimetype f,
           sf_filename = upload_filename now f,
           sf_path = upload_destination @ upload_filename now f, sf_size = up_size f\<rparr> \<and>
     files' = insert (upload_destination @ upload_filename now f) files"
  by (auto simp: upload_single_def Let_def)

lemma upload_single_Some_not_None:
  "upload_single now (Some f) files \<noteq> Inr (None, files')"
  by (simp add: upload_single_def Let_def)

lemma upload_single_Inl:
  "upload_single now fo files = Inl e \<longleftrightarrow>
     (\<exists>f. fo = Some f \<and>
        (if up_fieldname f \<noteq> upload_field then e = UnexpectedField
         else if \<not> file_filter f then e = UnsupportedType
         else file_size_limit < up_size f \<and> e = FileTooLarge))"
  by (auto simp: upload_single_def Let_def split: option.splits)

lemma upload_single_files:
  "upload_single now fo files = Inr (sfo, files') \<Longrightarrow>
     files' = files \<union> (case sfo of None \<Rightarrow> {} | Some sf \<Rightarrow> {sf_path sf})"
  by (auto simp: upload_single_def Let_def split: option.splits if_splits)

lemma split_upload_filename_inverse:
  "split_upload_filename (upload_filename now f) = (now, up_originalname f)"
  by (simp add: split_upload_filename_def upload_filename_def
      takeWhile_append_sep dropWhile_append_sep)

lemma upload_filename_inj:
  "upload_filename now f = upload_filename now' f' \<longleftrightarrow>
     now = now' \<and> up_originalname f = up_originalname f'"
  by (metis Pair_inject split_upload_filename_inverse upload_filename_def)

lemma basename_append_slash:
  "CHR ''/'' \<notin> set b \<Longrightarrow> basename (d @ CHR ''/'' # b) = b"
  by (simp add: basename_def takeWhile_append_sep [where c = "CHR ''/''", of "rev b"])

lemma basename_upload_path:
  "CHR ''/'' \<notin> set (up_originalname f) \<Longrightarrow>
     basename (upload_destination @ upload_filename now f) = upload_filename now f"
  using basename_append_slash [of "upload_filename now f" "''uploads''"]
  by (simp add: upload_destination_def upload_filename_def)

text \<open>
  A stored file keeps the extension of the uploaded name: the last dot of the
  stored base name is the last dot of the original name.
\<close>

lemma extname_upload_path:
  assumes "CHR ''/'' \<notin> set (up_originalname f)"
    and "up_originalname f = base @ CHR ''.'' # ext" and "CHR ''.'' \<notin> set ext"
  shows "extname (upload_destination @ upload_filename now f) = CHR ''.'' # ext"
proof -
  let ?b = "upload_filename now f"
  have rb: "rev ?b = rev ext @ CHR ''.'' # rev (dec_string now @ CHR ''-'' # base)"
    using assms(2) by (simp add: upload_filename_def)
  have "dropWhile (\<lambda>c. c \<noteq> CHR ''.'') (rev ?b) = CHR ''.'' # rev (dec_string now @ CHR ''-'' # base)"
    unfolding rb using assms(3) by (simp add: dropWhile_append_sep)
  moreover have "takeWhile (\<lambda>c. c \<noteq> CHR ''.'') (rev ?b) = rev ext"
    unfolding rb using assms(3) by (simp add: takeWhile_append_sep)
  moreover have "CHR ''-'' \<in> set ?b"
    by (simp add: upload_filename_def)
  then have "?b \<noteq> ''..''" by auto
  moreover have "CHR ''.'' \<in> set ?b"
    using assms(2) by (simp add: upload_filename_def)
  ultimately show ?thesis
    using basename_upload_path [OF assms(1)] by (simp add: extname_def Let_def)
qed

end
