(* ===== verification/Users.thy ===== *)
theory Users
  imports ObjectId
begin

text \<open>
  The credential store.  \<open>models/User.js\<close> is not among the sources; it is
  modelled from the spec: a user document has an id, a display name, an email
  and the stored credential, which a pre-save hook hashes.  The hash is the
  opaque \<open>Hashed\<close> value and \<open>bcrypt_compare\<close> accepts exactly the password it
  was made from (a one-way function is not modelled).  \<open>find_user_by_id\<close>
  (\<open>User.findById\<close>, casting the id first) and \<open>find_user_by_email\<close>
  (\<open>User.findOne({email})\<close>) are the two queries the controllers issue.
\<close>

datatype credential = Hashed string

record user_doc =
  user_id :: oid
  user_name :: string
  user_email :: string
  user_password :: credential

text \<open>What \<open>.select('-password')\<close> returns: the document without its credential.\<close>

record user_public =
  pub_id :: oid
  pub_name :: string
  pub_email :: string

definition public_view :: "user_doc \<Rightarrow> user_public" where
  "public_view u = \<lparr>pub_id = user_id u, pub_name = user_name u, pub_email = user_email u\<rparr>"

fun bcrypt_compare :: "string \<Rightarrow> credential \<Rightarrow> bool" where
  "bcrypt_compare pw (Hashed h) = (pw = h)"

definition find_user_by_id :: "string \<Rightarrow> user_doc list \<Rightarrow> string + user_doc option" where
  "find_user_by_id i us =
     (case cast_oid i of None \<Rightarrow> Inl ''CastError'' | Some k \<Rightarrow> Inr (find (\<lambda>u. user_id u = k) us))"

definition find_user_by_email :: "string \<Rightarrow> user_doc list \<Rightarrow> user_doc option" where
  "find_user_by_email e us = find (\<lambda>u. user_email u = e) us"

definition users_wf :: "user_doc list \<Rightarrow> bool" where
  "users_wf us =
     (distinct (map user_id us) \<and> distinct (map user_email us) \<and> list_all (\<lambda>u. valid_oid (user_id u)) us)"

lemma find_user_by_id_valid:
  "valid_oid i \<Longrightarrow> find_user_by_id i us = Inr (find (\<lambda>u. user_id u = i) us)"
  by (simp add: find_user_by_id_def valid_oid_def)

lemma find_user_by_email_None: "find_user_by_email e us = None \<longleftrightarrow> e \<notin> set (map user_email us)"
  by (auto simp: find_user_by_email_def find_None_iff)

end
