(* ===== verification/Server.thy ===== *)
theory Server
  imports JobStore Upload Auth Users
begin

text \<open>
  The state one server process keeps and the shape of its replies, shared by
  both controllers.  \<open>server\<close> holds the two collections (jobs, users), the
  files under \<open>uploads/\<close>, the mails the transport has accepted, and the
  counter behind fresh ObjectIds.  A request's environment \<open>env\<close> is the clock
  (\<open>Date.now()\<close>), the \<open>Date\<close> constructor applied to a body string, and whether
  the mail transport accepts a message.  A response is a status code, the
  \<open>success\<close> flag and the body.  \<open>notify_user\<close> is the code both handlers of
  \<open>jobController.js\<close> run to mail the caller: look the user up, send when an
  email is present; a failed lookup or a rejected \<open>sendMail\<close> is an error of
  the request.
\<close>

record mail =
  mail_from :: "string option"
  mail_to :: string
  mail_subject :: string
  mail_text :: string

record server =
  srv_jobs :: jobs
  srv_users :: "user_doc list"
  srv_files :: fs
  srv_outbox :: "mail list"
  srv_seq :: nat

record env =
  env_now :: time
  env_date :: "string option \<Rightarrow> time option"
  env_mail_ok :: bool
  env_email_user :: "string option"
  env_email_pass :: "string option"

record stats =
  st_applied :: nat
  st_interview :: nat
  st_offer :: nat
  st_rejected :: nat
  st_total :: nat

datatype reply =
    RJobs nat "job list"
  | RJob "job option"
  | RStats stats
  | RMsg string
  | RToken jwt_token
  | RUser user_public
  | RDownload string string
  | RStatic string

datatype response = Response nat bool reply

datatype ctl_error = DbError db_error | UserLookupError string | MailError

definition resp_code :: "response \<Rightarrow> nat" where
  "resp_code r = (case r of Response c _ _ \<Rightarrow> c)"

text \<open>
  The transporter of \<open>jobController.js\<close>: \<open>nodemailer.createTransport\<close> for
  the \<open>gmail\<close> service, authenticating with \<open>process.env.EMAIL_USER\<close> and
  \<open>EMAIL_PASS\<close>.  Without both credentials the SMTP login fails (nodemailer's
  \<open>Missing credentials\<close>), so \<open>sendMail\<close> rejects; with them it sends when the
  transport accepts the message.
\<close>

definition smtp_credentials :: "env \<Rightarrow> bool" where
  "smtp_credentials e = (js_truthy (env_email_user e) \<and> js_truthy (env_email_pass e))"

definition send_mail :: "env \<Rightarrow> mail \<Rightarrow> server \<Rightarrow> ctl_error + server" where
  "send_mail e m s =
     (if smtp_credentials e \<and> env_mail_ok e then Inr (s\<lparr>srv_outbox := srv_outbox s @ [m]\<rparr>)
      else Inl MailError)"

definition notify_user :: "env \<Rightarrow> string \<Rightarrow> string \<Rightarrow> string \<Rightarrow> server \<Rightarrow> ctl_error + server" where
  "notify_user e uid subject txt s =
     (case find_user_by_id uid (srv_users s) of
        Inl err \<Rightarrow> Inl (UserLookupError err)
      | Inr None \<Rightarrow> Inr s
      | Inr (Some u) \<Rightarrow>
          if user_email u = [] then Inr s
          else send_mail e \<lparr>mail_from = env_email_user e, mail_to = user_email u, mail_subject = subject,
                              mail_text = txt\<rparr> s)"

text \<open>A message for the caller \<open>uid\<close>: from \<open>EMAIL_USER\<close> to the email of its user document.\<close>

definition mail_to_caller :: "env \<Rightarrow> string \<Rightarrow> user_doc list \<Rightarrow> mail \<Rightarrow> bool" where
  "mail_to_caller e uid us m =
     (mail_from m = env_email_user e \<and>
      (\<exists>u \<in> set us. cast_oid uid = Some (user_id u) \<and> mail_to m = user_email u))"

lemma resp_code_Response [simp]: "resp_code (Response c b r) = c"
  by (simp add: resp_code_def)

text \<open>Mailing changes nothing but the outbox.\<close>

lemma notify_user_frame:
  "notify_user e uid subj txt s = Inr s' \<Longrightarrow>
     s' = s\<lparr>srv_outbox := srv_outbox s'\<rparr> \<and> (\<exists>ms. srv_outbox s' = srv_outbox s @ ms)"
  by (auto simp: notify_user_def send_mail_def split: sum.splits option.splits if_splits)

lemma notify_user_keeps:
  "notify_user e uid subj txt s = Inr s' \<Longrightarrow>
     srv_jobs s' = srv_jobs s \<and> srv_users s' = srv_users s \<and> srv_files s' = srv_files s \<and>
     srv_seq s' = srv_seq s"
  by (drule notify_user_frame) (metis server.select_convs server.surjective server.update_convs(4))

text \<open>With a castable caller id and a working transport, mailing never fails.\<close>

lemma notify_user_Inr:
  "cast_oid uid \<noteq> None \<Longrightarrow> smtp_credentials e \<Longrightarrow> env_mail_ok e \<Longrightarrow>
     \<exists>s'. notify_user e uid subj txt s = Inr s'"
  by (auto simp: notify_user_def send_mail_def find_user_by_id_def split: option.splits)

text \<open>
  What mailing adds to the outbox: at most one message, sent from
  \<open>EMAIL_USER\<close> to the address of the user document whose id is the caller's.
\<close>

lemma notify_user_outbox:
  assumes "notify_user e uid subj txt s = Inr s'"
  shows "\<exists>ms. srv_outbox s' = srv_outbox s @ ms \<and> length ms \<le> 1 \<and>
    list_all (mail_to_caller e uid (srv_users s)) ms"
  using assms
  by (force simp: notify_user_def send_mail_def find_user_by_id_def find_Some_iff mail_to_caller_def
      split: sum.splits option.splits if_splits)

end
