(* ===== verification/JobController.thy ===== *)
theory JobController
  imports Server
begin

text \<open>
  The seven handlers of \<open>controllers/jobController.js\<close>, each a function from
  the caller's id (\<open>req.user.id\<close>, set by \<open>auth\<close>), the request's parameters and
  the server state to the response and the new state.  Every \<open>await\<close> that can
  reject is a branch: an error anywhere in the \<open>try\<close> block answers 500, with
  whatever the steps before it already wrote kept in the state.  The
  \<open>req.body\<close> fields are the record \<open>job_body\<close>, \<open>undefined\<close> being \<open>None\<close>;
  \<open>req.file\<close> is what multer stored.
\<close>

record job_body =
  body_company :: "string option"
  body_role :: "string option"
  body_status :: "string option"
  body_notes :: "string option"
  body_contact :: "string option"
  body_source :: "string option"
  body_interview_date :: "string option"

definition server_error :: "string \<Rightarrow> response" where
  "server_error msg = Response 500 False (RMsg msg)"

text \<open>\<open>status === 'interview' ? new Date(interviewDate) : null\<close>\<close>

definition interview_value :: "env \<Rightarrow> string option \<Rightarrow> string option \<Rightarrow> js_date" where
  "interview_value e st d = (if st = Some ''interview'' then JsDate (env_date e d) else JsNull)"

text \<open>\<open>req.file.path.replace(/\\/g, "/")\<close>\<close>

definition replace_backslashes :: "string \<Rightarrow> string" where
  "replace_backslashes p = map (\<lambda>c. if c = CHR 0x5C then CHR ''/'' else c) p"

definition unlink_resume :: "string option \<Rightarrow> fs \<Rightarrow> fs" where
  "unlink_resume r files = (if js_truthy r then files - {js_template r} else files)"

definition getJobs :: "string \<Rightarrow> server \<Rightarrow> response \<times> server" where
  "getJobs uid s =
     (case find_jobs uid None (srv_jobs s) of
        Inl _ \<Rightarrow> (server_error ''Server error while fetching jobs'', s)
      | Inr js \<Rightarrow> (Response 200 True (RJobs (length js) (sort_applied_desc js)), s))"

definition add_text :: "job_body \<Rightarrow> string" where
  "add_text b =
     ''You added a job application for '' @ js_template (body_company b) @ '' - '' @
     js_template (body_role b) @ '' with status '' @ js_template (body_status b) @ ''.''"

definition add_literal :: "env \<Rightarrow> string \<Rightarrow> job_body \<Rightarrow> stored_file option \<Rightarrow> job_literal" where
  "add_literal e uid b file =
     (let resumePath = map_option (\<lambda>f. replace_backslashes (sf_path f)) file in
      \<lparr>lit_user = uid, lit_company = body_company b, lit_role = body_role b,
       lit_status = body_status b, lit_notes = body_notes b,
       lit_contact = body_contact b, lit_source = body_source b,
       lit_interview_date = interview_value e (body_status b) (body_interview_date b),
       lit_resume = resumePath\<rparr>)"

definition addJob :: "env \<Rightarrow> string \<Rightarrow> job_body \<Rightarrow> stored_file option \<Rightarrow> server \<Rightarrow> response \<times> server" where
  "addJob e uid b file s =
     (let lit = add_literal e uid b file;
          s0 = s\<lparr>srv_seq := Suc (srv_seq s)\<rparr>
      in case ebind (job_create (oid_of_nat (srv_seq s)) (env_now e) lit) (\<lambda>j.
                ebind (insert_job j (srv_jobs s0)) (\<lambda>js. Inr (j, js))) of
           Inl _ \<Rightarrow> (server_error ''Server error while adding job'', s0)
         | Inr (j, js) \<Rightarrow>
             (let s1 = s0\<lparr>srv_jobs := js\<rparr> in
              case notify_user e uid ''New Job Application Added'' (add_text b) s1 of
                Inl _ \<Rightarrow> (server_error ''Server error while adding job'', s1)
              | Inr s2 \<Rightarrow> (Response 201 True (RJob (Some j)), s2)))"

definition status_text :: "job_body \<Rightarrow> string \<Rightarrow> string" where
  "status_text b old =
     ''The status of your job application for '' @ js_template (body_company b) @ '' - '' @
     js_template (body_role b) @ '' has changed from '' @ old @ '' to '' @
     js_template (body_status b) @ ''.''"

definition update_doc :: "env \<Rightarrow> job_body \<Rightarrow> stored_file option \<Rightarrow> job \<Rightarrow> job_update" where
  "update_doc e b file j =
     (let resumePath = (case file of Some f \<Rightarrow> Some (sf_path f) | None \<Rightarrow> job_resume j) in
      \<lparr>upd_company = body_company b, upd_role = body_role b,
       upd_status = body_status b, upd_notes = body_notes b,
       upd_contact = body_contact b, upd_source = body_source b,
       upd_interview_date = interview_value e (body_status b) (body_interview_date b),
       upd_resume = resumePath, upd_last_updated = env_now e\<rparr>)"

definition updateJob ::
  "env \<Rightarrow> string \<Rightarrow> string \<Rightarrow> job_body \<Rightarrow> stored_file option \<Rightarrow> server \<Rightarrow> response \<times> server" where
  "updateJob e uid i b file s =
     (case find_job_by_id i (srv_jobs s) of
        Inl _ \<Rightarrow> (server_error ''Server error while updating job'', s)
      | Inr None \<Rightarrow> (Response 404 False (RMsg ''Job not found''), s)
      | Inr (Some j) \<Rightarrow>
          if job_user j \<noteq> uid then (Response 401 False (RMsg ''Not authorized to update this job''), s)
          else
            (let oldStatus = job_status j; u = update_doc e b file j
             in case update_job_by_id i u (srv_jobs s) of
                  Inl _ \<Rightarrow> (server_error ''Server error while updating job'', s)
                | Inr (r, js) \<Rightarrow>
                    (let s1 = s\<lparr>srv_jobs := js\<rparr> in
                     if Some oldStatus \<noteq> body_status b then
                       (case notify_user e uid ''Job Status Updated'' (status_text b oldStatus) s1 of
                          Inl _ \<Rightarrow> (server_error ''Server error while updating job'', s1)
                        | Inr s2 \<Rightarrow> (Response 200 True (RJob r), s2))
                     else (Response 200 True (RJob r), s1))))"

definition deleteJob :: "string \<Rightarrow> string \<Rightarrow> server \<Rightarrow> response \<times> server" where
  "deleteJob uid i s =
     (case find_job_by_id i (srv_jobs s) of
        Inl _ \<Rightarrow> (server_error ''Server error while deleting job'', s)
      | Inr None \<Rightarrow> (Response 404 False (RMsg ''Job not found''), s)
      | Inr (Some j) \<Rightarrow>
          if job_user j \<noteq> uid then (Response 401 False (RMsg ''Not authorized to delete this job''), s)
          else
            (let s1 = s\<lparr>srv_files := unlink_resume (job_resume j) (srv_files s)\<rparr> in
             case delete_job_by_id i (srv_jobs s1) of
               Inl _ \<Rightarrow> (server_error ''Server error while deleting job'', s1)
             | Inr js \<Rightarrow> (Response 200 True (RMsg ''Job removed successfully''), s1\<lparr>srv_jobs := js\<rparr>)))"

definition getJobsByStatus :: "string \<Rightarrow> string \<Rightarrow> server \<Rightarrow> response \<times> server" where
  "getJobsByStatus uid st s =
     (case find_jobs uid (Some st) (srv_jobs s) of
        Inl _ \<Rightarrow> (server_error ''Server error while filtering jobs'', s)
      | Inr js \<Rightarrow> (Response 200 True (RJobs (length js) (sort_applied_desc js)), s))"

definition download_name :: "job \<Rightarrow> string \<Rightarrow> string" where
  "download_name j p = ''resume_'' @ job_company j @ ''_'' @ job_id j @ extname p"

definition downloadResume :: "string \<Rightarrow> string \<Rightarrow> server \<Rightarrow> response \<times> server" where
  "downloadResume uid i s =
     (case find_job_by_id i (srv_jobs s) of
        Inl _ \<Rightarrow> (server_error ''Server error while downloading resume'', s)
      | Inr None \<Rightarrow> (Response 404 False (RMsg ''Job not found''), s)
      | Inr (Some j) \<Rightarrow>
          if job_user j \<noteq> uid then (Response 401 False (RMsg ''Not authorized to download this resume''), s)
          else if \<not> js_truthy (job_resume j) then (Response 404 False (RMsg ''Resume not found for this job''), s)
          else
            (let p = js_template (job_resume j) in
             if p \<notin> srv_files s then (Response 404 False (RMsg ''Resume file not found on server.''), s)
             else (Response 200 True (RDownload p (download_name j p)), s)))"

definition count_status :: "string \<Rightarrow> jobs \<Rightarrow> nat" where
  "count_status st js = length (filter (\<lambda>j. job_status j = st) js)"

definition job_stats :: "jobs \<Rightarrow> stats" where
  "job_stats js =
     \<lparr>st_applied = count_status ''applied'' js, st_interview = count_status ''interview'' js,
      st_offer = count_status ''offer'' js, st_rejected = count_status ''rejected'' js,
      st_total = length js\<rparr>"

definition getJobStats :: "string \<Rightarrow> server \<Rightarrow> response \<times> server" where
  "getJobStats uid s =
     (case find_jobs uid None (srv_jobs s) of
        Inl _ \<Rightarrow> (server_error ''Server error while getting job stats'', s)
      | Inr js \<Rightarrow> (Response 200 True (RStats (job_stats js)), s))"

definition server_wf :: "server \<Rightarrow> bool" where
  "server_wf s =
     (jobs_wf (srv_jobs s) \<and> list_all (\<lambda>j. oid_value (job_id j) < srv_seq s) (srv_jobs s))"

lemmas handler_defs = getJobs_def addJob_def updateJob_def deleteJob_def getJobsByStatus_def
  downloadResume_def getJobStats_def

section \<open>Reads\<close>

text \<open>The reading handlers never change the state.\<close>

lemma read_handlers_state [simp]:
  "snd (getJobs uid s) = s" "snd (getJobsByStatus uid st s) = s"
  "snd (downloadResume uid i s) = s" "snd (getJobStats uid s) = s"
  by (simp_all add: handler_defs Let_def split: sum.splits option.splits)

lemma getJobs_cast:
  "cast_oid uid = Some u \<Longrightarrow>
     getJobs uid s =
       (Response 200 True (RJobs (length (filter (\<lambda>j. job_user j = u) (srv_jobs s)))
          (sort_applied_desc (filter (\<lambda>j. job_user j = u) (srv_jobs s)))), s)"
  by (simp add: getJobs_def find_jobs_cast)

lemma getJobs_uncast:
  "cast_oid uid = None \<Longrightarrow> getJobs uid s = (server_error ''Server error while fetching jobs'', s)"
  by (simp add: getJobs_def find_jobs_uncast)

lemma getJobsByStatus_cast:
  "cast_oid uid = Some u \<Longrightarrow>
     getJobsByStatus uid st s =
       (Response 200 True (RJobs (length (filter (\<lambda>j. job_user j = u \<and> job_status j = st) (srv_jobs s)))
          (sort_applied_desc (filter (\<lambda>j. job_user j = u \<and> job_status j = st) (srv_jobs s)))), s)"
  by (simp add: getJobsByStatus_def find_jobs_cast)

lemma getJobStats_cast:
  "cast_oid uid = Some u \<Longrightarrow>
     getJobStats uid s = (Response 200 True (RStats (job_stats (filter (\<lambda>j. job_user j = u) (srv_jobs s)))), s)"
  by (simp add: getJobStats_def find_jobs_cast)

section \<open>Ownership checks\<close>

text \<open>
  Each handler that targets one record looks it up first: a malformed id is a
  cast error (500), a missing record 404, another user's record 401, and in
  all three cases the state is left as it was.
\<close>

lemma target_not_owner:
  assumes "find_job_by_id i (srv_jobs s) = Inr (Some j)" "job_user j \<noteq> uid"
  shows "updateJob e uid i b file s = (Response 401 False (RMsg ''Not authorized to update this job''), s)"
    and "deleteJob uid i s = (Response 401 False (RMsg ''Not authorized to delete this job''), s)"
    and "downloadResume uid i s = (Response 401 False (RMsg ''Not authorized to download this resume''), s)"
  using assms by (simp_all add: updateJob_def deleteJob_def downloadResume_def)

lemma target_missing:
  assumes "find_job_by_id i (srv_jobs s) = Inr None"
  shows "updateJob e uid i b file s = (Response 404 False (RMsg ''Job not found''), s)"
    and "deleteJob uid i s = (Response 404 False (RMsg ''Job not found''), s)"
    and "downloadResume uid i s = (Response 404 False (RMsg ''Job not found''), s)"
  using assms by (simp_all add: updateJob_def deleteJob_def downloadResume_def)

lemma target_uncast:
  assumes "cast_oid i = None"
  shows "updateJob e uid i b file s = (server_error ''Server error while updating job'', s)"
    and "deleteJob uid i s = (server_error ''Server error while deleting job'', s)"
    and "downloadResume uid i s = (server_error ''Server error while downloading resume'', s)"
  using assms by (simp_all add: updateJob_def deleteJob_def downloadResume_def find_job_by_id_uncast)

section \<open>Creating\<close>

lemma addJob_201:
  "addJob e uid b file s = (Response 201 ok r, s') \<longleftrightarrow>
     (\<exists>j s2. job_create (oid_of_nat (srv_seq s)) (env_now e) (add_literal e uid b file) = Inr j \<and>
        job_id j \<notin> set (map job_id (srv_jobs s)) \<and>
        notify_user e uid ''New Job Application Added'' (add_text b)
          (s\<lparr>srv_seq := Suc (srv_seq s), srv_jobs := srv_jobs s @ [j]\<rparr>) = Inr s2 \<and>
        ok \<and> r = RJob (Some j) \<and> s' = s2)"
  by (auto simp: addJob_def Let_def server_error_def insert_job_def
      split: sum.splits if_splits prod.splits)

lemma addJob_codes:
  "resp_code (fst (addJob e uid b file s)) \<in> {201, 500}"
  by (simp add: addJob_def Let_def server_error_def split: sum.splits prod.splits)

lemma interview_value_cast:
  "cast_date (interview_value e st d) = Inr x \<Longrightarrow>
     x = (if st = Some ''interview'' then env_date e d else None)"
  by (auto simp: interview_value_def cast_date_Inr split: if_splits)


lemma add_literal_sel [simp]:
  "lit_user (add_literal e uid b file) = uid"
  "lit_status (add_literal e uid b file) = body_status b"
  "lit_interview_date (add_literal e uid b file) = interview_value e (body_status b) (body_interview_date b)"
  "lit_resume (add_literal e uid b file) = map_option (\<lambda>f. replace_backslashes (sf_path f)) file"
  by (simp_all add: add_literal_def)

lemma addJob_created:
  assumes "addJob e uid b file s = (Response 201 ok (RJob (Some j)), s')"
  shows "srv_jobs s' = srv_jobs s @ [j] \<and> job_id j = oid_of_nat (srv_seq s) \<and>
         cast_oid uid = Some (job_user j) \<and>
         job_applied_date j = env_now e \<and> job_last_updated j = env_now e \<and>
         job_interview_date j =
           (if body_status b = Some ''interview'' then env_date e (body_interview_date b) else None) \<and>
         job_status j = (case body_status b of None \<Rightarrow> ''applied'' | Some st \<Rightarrow> st) \<and>
         job_resume j = map_option (\<lambda>f. replace_backslashes (sf_path f)) file"
proof -
  from assms obtain s2 where
    c: "job_create (oid_of_nat (srv_seq s)) (env_now e) (add_literal e uid b file) = Inr j" and
    n: "notify_user e uid ''New Job Application Added'' (add_text b)
          (s\<lparr>srv_seq := Suc (srv_seq s), srv_jobs := srv_jobs s @ [j]\<rparr>) = Inr s2" and
    s': "s' = s2"
    by (auto simp: addJob_201)
  from n s' have "srv_jobs s' = srv_jobs s @ [j]" by (auto dest: notify_user_keeps)
  moreover from c obtain d st where
    "cast_oid uid = Some (job_user j)" "job_id j = oid_of_nat (srv_seq s)"
    "job_applied_date j = env_now e" "job_last_updated j = env_now e"
    and cd: "cast_date (interview_value e (body_status b) (body_interview_date b)) = Inr d"
    and "job_interview_date j = d" and sd: "status_default (body_status b) = Inr st"
    and "job_status j = st"
    and "job_resume j = map_option (\<lambda>f. replace_backslashes (sf_path f)) file"
    unfolding job_create_Inr by auto
  moreover have "d = (if body_status b = Some ''interview'' then env_date e (body_interview_date b) else None)"
    using cd by (rule interview_value_cast)
  moreover have "st = (case body_status b of None \<Rightarrow> ''applied'' | Some v \<Rightarrow> v)"
    using status_default_Inr [OF sd] by (cases "body_status b") simp_all
  ultimately show ?thesis by simp
qed

lemma interview_value_cast_interview:
  "st = Some ''interview'' \<Longrightarrow> cast_date (interview_value e st d) = Inr x \<Longrightarrow> x \<noteq> None"
  by (auto simp: interview_value_def cast_date_Inr)

text \<open>The separator rewrite of addJob changes exactly the paths that contain a backslash.\<close>

lemma replace_backslashes_id: "CHR 0x5C \<notin> set p \<Longrightarrow> replace_backslashes p = p"
  by (induction p) (auto simp: replace_backslashes_def)

lemma replace_backslashes_changes: "CHR 0x5C \<in> set p \<Longrightarrow> replace_backslashes p \<noteq> p"
proof
  assume "CHR 0x5C \<in> set p" "replace_backslashes p = p"
  moreover have "CHR 0x5C \<notin> set (replace_backslashes p)" by (auto simp: replace_backslashes_def)
  ultimately show False by simp
qed

section \<open>Updating\<close>

lemma update_doc_sel [simp]:
  "upd_interview_date (update_doc e b file j) = interview_value e (body_status b) (body_interview_date b)"
  "upd_status (update_doc e b file j) = body_status b"
  "upd_resume (update_doc e b file j) = (case file of Some f \<Rightarrow> Some (sf_path f) | None \<Rightarrow> job_resume j)"
  by (simp_all add: update_doc_def)

lemma updateJob_owner:
  assumes "cast_oid i = Some k" "find (\<lambda>x. job_id x = k) (srv_jobs s) = Some j" "job_user j = uid"
  shows "updateJob e uid i b file s =
    (case cast_date (interview_value e (body_status b) (body_interview_date b)) of
       Inl _ \<Rightarrow> (server_error ''Server error while updating job'', s)
     | Inr d \<Rightarrow>
         (let s1 = s\<lparr>srv_jobs := map (\<lambda>x. if job_id x = k then job_set (update_doc e b file j) d x else x)
                                  (srv_jobs s)\<rparr>;
              r = RJob (Some (job_set (update_doc e b file j) d j)) in
          if Some (job_status j) \<noteq> body_status b then
            (case notify_user e uid ''Job Status Updated'' (status_text b (job_status j)) s1 of
               Inl _ \<Rightarrow> (server_error ''Server error while updating job'', s1)
             | Inr s2 \<Rightarrow> (Response 200 True r, s2))
          else (Response 200 True r, s1)))"
proof (cases "cast_date (interview_value e (body_status b) (body_interview_date b))")
  case (Inl err)
  with assms show ?thesis
    by (simp add: updateJob_def find_job_by_id_cast update_job_by_id_def cast_id_def)
next
  case (Inr d)
  then have "update_job_by_id i (update_doc e b file j) (srv_jobs s) =
      Inr (Some (job_set (update_doc e b file j) d j),
           map (\<lambda>x. if job_id x = k then job_set (update_doc e b file j) d x else x) (srv_jobs s))"
    using assms by (intro update_job_by_id_found) simp_all
  with assms Inr show ?thesis
    by (simp add: updateJob_def find_job_by_id_cast Let_def)
qed

text \<open>Whatever the mail step does, the owner's update is written.\<close>

lemma updateJob_owner_jobs:
  assumes "cast_oid i = Some k" "find (\<lambda>x. job_id x = k) (srv_jobs s) = Some j" "job_user j = uid"
    and "cast_date (interview_value e (body_status b) (body_interview_date b)) = Inr d"
  shows "srv_jobs (snd (updateJob e uid i b file s)) =
    map (\<lambda>x. if job_id x = k then job_set (update_doc e b file j) d x else x) (srv_jobs s)"
  using assms(4)
  by (auto simp: updateJob_owner [OF assms(1-3)] Let_def split: sum.splits dest: notify_user_keeps)

lemma updateJob_200:
  assumes "updateJob e uid i b file s = (Response 200 ok (RJob r), s')"
  shows "\<exists>k j d. cast_oid i = Some k \<and> find (\<lambda>x. job_id x = k) (srv_jobs s) = Some j \<and>
     job_user j = uid \<and>
     cast_date (interview_value e (body_status b) (body_interview_date b)) = Inr d \<and>
     r = Some (job_set (update_doc e b file j) d j) \<and>
     srv_jobs s' = map (\<lambda>x. if job_id x = k then job_set (update_doc e b file j) d x else x) (srv_jobs s)"
proof -
  obtain k where k: "cast_oid i = Some k"
    using assms by (cases "cast_oid i") (simp_all add: target_uncast server_error_def)
  obtain j where j: "find (\<lambda>x. job_id x = k) (srv_jobs s) = Some j"
    using assms k by (cases "find (\<lambda>x. job_id x = k) (srv_jobs s)")
      (simp_all add: target_missing find_job_by_id_cast)
  have o: "job_user j = uid"
    using assms k j by (cases "job_user j = uid") (simp_all add: target_not_owner find_job_by_id_cast)
  obtain d where d: "cast_date (interview_value e (body_status b) (body_interview_date b)) = Inr d"
    using assms k j o
    by (cases "cast_date (interview_value e (body_status b) (body_interview_date b))")
      (simp_all add: updateJob_owner server_error_def)
  define u where "u = update_doc e b file j"
  define s1 where "s1 = s\<lparr>srv_jobs := map (\<lambda>x. if job_id x = k then job_set u d x else x) (srv_jobs s)\<rparr>"
  have eq: "(if Some (job_status j) \<noteq> body_status b then
        (case notify_user e uid ''Job Status Updated'' (status_text b (job_status j)) s1 of
           Inl _ \<Rightarrow> (server_error ''Server error while updating job'', s1)
         | Inr s2 \<Rightarrow> (Response 200 True (RJob (Some (job_set u d j))), s2))
      else (Response 200 True (RJob (Some (job_set u d j))), s1)) = (Response 200 ok (RJob r), s')"
    using assms by (simp only: updateJob_owner [OF k j o] d sum.case Let_def u_def s1_def)
  then have "r = Some (job_set u d j) \<and> srv_jobs s' = srv_jobs s1"
    by (auto simp: server_error_def split: if_splits sum.splits dest: notify_user_keeps)
  then show ?thesis using k j o d by (simp add: u_def s1_def)
qed

section \<open>Deleting\<close>

lemma deleteJob_owner:
  assumes "cast_oid i = Some k" "find (\<lambda>x. job_id x = k) (srv_jobs s) = Some j" "job_user j = uid"
  shows "deleteJob uid i s =
           (Response 200 True (RMsg ''Job removed successfully''),
            s\<lparr>srv_files := unlink_resume (job_resume j) (srv_files s),
              srv_jobs := filter (\<lambda>x. job_id x \<noteq> k) (srv_jobs s)\<rparr>)"
  using assms by (simp add: deleteJob_def find_job_by_id_cast delete_job_by_id_cast)

lemma unlink_resume_Some:
  "p \<noteq> [] \<Longrightarrow> unlink_resume (Some p) files = files - {p}"
  by (simp add: unlink_resume_def)

section \<open>The server invariant\<close>

lemma server_wf_cong:
  "srv_jobs s' = srv_jobs s \<Longrightarrow> srv_seq s' = srv_seq s \<Longrightarrow> server_wf s' = server_wf s"
  by (simp add: server_wf_def)

lemma server_wf_bump:
  "server_wf s \<Longrightarrow> server_wf (s\<lparr>srv_seq := Suc (srv_seq s)\<rparr>)"
  by (auto simp: server_wf_def list_all_iff)

lemma server_wf_add:
  assumes "server_wf s" "job_create (oid_of_nat (srv_seq s)) now lit = Inr j"
    and "job_id j \<notin> set (map job_id (srv_jobs s))"
  shows "server_wf (s\<lparr>srv_seq := Suc (srv_seq s), srv_jobs := srv_jobs s @ [j]\<rparr>)"
proof -
  from assms(2) have "job_id j = oid_of_nat (srv_seq s)" "valid_oid (job_user j)"
    by (auto simp: job_create_Inr valid_oid_cast)
  moreover have "oid_value (oid_of_nat (srv_seq s)) < Suc (srv_seq s)"
    by (simp add: le_imp_less_Suc)
  ultimately show ?thesis
    using assms(1,3) by (auto simp: server_wf_def jobs_wf_def list_all_iff)
qed

text \<open>In a well-formed state the next counter value is a fresh job id.\<close>

lemma server_wf_fresh:
  assumes wf: "server_wf s" and lt: "srv_seq s < 16 ^ 24"
  shows "oid_of_nat (srv_seq s) \<notin> set (map job_id (srv_jobs s))"
proof
  assume "oid_of_nat (srv_seq s) \<in> set (map job_id (srv_jobs s))"
  then obtain x where "x \<in> set (srv_jobs s)" "job_id x = oid_of_nat (srv_seq s)" by auto
  with wf have "oid_value (oid_of_nat (srv_seq s)) < srv_seq s"
    by (auto simp: server_wf_def list_all_iff)
  with lt show False by simp
qed

lemma addJob_wf:
  assumes wf: "server_wf s"
  shows "server_wf (snd (addJob e uid b file s))"
proof (cases "job_create (oid_of_nat (srv_seq s)) (env_now e) (add_literal e uid b file)")
  case (Inl err)
  then show ?thesis using server_wf_bump [OF wf] by (simp add: addJob_def Let_def)
next
  case (Inr j)
  show ?thesis
  proof (cases "job_id j \<in> set (map job_id (srv_jobs s))")
    case True
    with Inr show ?thesis using server_wf_bump [OF wf] by (simp add: addJob_def Let_def insert_job_def)
  next
    case False
    let ?s1 = "s\<lparr>srv_seq := Suc (srv_seq s), srv_jobs := srv_jobs s @ [j]\<rparr>"
    have wf1: "server_wf ?s1" using wf Inr False by (rule server_wf_add)
    have eq: "addJob e uid b file s =
        (case notify_user e uid ''New Job Application Added'' (add_text b) ?s1 of
           Inl _ \<Rightarrow> (server_error ''Server error while adding job'', ?s1)
         | Inr s2 \<Rightarrow> (Response 201 True (RJob (Some j)), s2))"
      using Inr False by (simp add: addJob_def Let_def insert_job_def)
    show ?thesis
    proof (cases "notify_user e uid ''New Job Application Added'' (add_text b) ?s1")
      case (Inl err)
      with eq wf1 show ?thesis by simp
    next
      case (Inr s2)
      then have "server_wf s2 = server_wf ?s1"
        by (intro server_wf_cong) (auto dest: notify_user_keeps)
      with eq Inr wf1 show ?thesis by simp
    qed
  qed
qed

lemma updateJob_state:
  "snd (updateJob e uid i b file s) = s \<or>
   (\<exists>u r js. update_job_by_id i u (srv_jobs s) = Inr (r, js) \<and>
      srv_jobs (snd (updateJob e uid i b file s)) = js \<and> srv_seq (snd (updateJob e uid i b file s)) = srv_seq s)"
  by (fastforce simp: updateJob_def Let_def split: sum.splits option.splits if_splits dest!: notify_user_keeps)

lemma updateJob_wf:
  assumes wf: "server_wf s"
  shows "server_wf (snd (updateJob e uid i b file s))"
  using updateJob_state [of e uid i b "file" s]
proof
  assume "snd (updateJob e uid i b file s) = s"
  with wf show ?thesis by simp
next
  assume "\<exists>u r js. update_job_by_id i u (srv_jobs s) = Inr (r, js) \<and>
      srv_jobs (snd (updateJob e uid i b file s)) = js \<and> srv_seq (snd (updateJob e uid i b file s)) = srv_seq s"
  then obtain u r js where u: "update_job_by_id i u (srv_jobs s) = Inr (r, js)"
    and j: "srv_jobs (snd (updateJob e uid i b file s)) = js"
    and q: "srv_seq (snd (updateJob e uid i b file s)) = srv_seq s" by blast
  from wf u have "jobs_wf js" by (auto simp: server_wf_def intro: update_job_by_id_wf)
  moreover have "\<forall>x \<in> set js. oid_value (job_id x) < srv_seq s"
  proof
    fix x assume "x \<in> set js"
    then have "job_id x \<in> set (map job_id (srv_jobs s))"
      using update_job_by_id_ids [OF u] by (metis image_eqI list.set_map)
    then obtain y where "y \<in> set (srv_jobs s)" "job_id x = job_id y" by auto
    with wf show "oid_value (job_id x) < srv_seq s" by (auto simp: server_wf_def list_all_iff)
  qed
  ultimately show ?thesis
    using j q by (simp add: server_wf_def list_all_iff)
qed

lemma deleteJob_wf: "server_wf s \<Longrightarrow> server_wf (snd (deleteJob uid i s))"
  by (auto simp: deleteJob_def Let_def server_wf_def list_all_iff delete_job_by_id_Inr
      split: sum.splits option.splits intro: jobs_wf_filter)

text \<open>The job handlers never write the users collection.\<close>

lemma job_handlers_users [simp]:
  "srv_users (snd (addJob e uid b file s)) = srv_users s"
  "srv_users (snd (updateJob e uid i b file s)) = srv_users s"
  "srv_users (snd (deleteJob uid i s)) = srv_users s"
  by (auto simp: addJob_def updateJob_def deleteJob_def Let_def
      split: sum.splits option.splits prod.splits if_splits dest!: notify_user_keeps)

section \<open>Statistics\<close>

lemma job_stats_Nil: "job_stats [] = \<lparr>st_applied = 0, st_interview = 0, st_offer = 0, st_rejected = 0, st_total = 0\<rparr>"
  by (simp add: job_stats_def count_status_def)

text \<open>The four per-status counts add up to the number of jobs whose status is in the enum.\<close>

lemma job_stats_sum:
  "st_applied (job_stats js) + st_interview (job_stats js) + st_offer (job_stats js) + st_rejected (job_stats js)
     = length (filter (\<lambda>j. job_status j \<in> set status_enum) js)"
  by (induction js) (auto simp: job_stats_def count_status_def status_enum_def)

lemma job_stats_total [simp]: "st_total (job_stats js) = length js"
  by (simp add: job_stats_def)

section \<open>Isolation between owners\<close>

text \<open>
  A handler acting for \<open>uid\<close> keeps the jobs not owned by it: creation adds
  a job owned by the cast caller id, update and delete touch only the record
  whose id they were given, which (ids being distinct) is the caller's own.
\<close>

lemma addJob_jobs:
  "srv_jobs (snd (addJob e uid b file s)) = srv_jobs s \<or>
   (\<exists>j. job_create (oid_of_nat (srv_seq s)) (env_now e) (add_literal e uid b file) = Inr j \<and>
      srv_jobs (snd (addJob e uid b file s)) = srv_jobs s @ [j])"
  by (auto simp: addJob_def Let_def insert_job_def split: sum.splits dest: notify_user_keeps)

lemma addJob_others:
  "filter (\<lambda>j. Some (job_user j) \<noteq> cast_oid uid) (srv_jobs (snd (addJob e uid b file s))) =
   filter (\<lambda>j. Some (job_user j) \<noteq> cast_oid uid) (srv_jobs s)"
  using addJob_jobs [of e uid b "file" s] by (auto simp: job_create_Inr)

lemma updateJob_others:
  assumes wf: "jobs_wf (srv_jobs s)"
  shows "filter (\<lambda>j. Some (job_user j) \<noteq> cast_oid uid) (srv_jobs (snd (updateJob e uid i b file s))) =
    filter (\<lambda>j. Some (job_user j) \<noteq> cast_oid uid) (srv_jobs s)"
proof (cases "\<exists>k j. cast_oid i = Some k \<and> find (\<lambda>x. job_id x = k) (srv_jobs s) = Some j \<and> job_user j = uid")
  case False
  then have "snd (updateJob e uid i b file s) = s"
    by (auto simp: updateJob_def find_job_by_id_def cast_id_def split: option.splits)
  then show ?thesis by simp
next
  case True
  then obtain k j where k: "cast_oid i = Some k" and f: "find (\<lambda>x. job_id x = k) (srv_jobs s) = Some j"
    and o: "job_user j = uid" by blast
  show ?thesis
  proof (cases "cast_date (interview_value e (body_status b) (body_interview_date b))")
    case (Inl err)
    then show ?thesis by (simp add: updateJob_owner [OF k f o])
  next
    case (Inr d)
    have "\<forall>x \<in> set (srv_jobs s). job_id x = k \<longrightarrow> \<not> Some (job_user x) \<noteq> cast_oid uid"
      using jobs_wf_same_id [OF wf f] o by auto
    then show ?thesis
      by (simp add: updateJob_owner_jobs [OF k f o Inr] filter_replace_others)
  qed
qed

lemma deleteJob_others:
  assumes wf: "jobs_wf (srv_jobs s)"
  shows "filter (\<lambda>j. Some (job_user j) \<noteq> cast_oid uid) (srv_jobs (snd (deleteJob uid i s))) =
    filter (\<lambda>j. Some (job_user j) \<noteq> cast_oid uid) (srv_jobs s)"
proof (cases "\<exists>k j. cast_oid i = Some k \<and> find (\<lambda>x. job_id x = k) (srv_jobs s) = Some j \<and> job_user j = uid")
  case False
  then have "snd (deleteJob uid i s) = s"
    by (auto simp: deleteJob_def find_job_by_id_def cast_id_def split: option.splits)
  then show ?thesis by simp
next
  case True
  then obtain k j where k: "cast_oid i = Some k" and f: "find (\<lambda>x. job_id x = k) (srv_jobs s) = Some j"
    and o: "job_user j = uid" by blast
  have "\<forall>x \<in> set (srv_jobs s). job_id x = k \<longrightarrow> \<not> Some (job_user x) \<noteq> cast_oid uid"
    using jobs_wf_same_id [OF wf f] o by auto
  then show ?thesis by (simp add: deleteJob_owner [OF k f o] filter_delete_others del: filter_filter)
qed

section \<open>Mail\<close>

text \<open>The handlers mail nobody but the caller, and at most once per request.\<close>

lemma addJob_outbox:
  "\<exists>ms. srv_outbox (snd (addJob e uid b file s)) = srv_outbox s @ ms \<and> length ms \<le> 1 \<and>
     list_all (mail_to_caller e uid (srv_users s)) ms"
  by (fastforce simp: addJob_def Let_def split: sum.splits dest: notify_user_outbox)

lemma updateJob_outbox:
  "\<exists>ms. srv_outbox (snd (updateJob e uid i b file s)) = srv_outbox s @ ms \<and> length ms \<le> 1 \<and>
     list_all (mail_to_caller e uid (srv_users s)) ms"
  by (fastforce simp: updateJob_def Let_def split: sum.splits option.splits dest: notify_user_outbox)

lemma deleteJob_outbox [simp]: "srv_outbox (snd (deleteJob uid i s)) = srv_outbox s"
  by (simp add: deleteJob_def Let_def split: sum.splits option.splits)

end
