(* ===== verification/AuthController.thy ===== *)
theory AuthController
  imports Server
begin

text \<open>
  \<open>controllers/authController.js\<close>: \<open>register\<close>, \<open>login\<close> and \<open>getMe\<close>.
  \<open>register\<close> awaits twice, first \<open>User.findOne({email})\<close> and then
  \<open>user.save()\<close>; the two halves are \<open>register_exists\<close> and \<open>register_save\<close>.  Both
  \<open>register\<close> and \<open>login\<close> answer with a token signed for an hour over
  \<open>{user: {id, name}}\<close>; the signing time is \<open>Date.now()\<close> in seconds.  Saving a
  user whose fresh id is already taken fails on the unique \<open>_id\<close> index (500).
\<close>

definition jwt_now :: "env \<Rightarrow> nat" where
  "jwt_now e = env_now e div 1000"

definition register_exists :: "string \<Rightarrow> server \<Rightarrow> bool" where
  "register_exists email s = (find_user_by_email email (srv_users s) \<noteq> None)"

definition register_save ::
  "string \<Rightarrow> env \<Rightarrow> string \<Rightarrow> string \<Rightarrow> string \<Rightarrow> server \<Rightarrow> response \<times> server" where
  "register_save secret e name email password s =
     (let u = \<lparr>user_id = oid_of_nat (srv_seq s), user_name = name, user_email = email,
               user_password = Hashed password\<rparr>;
          s0 = s\<lparr>srv_seq := Suc (srv_seq s)\<rparr>
      in if user_id u \<in> set (map user_id (srv_users s)) then (Response 500 False (RMsg ''Server error''), s0)
         else (Response 201 True (RToken (jwt_sign secret (jwt_now e) (user_payload (user_id u) (user_name u)))),
               s0\<lparr>srv_users := srv_users s @ [u]\<rparr>))"

definition register ::
  "string \<Rightarrow> env \<Rightarrow> string \<Rightarrow> string \<Rightarrow> string \<Rightarrow> server \<Rightarrow> response \<times> server" where
  "register secret e name email password s =
     (if register_exists email s then (Response 400 False (RMsg ''User already exists''), s)
      else register_save secret e name email password s)"

definition login :: "string \<Rightarrow> env \<Rightarrow> string \<Rightarrow> string \<Rightarrow> server \<Rightarrow> response \<times> server" where
  "login secret e email password s =
     (case find_user_by_email email (srv_users s) of
        None \<Rightarrow> (Response 401 False (RMsg ''Invalid credentials''), s)
      | Some u \<Rightarrow>
          if \<not> bcrypt_compare password (user_password u)
          then (Response 401 False (RMsg ''Invalid credentials''), s)
          else (Response 200 True (RToken (jwt_sign secret (jwt_now e) (user_payload (user_id u) (user_name u)))), s))"

definition getMe :: "string \<Rightarrow> server \<Rightarrow> response \<times> server" where
  "getMe uid s =
     (case find_user_by_id uid (srv_users s) of
        Inl _ \<Rightarrow> (Response 500 False (RMsg ''Server error''), s)
      | Inr None \<Rightarrow> (Response 404 False (RMsg ''User not found''), s)
      | Inr (Some u) \<Rightarrow> (Response 200 True (RUser (public_view u)), s))"

section \<open>Lemmas\<close>

lemma register_existing:
  "register_exists email s \<Longrightarrow>
     register secret e name email password s = (Response 400 False (RMsg ''User already exists''), s)"
  by (simp add: register_def)

lemma register_save_users:
  "srv_users (snd (register_save secret e name email password s)) =
     (if oid_of_nat (srv_seq s) \<in> set (map user_id (srv_users s)) then srv_users s
      else srv_users s @ [\<lparr>user_id = oid_of_nat (srv_seq s), user_name = name, user_email = email,
                           user_password = Hashed password\<rparr>])"
  by (simp add: register_save_def Let_def)

lemma register_save_jobs [simp]:
  "srv_jobs (snd (register_save secret e name email password s)) = srv_jobs s"
  "srv_seq (snd (register_save secret e name email password s)) = Suc (srv_seq s)"
  "srv_files (snd (register_save secret e name email password s)) = srv_files s"
  by (simp_all add: register_save_def Let_def)

lemma login_state [simp]: "snd (login secret e email password s) = s"
  by (simp add: login_def split: option.splits)

lemma getMe_state [simp]: "snd (getMe uid s) = s"
  by (simp add: getMe_def split: sum.splits option.splits)

lemma register_exists_iff: "register_exists email s \<longleftrightarrow> email \<in> set (map user_email (srv_users s))"
  by (simp add: register_exists_def find_user_by_email_None)

end
