(* ===== verification/Routes.thy ===== *)
theory Routes
  imports JobController AuthController
begin

text \<open>
  \<open>routes/jobRoutes.js\<close>: every route runs \<open>auth\<close> first; \<open>POST /\<close> and
  \<open>PUT /:id\<close> then run \<open>upload.single('resume')\<close>, whose error goes to Express's
  default handler (status 500, the error's message), and only then the
  controller.  The auth routes (\<open>routes/authRoutes.js\<close>, not among the
  sources) are modelled from the spec's table: register and login are open,
  \<open>GET /me\<close> runs \<open>auth\<close>.  The middleware's clock is \<open>Date.now()\<close> in seconds.
\<close>

datatype job_request =
    GetJobs
  | PostJob job_body
  | PutJob string job_body
  | DeleteJob string
  | GetJobsByStatusReq string
  | GetResume string
  | GetStats

datatype auth_request = Register string string string | Login string string | Me

primrec auth_error_response :: "auth_error \<Rightarrow> response" where
  "auth_error_response NoToken = Response 401 False (RMsg ''No token, authorization denied'')"
| "auth_error_response TokenNotValid = Response 401 False (RMsg ''Token is not valid'')"
| "auth_error_response InvalidTokenStructure = Response 401 False (RMsg ''Invalid token structure'')"

primrec upload_error_response :: "upload_error \<Rightarrow> response" where
  "upload_error_response UnexpectedField = Response 500 False (RMsg ''Unexpected field'')"
| "upload_error_response UnsupportedType = Response 500 False (RMsg ''Only PDF files are allowed!'')"
| "upload_error_response FileTooLarge = Response 500 False (RMsg ''File too large'')"

definition with_upload ::
  "env \<Rightarrow> upload_file option \<Rightarrow> server \<Rightarrow> (stored_file option \<Rightarrow> server \<Rightarrow> response \<times> server) \<Rightarrow> response \<times> server" where
  "with_upload e up s k =
     (case upload_single (env_now e) up (srv_files s) of
        Inl err \<Rightarrow> (upload_error_response err, s)
      | Inr (f, files) \<Rightarrow> k f (s\<lparr>srv_files := files\<rparr>))"

definition job_routes ::
  "string \<Rightarrow> env \<Rightarrow> jwt_token option \<Rightarrow> upload_file option \<Rightarrow> job_request \<Rightarrow> server \<Rightarrow> response \<times> server" where
  "job_routes secret e hdr up rq s =
     (case auth secret (jwt_now e) hdr of
        Inl err \<Rightarrow> (auth_error_response err, s)
      | Inr ru \<Rightarrow>
          (let uid = ru_id ru in
           case rq of
             GetJobs \<Rightarrow> getJobs uid s
           | PostJob b \<Rightarrow> with_upload e up s (\<lambda>f s'. addJob e uid b f s')
           | PutJob i b \<Rightarrow> with_upload e up s (\<lambda>f s'. updateJob e uid i b f s')
           | DeleteJob i \<Rightarrow> deleteJob uid i s
           | GetJobsByStatusReq st \<Rightarrow> getJobsByStatus uid st s
           | GetResume i \<Rightarrow> downloadResume uid i s
           | GetStats \<Rightarrow> getJobStats uid s))"

definition auth_routes ::
  "string \<Rightarrow> env \<Rightarrow> jwt_token option \<Rightarrow> auth_request \<Rightarrow> server \<Rightarrow> response \<times> server" where
  "auth_routes secret e hdr rq s =
     (case rq of
        Register name email password \<Rightarrow> register secret e name email password s
      | Login email password \<Rightarrow> login secret e email password s
      | Me \<Rightarrow>
          (case auth secret (jwt_now e) hdr of
             Inl err \<Rightarrow> (auth_error_response err, s)
           | Inr ru \<Rightarrow> getMe (ru_id ru) s))"

section \<open>Dispatch\<close>

text \<open>Behind a valid token the job router dispatches on the request.\<close>

lemma job_routes_Inr:
  "auth secret (jwt_now e) hdr = Inr ru \<Longrightarrow>
     job_routes secret e hdr up rq s =
       (case rq of
          GetJobs \<Rightarrow> getJobs (ru_id ru) s
        | PostJob b \<Rightarrow> with_upload e up s (\<lambda>f s'. addJob e (ru_id ru) b f s')
        | PutJob i b \<Rightarrow> with_upload e up s (\<lambda>f s'. updateJob e (ru_id ru) i b f s')
        | DeleteJob i \<Rightarrow> deleteJob (ru_id ru) i s
        | GetJobsByStatusReq st \<Rightarrow> getJobsByStatus (ru_id ru) st s
        | GetResume i \<Rightarrow> downloadResume (ru_id ru) i s
        | GetStats \<Rightarrow> getJobStats (ru_id ru) s)"
  by (simp add: job_routes_def Let_def)

text \<open>The upload middleware leaves the job collection to the handler.\<close>

lemma with_upload_jobs:
  assumes "\<And>f s'. srv_jobs s' = srv_jobs s \<Longrightarrow> P (srv_jobs (snd (k f s')))" "P (srv_jobs s)"
  shows "P (srv_jobs (snd (with_upload e up s k)))"
  using assms by (auto simp: with_upload_def split: sum.splits prod.splits)

text \<open>Whatever the upload middleware does, the state after it is the old one or the handler's.\<close>

lemma with_upload_snd:
  "(\<And>f files. P (snd (k f (s\<lparr>srv_files := files\<rparr>)))) \<Longrightarrow> P s \<Longrightarrow> P (snd (with_upload e up s k))"
  by (auto simp: with_upload_def split: sum.splits prod.splits)

text \<open>A request with a file that gets past multer reaches the handler with the stored file.\<close>

lemma with_upload_passed:
  assumes "with_upload e (Some f) s k = (Response c ok r, s1)" "c \<noteq> 500"
  shows "\<exists>sf. sf_path sf = upload_destination @ upload_filename (env_now e) f \<and>
    k (Some sf) (s\<lparr>srv_files := insert (sf_path sf) (srv_files s)\<rparr>) = (Response c ok r, s1)"
proof (cases "upload_single (env_now e) (Some f) (srv_files s)")
  case (Inl err)
  with assms show ?thesis by (cases err) (simp_all add: with_upload_def)
next
  case (Inr res)
  then obtain fo files where res: "upload_single (env_now e) (Some f) (srv_files s) = Inr (fo, files)"
    by (cases res) auto
  then obtain sf where "fo = Some sf" using upload_single_Some_not_None by (cases fo) blast+
  with res have up: "upload_single (env_now e) (Some f) (srv_files s) = Inr (Some sf, files)" by simp
  then have "k (Some sf) (s\<lparr>srv_files := files\<rparr>) = (Response c ok r, s1)"
    using assms(1) by (simp add: with_upload_def)
  moreover have "sf_path sf = upload_destination @ upload_filename (env_now e) f \<and>
      files = insert (sf_path sf) (srv_files s)"
    using up by (simp add: upload_single_Inr_Some)
  ultimately show ?thesis by auto
qed

end
