(* ===== verification/App.thy ===== *)
theory App
  imports Routes
begin

text \<open>
  The application of \<open>backend/server.js\<close>: the middleware stack an HTTP
  request traverses, in the order \<open>app.use\<close> registers it.  \<open>cors()\<close> answers
  every preflight \<open>OPTIONS\<close> request with 204; \<open>express.static\<close> serves the
  files under \<open>uploads/\<close> at \<open>/uploads\<close> to anyone, without a token; the auth
  router is mounted at \<open>/api/auth\<close> and the job router at \<open>/api/jobs\<close>; in
  production the built frontend is served and every other \<open>GET\<close> gets its
  \<open>index.html\<close>; what nothing handles gets Express's 404 \<open>Cannot METHOD path\<close>.
  A router's paths are matched segment by segment (\<open>path_segments\<close> is
  JavaScript's \<open>split('/')\<close>); a \<open>:param\<close> matches one non-empty segment and
  a trailing slash is ignored, as in Express's non-strict routing.  Requests
  that match no route of a router fall through it: the per-route \<open>auth\<close>
  never runs for them.
\<close>

datatype http_method = GET | HEAD | POST | PUT | DELETE | PATCH | OPTIONS

record http_request =
  rq_method :: http_method
  rq_path :: string
  rq_token :: "jwt_token option"
  rq_body :: job_body
  rq_file :: "upload_file option"
  rq_name :: string
  rq_email :: string
  rq_password :: string

record app_config =
  cfg_secret :: string
  cfg_production :: bool
  cfg_build :: "string set"

text \<open>\<open>p.split('/')\<close>: the pieces between separators, empty ones included.\<close>

function path_segments :: "string \<Rightarrow> string list" where
  "path_segments p =
     (case dropWhile (\<lambda>c. c \<noteq> CHR ''/'') p of
        [] \<Rightarrow> [p]
      | _ # rest \<Rightarrow> takeWhile (\<lambda>c. c \<noteq> CHR ''/'') p # path_segments rest)"
  by pat_completeness auto
termination
proof (relation "measure length")
  fix p c rest
  assume "dropWhile (\<lambda>c. c \<noteq> CHR ''/'') p = c # rest"
  then have "length (c # rest) \<le> length p" by (metis length_dropWhile_le)
  then show "(rest, p) \<in> measure length" by simp
qed simp

declare path_segments.simps [simp del]

text \<open>JavaScript's \<open>segs.join('/')\<close>, the inverse of the split.\<close>

fun join_path :: "string list \<Rightarrow> string" where
  "join_path [] = []"
| "join_path [x] = x"
| "join_path (x # y # zs) = x @ CHR ''/'' # join_path (y # zs)"

text \<open>Mounting at \<open>m\<close>: the path is \<open>m\<close> itself or continues with a slash; the router sees the rest.\<close>

definition strip_mount :: "string \<Rightarrow> string \<Rightarrow> string option" where
  "strip_mount m p =
     (if p = m then Some ''/''
      else if take (Suc (length m)) p = m @ ''/'' then Some (drop (length m) p) else None)"

definition route_segments :: "string \<Rightarrow> string list" where
  "route_segments r =
     (let segs = tl (path_segments r) in if segs \<noteq> [] \<and> last segs = [] then butlast segs else segs)"

text \<open>Express routes a \<open>HEAD\<close> request to the \<open>GET\<close> handlers.\<close>

definition route_method :: "http_method \<Rightarrow> http_method" where
  "route_method m = (if m = HEAD then GET else m)"

text \<open>The table of \<open>routes/jobRoutes.js\<close>, tried in registration order.\<close>

fun match_job_route :: "http_method \<Rightarrow> string list \<Rightarrow> job_body \<Rightarrow> job_request option" where
  "match_job_route GET [] b = Some GetJobs"
| "match_job_route POST [] b = Some (PostJob b)"
| "match_job_route PUT [i] b = (if i \<noteq> [] then Some (PutJob i b) else None)"
| "match_job_route DELETE [i] b = (if i \<noteq> [] then Some (DeleteJob i) else None)"
| "match_job_route GET [x, v] b =
     (if x = ''status'' \<and> v \<noteq> [] then Some (GetJobsByStatusReq v)
      else if x = ''resume'' \<and> v \<noteq> [] then Some (GetResume v) else None)"
| "match_job_route GET [x] b = (if x = ''stats'' then Some GetStats else None)"
| "match_job_route _ _ _ = None"

text \<open>The auth router's table, from the spec (\<open>routes/authRoutes.js\<close> is not among the sources).\<close>

fun match_auth_route :: "http_method \<Rightarrow> string list \<Rightarrow> http_request \<Rightarrow> auth_request option" where
  "match_auth_route POST [x] rq =
     (if x = ''register'' then Some (Register (rq_name rq) (rq_email rq) (rq_password rq))
      else if x = ''login'' then Some (Login (rq_email rq) (rq_password rq)) else None)"
| "match_auth_route GET [x] rq = (if x = ''me'' then Some Me else None)"
| "match_auth_route _ _ _ = None"

text \<open>\<open>express.static\<close> over \<open>uploads/\<close>: a \<open>GET\<close> or \<open>HEAD\<close> of a stored file serves it.\<close>

definition static_uploads :: "http_method \<Rightarrow> string \<Rightarrow> fs \<Rightarrow> string option" where
  "static_uploads m r files =
     (if route_method m = GET \<and> ''uploads'' @ r \<in> files then Some (''uploads'' @ r) else None)"

primrec method_name :: "http_method \<Rightarrow> string" where
  "method_name GET = ''GET''" | "method_name HEAD = ''HEAD''" | "method_name POST = ''POST''"
| "method_name PUT = ''PUT''" | "method_name DELETE = ''DELETE''" | "method_name PATCH = ''PATCH''"
| "method_name OPTIONS = ''OPTIONS''"

text \<open>What is left once no router handled the request.\<close>

definition app_fallback :: "app_config \<Rightarrow> http_request \<Rightarrow> response" where
  "app_fallback cfg rq =
     (if cfg_production cfg \<and> route_method (rq_method rq) = GET then
        (if ''frontend/build'' @ rq_path rq \<in> cfg_build cfg
         then Response 200 True (RStatic (''frontend/build'' @ rq_path rq))
         else Response 200 True (RStatic ''frontend/build/index.html''))
      else Response 404 False (RMsg (''Cannot '' @ method_name (rq_method rq) @ '' '' @ rq_path rq)))"

definition app :: "app_config \<Rightarrow> env \<Rightarrow> http_request \<Rightarrow> server \<Rightarrow> response \<times> server" where
  "app cfg e rq s =
     (let m = rq_method rq; p = rq_path rq in
      if m = OPTIONS then (Response 204 True (RMsg []), s)
      else case Option.bind (strip_mount ''/uploads'' p) (\<lambda>r. static_uploads m r (srv_files s)) of
        Some f \<Rightarrow> (Response 200 True (RStatic f), s)
      | None \<Rightarrow>
        (case Option.bind (strip_mount ''/api/auth'' p)
                (\<lambda>r. match_auth_route (route_method m) (route_segments r) rq) of
           Some a \<Rightarrow> auth_routes (cfg_secret cfg) e (rq_token rq) a s
         | None \<Rightarrow>
           (case Option.bind (strip_mount ''/api/jobs'' p)
                   (\<lambda>r. match_job_route (route_method m) (route_segments r) (rq_body rq)) of
              Some j \<Rightarrow> job_routes (cfg_secret cfg) e (rq_token rq) (rq_file rq) j s
            | None \<Rightarrow> (app_fallback cfg rq, s))))"

section \<open>Paths\<close>

lemma path_segments_no_sep:
  assumes "CHR ''/'' \<notin> set x"
  shows "path_segments x = [x]"
proof -
  have d: "dropWhile (\<lambda>c. c \<noteq> CHR ''/'') x = []"
    using assms by (auto simp: dropWhile_eq_Nil_conv)
  show ?thesis by (subst path_segments.simps, subst d) simp
qed

lemma path_segments_sep:
  "CHR ''/'' \<notin> set x \<Longrightarrow> path_segments (x @ CHR ''/'' # y) = x # path_segments y"
  by (subst path_segments.simps) (simp add: takeWhile_append_sep dropWhile_append_sep)

lemma path_segments_not_Nil [simp]: "path_segments p \<noteq> []"
  by (subst path_segments.simps) (simp split: list.split)

lemma path_segments_join: "join_path (path_segments p) = p"
proof (induction p rule: path_segments.induct)
  case (1 p)
  show ?case
  proof (cases "CHR ''/'' \<in> set p")
    case False
    then show ?thesis by (simp add: path_segments_no_sep)
  next
    case True
    then obtain x y where p: "p = x @ CHR ''/'' # y" and x: "CHR ''/'' \<notin> set x"
      using split_list_first by metis
    then have "join_path (path_segments y) = y"
      using 1 by (simp add: dropWhile_append_sep)
    then show ?thesis
      using x by (cases "path_segments y") (simp_all add: p path_segments_sep)
  qed
qed

text \<open>A path splits into one more segment than it has slashes.\<close>

lemma length_path_segments: "length (path_segments p) = Suc (count_list p (CHR ''/''))"
proof (induction p rule: path_segments.induct)
  case (1 p)
  show ?case
  proof (cases "CHR ''/'' \<in> set p")
    case False
    then show ?thesis by (simp add: path_segments_no_sep count_list_0_iff)
  next
    case True
    then obtain x y where p: "p = x @ CHR ''/'' # y" and x: "CHR ''/'' \<notin> set x"
      using split_list_first by metis
    with 1 show ?thesis by (simp add: path_segments_sep dropWhile_append_sep count_list_0_iff)
  qed
qed

lemma route_segments_one:
  "CHR ''/'' \<notin> set i \<Longrightarrow> i \<noteq> [] \<Longrightarrow> route_segments (CHR ''/'' # i) = [i]"
  using path_segments_sep [of "[]" i] by (simp add: route_segments_def path_segments_no_sep)

lemma route_segments_root: "route_segments ''/'' = []"
  using path_segments_sep [of "[]" "[]"] by (simp add: route_segments_def path_segments_no_sep)

lemma route_segments_two:
  "CHR ''/'' \<notin> set x \<Longrightarrow> CHR ''/'' \<notin> set i \<Longrightarrow> i \<noteq> [] \<Longrightarrow>
     route_segments (CHR ''/'' # x @ CHR ''/'' # i) = [x, i]"
  using path_segments_sep [of "[]" "x @ CHR ''/'' # i"]
  by (simp add: route_segments_def path_segments_sep path_segments_no_sep)

lemma strip_mount_below:
  "strip_mount m (m @ CHR ''/'' # r) = Some (CHR ''/'' # r)"
  by (simp add: strip_mount_def)

lemma strip_mount_prefix: "strip_mount m p \<noteq> None \<Longrightarrow> take (length m) p = m"
  by (auto simp: strip_mount_def split: if_splits) (metis append_eq_conv_conj take_take min_absorb1 le_SucI order.refl)

lemma strip_mount_apart:
  assumes "strip_mount m p \<noteq> None" "strip_mount m' p \<noteq> None"
  shows "take (length m') m = take (length m) m'"
proof -
  have "take (length m) p = m" "take (length m') p = m'" using assms strip_mount_prefix by blast+
  then show ?thesis by (metis take_take min.commute)
qed

end
