(* ===== verification/Paths.thy ===== *)
theory Paths
  imports App
begin

text \<open>
  Where the stored resumes are looked for.  The program names the upload
  directory four times, each resolved by Node against a different base:
  multer's destination \<open>'uploads/'\<close> against the process's working
  directory; \<open>path.join(__dirname, '..', job.resume)\<close> in \<open>deleteJob\<close> and
  \<open>downloadResume\<close> against the directory of the loaded \<open>jobController\<close>;
  \<open>express.static(path.join(__dirname, 'uploads'))\<close> against the directory
  of \<open>server.js\<close>; and the directory \<open>upload.js\<close> creates at start-up,
  \<open>path.join(__dirname, '..', 'uploads')\<close>, against the directory of the
  loaded \<open>upload\<close> module.  A module's \<open>__dirname\<close> is where \<open>require\<close>
  finds it: \<open>server.js\<close> loads \<open>./routes/jobRoutes\<close>, which loads
  \<open>../controllers/jobController\<close> and \<open>../middleware/upload\<close>, all relative
  to the requiring file (\<open>module_dir\<close>).  Paths are written relative to the
  repository root (an absolute prefix common to all of them changes no
  comparison).  \<open>path_join\<close> is Node's \<open>path.join\<close> on relative paths: split
  at slashes, drop empty and \<open>.\<close> segments, let \<open>..\<close> cancel the segment
  before it, join again (\<open>.\<close> when nothing is left).
\<close>

fun norm_segs :: "string list \<Rightarrow> string list \<Rightarrow> string list" where
  "norm_segs acc [] = rev acc"
| "norm_segs acc (x # xs) =
     (if x = [] \<or> x = ''.'' then norm_segs acc xs
      else if x = ''..'' then
        (case acc of
           [] \<Rightarrow> norm_segs [x] xs
         | y # ys \<Rightarrow> if y = ''..'' then norm_segs (x # acc) xs else norm_segs ys xs)
      else norm_segs (x # acc) xs)"

definition path_join :: "string list \<Rightarrow> string" where
  "path_join ps =
     (case norm_segs [] (concat (map path_segments ps)) of [] \<Rightarrow> ''.'' | segs \<Rightarrow> join_path segs)"

definition plain_segment :: "string \<Rightarrow> bool" where
  "plain_segment x = (x \<noteq> [] \<and> x \<noteq> ''.'' \<and> x \<noteq> ''..'' \<and> CHR ''/'' \<notin> set x)"

definition plain_dir :: "string \<Rightarrow> bool" where
  "plain_dir d = list_all plain_segment (path_segments d)"

text \<open>The directory of the module that \<open>require(spec)\<close> loads from a module in \<open>base\<close>.\<close>

definition module_dir :: "string \<Rightarrow> string \<Rightarrow> string" where
  "module_dir base spec = join_path (butlast (norm_segs [] (path_segments base @ path_segments spec)))"

definition backend_dir :: string where
  "backend_dir = ''src/job-application-tracker/backend''"

definition routes_dir :: string where
  "routes_dir = module_dir backend_dir ''./routes/jobRoutes''"

definition controller_dir :: string where
  "controller_dir = module_dir routes_dir ''../controllers/jobController''"

definition upload_module_dir :: string where
  "upload_module_dir = module_dir routes_dir ''../middleware/upload''"

definition multer_file_path :: "string \<Rightarrow> string \<Rightarrow> string" where
  "multer_file_path cwd r = path_join [cwd, r]"

definition controller_file_path :: "string \<Rightarrow> string" where
  "controller_file_path r = path_join [controller_dir, ''..'', r]"

definition static_file_path :: "string \<Rightarrow> string" where
  "static_file_path n = path_join [backend_dir, ''uploads'', n]"

definition uploads_dir :: string where
  "uploads_dir = path_join [upload_module_dir, ''..'', ''uploads'']"

section \<open>Resolution\<close>

lemma path_join_segs:
  "norm_segs [] (concat (map path_segments ps)) = segs \<Longrightarrow> segs \<noteq> [] \<Longrightarrow> path_join ps = join_path segs"
  by (cases segs) (simp_all add: path_join_def)

lemma norm_segs_plain:
  "list_all plain_segment xs \<Longrightarrow> norm_segs acc xs = rev acc @ xs"
  by (induction xs arbitrary: acc) (auto simp: plain_segment_def)

lemma join_path_append:
  "xs \<noteq> [] \<Longrightarrow> ys \<noteq> [] \<Longrightarrow> join_path (xs @ ys) = join_path xs @ CHR ''/'' # join_path ys"
  by (induction xs rule: join_path.induct) (auto simp: neq_Nil_conv)

lemma path_segments_plain [simp]: "plain_segment n \<Longrightarrow> path_segments n = [n]"
  by (simp add: plain_segment_def path_segments_no_sep)

lemma path_segments_uploads:
  assumes "plain_segment n"
  shows "path_segments (''uploads/'' @ n) = [''uploads'', n]"
proof -
  have "CHR ''/'' \<notin> set ''uploads''" by simp
  from path_segments_sep [OF this, of n] have "path_segments (''uploads/'' @ n) = ''uploads'' # path_segments n"
    by simp
  with assms show ?thesis by simp
qed

lemma plain_dir_uploads:
  assumes "plain_segment n"
  shows "plain_dir (''uploads/'' @ n)"
  using assms unfolding plain_dir_def path_segments_uploads [OF assms] by (simp add: plain_segment_def)

lemma multer_file_path_rel:
  assumes "plain_dir cwd" "plain_dir r"
  shows "multer_file_path cwd r = cwd @ CHR ''/'' # r"
proof -
  have ne: "path_segments cwd \<noteq> []" "path_segments r \<noteq> []" by simp_all
  have "norm_segs [] (concat (map path_segments [cwd, r])) = path_segments cwd @ path_segments r"
    using assms by (simp add: plain_dir_def norm_segs_plain)
  moreover have "join_path (path_segments cwd @ path_segments r) = cwd @ CHR ''/'' # r"
    using join_path_append [OF ne] by (simp add: path_segments_join)
  ultimately show ?thesis
    using ne unfolding multer_file_path_def by (simp add: path_join_segs)
qed

text \<open>Where \<open>require\<close> puts the three modules.\<close>

lemma layout_dirs:
  "routes_dir = ''src/job-application-tracker/backend/routes''"
  "controller_dir = ''src/job-application-tracker/backend/controllers''"
  "upload_module_dir = ''src/job-application-tracker/backend/middleware''"
  by (simp_all add: routes_dir_def controller_dir_def upload_module_dir_def backend_dir_def
      module_dir_def path_segments.simps)

lemma layout_paths:
  assumes "plain_segment n"
  shows "controller_file_path (''uploads/'' @ n) = backend_dir @ ''/uploads/'' @ n"
    "static_file_path n = backend_dir @ ''/uploads/'' @ n"
  using assms path_segments_uploads [OF assms, simplified]
  by (simp_all add: controller_file_path_def static_file_path_def layout_dirs
      backend_dir_def path_join_def path_segments.simps plain_segment_def)

lemma uploads_dir_eq: "uploads_dir = backend_dir @ ''/uploads''"
  by (simp add: uploads_dir_def layout_dirs backend_dir_def path_join_def path_segments.simps)

lemma plain_dir_backend: "plain_dir backend_dir"
  by (simp add: plain_dir_def backend_dir_def path_segments.simps plain_segment_def)

text \<open>
  C20. The three names of the upload directory that are resolved against a module's
  directory agree for every stored file: the file deleteJob and downloadResume look for
  is the one express.static serves at /uploads, inside the directory upload.js creates.
  multer, which resolves 'uploads/' against the working directory, writes into that same
  directory exactly when the process runs in the backend directory, where server.js is.
\<close>

theorem upload_dirs_agree:
  assumes "plain_dir cwd" "plain_segment n"
  shows "controller_file_path (''uploads/'' @ n) = static_file_path n \<and>
    uploads_dir = path_join [backend_dir, ''uploads''] \<and>
    (multer_file_path cwd (''uploads/'' @ n) = static_file_path n \<longleftrightarrow> cwd = backend_dir) \<and>
    (multer_file_path cwd ''uploads'' = uploads_dir \<longleftrightarrow> cwd = backend_dir)"
proof -
  have pd: "plain_dir ''uploads''" by (simp add: plain_dir_def path_segments_no_sep plain_segment_def)
  have m1: "multer_file_path cwd (''uploads/'' @ n) = cwd @ ''/uploads/'' @ n"
    using multer_file_path_rel [OF assms(1) plain_dir_uploads [OF assms(2)]] by simp
  have m2: "multer_file_path cwd ''uploads'' = cwd @ ''/uploads''"
    using multer_file_path_rel [OF assms(1) pd] by simp
  have b: "path_join [backend_dir, ''uploads''] = backend_dir @ ''/uploads''"
    using multer_file_path_rel [OF plain_dir_backend pd] by (simp add: multer_file_path_def)
  show ?thesis
    unfolding m1 m2 b layout_paths [OF assms(2)] uploads_dir_eq append_assoc [symmetric] append_same_eq
    by simp
qed

theorem upload_dirs_agree_witness:
  "plain_dir backend_dir \<and> plain_segment ''100-cv.pdf'' \<and>
   multer_file_path backend_dir ''uploads/100-cv.pdf'' = controller_file_path ''uploads/100-cv.pdf'' \<and>
   multer_file_path backend_dir ''uploads/100-cv.pdf'' = static_file_path ''100-cv.pdf'' \<and>
   multer_file_path ''src'' ''uploads/100-cv.pdf'' \<noteq> static_file_path ''100-cv.pdf''"
proof -
  have h1: "plain_dir ''src''" by (simp add: plain_dir_def path_segments_no_sep plain_segment_def)
  have h2: "plain_segment ''100-cv.pdf''" by (simp add: plain_segment_def)
  show ?thesis
    using upload_dirs_agree [OF plain_dir_backend h2] upload_dirs_agree [OF h1 h2] plain_dir_backend h2
    by (auto simp: backend_dir_def)
qed

end
