(* ===== verification/Spec2Isabelle.thy ===== *)
theory Spec2Isabelle
  imports Paths
begin

text \<open>
  \<^bold>\<open>A verification model of the job-application tracker backend.\<close>

  The program is an Express server (\<open>backend/server.js\<close>) mounting two
  routers.  \<open>routes/jobRoutes.js\<close> guards every job route with the JWT
  middleware \<open>middleware/auth.js\<close>; \<open>POST /\<close> and \<open>PUT /:id\<close> then run the
  multer upload middleware \<open>middleware/upload.js\<close>; the seven handlers of
  \<open>controllers/jobController.js\<close> read and write the Mongoose model
  \<open>models/Job.js\<close>, mail the owner through a nodemailer transporter and
  unlink resume files.  \<open>backend/controllers/authController.js\<close> registers,
  logs in and describes users of a \<open>User\<close> model.  The sources are the
  files under \<open>src/\<close>; the running backend loads them where the \<open>require\<close>
  calls put them, relative to \<open>backend/\<close> (\<open>server.js\<close> loads
  \<open>./routes/jobRoutes\<close>, which loads \<open>../controllers/jobController\<close> and
  \<open>../middleware/upload\<close>), and that location is what \<open>__dirname\<close> is in
  each of them.

  \<^bold>\<open>Theories and what they model.\<close>
  \<^item> \<open>Prelude\<close>: JavaScript truthiness and template-string rendering of
    \<open>undefined\<close>; fixed-width and decimal digit strings (for ObjectIds and
    \<open>Date.now()\<close> in file names); the error sequencing \<open>ebind\<close> that models
    \<open>await\<close> of a promise that may reject; shared list lemmas.
  \<^item> \<open>ObjectId\<close>: the cast Mongoose applies to an id string (24 hex
    characters, normalised to lower case, otherwise a CastError) and the ids
    the server issues, a counter printed as 24 hex digits.
  \<^item> \<open>JobModel\<close> (\<open>models/Job.js\<close>): the document as a record, the status enum,
    the casts, defaults and validators of \<open>new Job(...).save()\<close>, and the
    \<open>$set\<close> of \<open>findByIdAndUpdate\<close>, which drops keys whose value is
    \<open>undefined\<close> and runs no validators.
  \<^item> \<open>JobStore\<close>: the collection as a list in insertion order and the five
    queries the controller issues (\<open>find\<close> with \<open>sort\<close>, \<open>findById\<close>, \<open>save\<close>,
    \<open>findByIdAndUpdate\<close>, \<open>findByIdAndDelete\<close>), each casting its id first;
    the store invariant (distinct, valid ids) and that every write keeps it;
    the abstraction \<open>store_abs\<close> of the collection as a map from ids to
    documents, which each query and write refines.
  \<^item> \<open>Upload\<close> (\<open>middleware/upload.js\<close>): \<open>upload.single('resume')\<close> with its
    field check, PDF filter and 5 MiB limit in multer's order, the disk
    name \<open>Date.now() + '-' + originalname\<close> under \<open>uploads/\<close>, and Node's
    \<open>path.basename\<close>/\<open>path.extname\<close>.  The file system is the set of stored
    paths.
  \<^item> \<open>Auth\<close> (\<open>middleware/auth.js\<close>): tokens as payload plus signing key,
    \<open>jwt.sign\<close> with a one-hour expiry, \<open>jwt.verify\<close>, and the middleware
    accepting the \<open>{user:{id}}\<close> and legacy \<open>{userId}\<close> payloads.
  \<^item> \<open>Users\<close>: the \<open>User\<close> model, which is not among the sources, modelled
    from the spec (a document with a hashed credential, the two queries).
  \<^item> \<open>Server\<close>: the state of one server process (jobs, users, files, sent
    mails, id counter), the request environment (clock, the \<open>Date\<close> parser,
    whether the mail transport accepts, and \<open>EMAIL_USER\<close>/\<open>EMAIL_PASS\<close> from
    \<open>process.env\<close>), responses, the nodemailer transporter (\<open>send_mail\<close>
    rejects without both credentials) and the mail step \<open>notify_user\<close>
    shared by \<open>addJob\<close> and \<open>updateJob\<close>.
  \<^item> \<open>JobController\<close>: \<open>getJobs\<close>, \<open>addJob\<close>, \<open>updateJob\<close>, \<open>deleteJob\<close>,
    \<open>getJobsByStatus\<close>, \<open>downloadResume\<close>, \<open>getJobStats\<close>, one definition
    each with every \<open>await\<close>, guard and early return of the source; the
    server invariant \<open>server_wf\<close> and its preservation; ownership, error
    and statistics lemmas.
  \<^item> \<open>AuthController\<close>: \<open>register\<close> (check, then save), \<open>login\<close>, \<open>getMe\<close>.
  \<^item> \<open>Routes\<close>: the two routers (\<open>job_routes\<close>, \<open>auth_routes\<close>) on parsed
    requests: \<open>auth\<close>, then multer for \<open>POST\<close> and \<open>PUT\<close>, then the handler.
  \<^item> \<open>App\<close> (\<open>backend/server.js\<close>, path matching of \<open>routes/jobRoutes.js\<close>):
    the middleware stack in registration order (cors preflight, static
    \<open>/uploads\<close>, \<open>/api/auth\<close>, \<open>/api/jobs\<close>, the production build and its
    \<open>index.html\<close>, the default 404), paths split at slashes by
    \<open>path_segments\<close> (a \<open>function\<close> with a termination proof by the length
    measure) and matched against the route tables.
  \<^item> \<open>Paths\<close>: Node's \<open>path.join\<close>, the directory of a module loaded by a
    relative \<open>require\<close>, and the four places that name the upload
    directory (multer's destination, the controller's
    \<open>path.join(__dirname, '..', job.resume)\<close>, the static server's root and
    the directory \<open>upload.js\<close> creates), each resolved against its module's
    \<open>__dirname\<close> or the working directory.
  \<^item> This theory: the inductive set \<open>reachable\<close> of states produced by any sequence of
    requests from the empty server, the system invariant \<open>sys_inv\<close>
    proved for all of them by rule induction, the data the witnesses run
    on, and the properties (C20 is in \<open>Paths\<close>).

  \<^bold>\<open>Correspondence.\<close>  A handler \<open>(req, res) => ...\<close> is a function from
  the caller id \<open>req.user.id\<close>, the parameters, the body (\<open>job_body\<close>, with
  \<open>undefined\<close> as \<open>None\<close>), the file multer stored and the state to the pair
  of the response (status code, \<open>success\<close>, body) and the new state.  Each
  \<open>await\<close> that can reject is a branch: its \<open>catch\<close> answers 500 and keeps
  whatever the earlier steps wrote.  Requests run one at a time, each to
  its end before the next starts; sequences of requests are compositions
  of the handlers (C18, C26, C27, C28, C35) or runs of \<open>reachable\<close> (C7).

  \<^bold>\<open>Properties.\<close>  C1 to C10: the functional behaviour of the handlers
  (what is listed, created, updated, deleted and counted), ownership
  (C4), the upload gate (C5), the invariant of every reachable state (C7)
  and the equivalence of the status filter with the list (C9).  C11: a
  request mails nobody but its caller, at most once, from \<open>EMAIL_USER\<close>.  C12 to
  C15 and C22, C23 pin down behaviours in which the code and the
  spec part ways (listed as findings): updates store unvalidated statuses,
  a failed mail answers 500 after the write, a foreign PUT leaves its
  upload on disk, an update without a status mails "to undefined",
  malformed ids answer 500, and an interview without a date fails.  C16,
  C17: the stored file name and when two uploads collide.  C18: the resume
  uploaded with a job is what its download serves, except for original
  names with a backslash, which addJob rewrites.  C19, C21, C24, C25, C27:
  token expiry, the refusal of unauthenticated requests, progress of
  \<open>addJob\<close> on valid input, download names and login followed by
  \<open>/me\<close>.  C20: the module-relative names of the upload directory agree,
  and multer's relative one joins them exactly when the process runs in
  \<open>backend/\<close>.  C26: a second registration of an email is refused.  C28:
  deleting a job undoes adding it.  C29 is isolation between users: no
  request of one user, of any kind, changes another user's jobs.  C30 to
  C35 cover the remaining edges: the unvalidated status filter, the resume
  left behind by an update, the inclusive size limit, uniform login
  failure, the two 404s of a download and the token returned by
  registration.  C36 is the route table of the application, C37 the
  unauthenticated static serving of every stored resume, C38 the 404 for
  unrouted paths under \<open>/api/jobs\<close> (auth is per route), and C39 the
  schema conformance of created documents.  Lemmas that are not
  properties: the refinement of the collection to a map from ids to
  documents (\<open>job_store_refines_map\<close>), the round trip of issued ObjectIds,
  the termination and length of path splitting, and the spec's
  end-to-end scenario run through the routers (\<open>end_to_end_scenario\<close>).

  \<^bold>\<open>Ordering.\<close>  \<open>.sort({appliedDate: -1})\<close> is a stable sort of the
  collection in insertion order, so jobs with the same \<open>appliedDate\<close> keep
  their insertion order.  MongoDB leaves the order of such ties
  unspecified; C1 and C9 describe this choice of it, and
  their other content (which jobs, newest first) holds for any tie order.

  \<^bold>\<open>Bounds.\<close>  The id counter is a natural number; ids are unique while it
  stays below \<open>16^24\<close>, the hypothesis of the lemmas that need distinct
  fresh ids.  No loop of the program is unbounded (every iteration is over
  a finite list or, for \<open>path_segments\<close>, over a path that shrinks at each
  call), so no fuel is needed: all definitions are total and executable,
  and the witnesses evaluate them by \<open>simp\<close>.

  \<^bold>\<open>One file namespace.\<close>  The handlers, the static server and multer share
  \<open>srv_files\<close>, the set of stored paths relative to the directory multer
  writes into.  By C20 the controller, the static server and the start-up
  directory of \<open>upload.js\<close> always name the same \<open>backend/uploads\<close>, and
  multer's \<open>'uploads/'\<close> is that directory exactly when the process is
  started in \<open>backend/\<close>; the properties that read files back (C6, C18,
  C25, C31, C34, C37) describe a process started there.  Started
  elsewhere, multer writes where nothing else looks.

  \<^bold>\<open>Not modelled.\<close>  Process start-up (\<open>dotenv\<close>, \<open>connectDB\<close>,
  \<open>app.listen\<close>) and \<open>config/db.js\<close> (I/O only); the CORS headers other than
  the preflight answer; the rejection of malformed JSON bodies (a request
  carries its parsed body); URL decoding and case-insensitive matching of
  paths; the effect of creating \<open>uploads/\<close> at start-up (only its path is
  modelled); the bcrypt hash (a hash is the
  opaque \<open>Hashed\<close> value, compared for equality); the encoding of a JWT as a
  string and its HMAC signature (a token records its payload and key, and
  a header that does not parse is a token that does not verify), which is
  why the token service stays partly modelled; the SMTP exchange with gmail
  beyond its outcome (\<open>env_mail_ok\<close>); the contents of files (only their paths);
  requests that overlap in time (each request runs to its end before the
  next starts; which of two racing registrations of one email succeeds
  depends on a unique index of \<open>models/User.js\<close>, which is not among the
  sources).
\<close>

section \<open>Runs of the server\<close>

definition init_server :: server where
  "init_server = \<lparr>srv_jobs = [], srv_users = [], srv_files = {}, srv_outbox = [], srv_seq = 0\<rparr>"

text \<open>
  A state is reachable when some sequence of requests, each handled to the
  end before the next starts, leads to it from the empty server.
\<close>

inductive reachable :: "string \<Rightarrow> server \<Rightarrow> bool" for secret :: string where
  init: "reachable secret init_server"
| job_step: "reachable secret s \<Longrightarrow> reachable secret (snd (job_routes secret e hdr up rq s))"
| auth_step: "reachable secret s \<Longrightarrow> reachable secret (snd (auth_routes secret e hdr rq s))"

definition sys_inv :: "server \<Rightarrow> bool" where
  "sys_inv s = (server_wf s \<and> users_wf (srv_users s))"

section \<open>Concrete data for the witnesses\<close>

definition demo_secret :: string where "demo_secret = ''jwt-secret''"

definition demo_date :: "string option \<Rightarrow> time option" where
  "demo_date d = (if d = Some ''2024-01-01'' then Some 1704067200000 else None)"

definition demo_env :: env where
  "demo_env = \<lparr>env_now = 1700000000000, env_date = demo_date, env_mail_ok = True,
     env_email_user = Some ''tracker@x.com'', env_email_pass = Some ''app-pw''\<rparr>"

definition demo_user :: "nat \<Rightarrow> string \<Rightarrow> user_doc" where
  "demo_user n email = \<lparr>user_id = oid_of_nat n, user_name = ''A'', user_email = email,
                         user_password = Hashed ''pw''\<rparr>"

definition demo_job :: "nat \<Rightarrow> nat \<Rightarrow> time \<Rightarrow> string \<Rightarrow> string option \<Rightarrow> job" where
  "demo_job n owner t st r =
     \<lparr>job_id = oid_of_nat n, job_user = oid_of_nat owner, job_company = ''Acme'', job_role = ''Eng'',
      job_status = st, job_applied_date = t, job_interview_date = None, job_notes = None,
      job_resume = r, job_contact = None, job_source = None, job_last_updated = t\<rparr>"

definition demo_state :: server where
  "demo_state =
     \<lparr>srv_jobs = [demo_job 3 1 100 ''applied'' (Some ''uploads/100-cv.pdf''),
                 demo_job 4 1 200 ''interview'' None, demo_job 5 2 300 ''offer'' None],
      srv_users = [demo_user 1 ''a@x.com'', demo_user 2 ''b@x.com''],
      srv_files = {''uploads/100-cv.pdf''}, srv_outbox = [], srv_seq = 6\<rparr>"

definition demo_body :: "string option \<Rightarrow> string option \<Rightarrow> job_body" where
  "demo_body st d =
     \<lparr>body_company = Some ''Acme'', body_role = Some ''Eng'', body_status = st, body_notes = None,
      body_contact = None, body_source = None, body_interview_date = d\<rparr>"

definition demo_pdf :: "nat \<Rightarrow> string \<Rightarrow> upload_file" where
  "demo_pdf n mime =
     \<lparr>up_fieldname = ''resume'', up_originalname = ''cv.pdf'', up_mimetype = mime, up_size = n\<rparr>"

definition demo_token :: jwt_token where
  "demo_token = jwt_sign demo_secret 1700000000 (user_payload (oid_of_nat 1) ''A'')"

definition e2e_user :: user_doc where
  "e2e_user = \<lparr>user_id = oid_of_nat 0, user_name = ''A'', user_email = ''a@x.com'', user_password = Hashed ''pw''\<rparr>"

definition e2e_token :: jwt_token where
  "e2e_token = jwt_sign demo_secret 1700000000 (user_payload (oid_of_nat 0) ''A'')"

definition e2e_s1 :: server where
  "e2e_s1 = \<lparr>srv_jobs = [], srv_users = [e2e_user], srv_files = {}, srv_outbox = [], srv_seq = 1\<rparr>"

definition e2e_mail_added :: mail where
  "e2e_mail_added = \<lparr>mail_from = Some ''tracker@x.com'', mail_to = ''a@x.com'', mail_subject = ''New Job Application Added'',
     mail_text = ''You added a job application for Acme - Eng with status applied.''\<rparr>"

definition e2e_mail_status :: mail where
  "e2e_mail_status = \<lparr>mail_from = Some ''tracker@x.com'', mail_to = ''a@x.com'', mail_subject = ''Job Status Updated'',
     mail_text = ''The status of your job application for Acme - Eng has changed from applied to interview.''\<rparr>"

definition e2e_job :: job where
  "e2e_job = demo_job 1 0 1700000000000 ''applied'' None"

definition e2e_job_interview :: job where
  "e2e_job_interview = e2e_job\<lparr>job_status := ''interview'', job_interview_date := Some 1704067200000\<rparr>"

definition e2e_s2 :: server where
  "e2e_s2 = \<lparr>srv_jobs = [e2e_job], srv_users = [e2e_user], srv_files = {}, srv_outbox = [e2e_mail_added],
     srv_seq = 2\<rparr>"

definition e2e_s3 :: server where
  "e2e_s3 = \<lparr>srv_jobs = [e2e_job_interview], srv_users = [e2e_user], srv_files = {},
     srv_outbox = [e2e_mail_added, e2e_mail_status], srv_seq = 2\<rparr>"

definition e2e_s4 :: server where
  "e2e_s4 = \<lparr>srv_jobs = [], srv_users = [e2e_user], srv_files = {},
     srv_outbox = [e2e_mail_added, e2e_mail_status], srv_seq = 2\<rparr>"

definition demo_cfg :: app_config where
  "demo_cfg = \<lparr>cfg_secret = demo_secret, cfg_production = False, cfg_build = {}\<rparr>"

definition demo_request :: http_request where
  "demo_request =
     \<lparr>rq_method = GET, rq_path = ''/'', rq_token = Some demo_token, rq_body = demo_body None None,
      rq_file = None, rq_name = ''A'', rq_email = ''a@x.com'', rq_password = ''pw''\<rparr>"

lemmas demo_simps = demo_secret_def demo_date_def demo_env_def demo_user_def demo_job_def
  demo_state_def demo_body_def demo_pdf_def

section \<open>Invariant\<close>

lemma sys_inv_init: "sys_inv init_server"
  by (simp add: sys_inv_def init_server_def server_wf_def users_wf_def)

lemma sys_inv_files: "sys_inv (s\<lparr>srv_files := fs\<rparr>) = sys_inv s"
  by (simp add: sys_inv_def server_wf_def)

lemma sys_inv_handler:
  assumes "sys_inv s" "server_wf s \<Longrightarrow> server_wf s'" "srv_users s' = srv_users s"
  shows "sys_inv s'"
  using assms by (simp add: sys_inv_def)

lemma with_upload_inv:
  assumes "sys_inv s" "\<And>f s'. sys_inv s' \<Longrightarrow> sys_inv (snd (k f s'))"
  shows "sys_inv (snd (with_upload e up s k))"
  using assms by (auto simp: with_upload_def sys_inv_files split: sum.splits prod.splits)

lemma job_handlers_inv:
  "sys_inv s \<Longrightarrow> sys_inv (snd (addJob e uid b f s))"
  "sys_inv s \<Longrightarrow> sys_inv (snd (updateJob e uid i b f s))"
  "sys_inv s \<Longrightarrow> sys_inv (snd (deleteJob uid i s))"
  by (rule sys_inv_handler; simp add: addJob_wf updateJob_wf deleteJob_wf)+

lemma job_routes_inv:
  assumes inv: "sys_inv s"
  shows "sys_inv (snd (job_routes secret e hdr up rq s))"
proof (cases "auth secret (jwt_now e) hdr")
  case (Inl err)
  with inv show ?thesis by (simp add: job_routes_def)
next
  case (Inr ru)
  show ?thesis
  proof (cases rq)
    case (PostJob b)
    have "sys_inv (snd (with_upload e up s (\<lambda>f s'. addJob e (ru_id ru) b f s')))"
      using inv by (rule with_upload_inv) (rule job_handlers_inv)
    with Inr PostJob show ?thesis by (simp add: job_routes_def)
  next
    case (PutJob i b)
    have "sys_inv (snd (with_upload e up s (\<lambda>f s'. updateJob e (ru_id ru) i b f s')))"
      using inv by (rule with_upload_inv) (rule job_handlers_inv)
    with Inr PutJob show ?thesis by (simp add: job_routes_def)
  next
    case (DeleteJob i)
    with Inr inv show ?thesis by (simp add: job_routes_def job_handlers_inv)
  qed (use Inr inv in \<open>simp_all add: job_routes_def\<close>)
qed

lemma register_save_inv:
  assumes "sys_inv s" "\<not> register_exists email s"
  shows "sys_inv (snd (register_save secret e name email password s))"
proof -
  have wf: "server_wf (snd (register_save secret e name email password s))"
    using assms(1) server_wf_bump [of s] by (simp add: sys_inv_def server_wf_def)
  have "users_wf (srv_users (snd (register_save secret e name email password s)))"
    using assms by (auto simp: register_save_users sys_inv_def users_wf_def register_exists_iff)
  with wf show ?thesis by (simp add: sys_inv_def)
qed

lemma auth_routes_inv:
  assumes inv: "sys_inv s"
  shows "sys_inv (snd (auth_routes secret e hdr rq s))"
proof (cases rq)
  case (Register name email password)
  with inv show ?thesis
    by (cases "register_exists email s") (simp_all add: auth_routes_def register_def register_save_inv)
next
  case Me
  with inv show ?thesis by (simp add: auth_routes_def split: sum.splits)
qed (use inv in \<open>simp_all add: auth_routes_def\<close>)

lemma reachable_sys_inv: "reachable secret s \<Longrightarrow> sys_inv s"
proof (induction rule: reachable.induct)
  case init
  show ?case by (rule sys_inv_init)
next
  case (job_step s e hdr up rq)
  from job_step.IH show ?case by (rule job_routes_inv)
next
  case (auth_step s e hdr rq)
  from auth_step.IH show ?case by (rule auth_routes_inv)
qed

section \<open>Properties\<close>

text \<open>
  C1. Listing the caller's jobs (\<open>getJobs\<close>) changes nothing and returns exactly
  the jobs whose owner is the caller, each of them owned by the caller, newest
  \<open>appliedDate\<close> first, with \<open>count\<close> equal to the number returned.
\<close>

theorem getJobs_own_jobs_newest_first:
  assumes "getJobs uid s = (Response c ok (RJobs n js), s')"
  shows "s' = s \<and> n = length js \<and>
    (\<exists>u. cast_oid uid = Some u \<and> (\<forall>j \<in> set js. job_user j = u) \<and>
         mset js = mset (filter (\<lambda>j. job_user j = u) (srv_jobs s))) \<and>
    sorted_wrt (\<lambda>a b. job_applied_date b \<le> job_applied_date a) js"
proof (cases "cast_oid uid")
  case None
  with assms show ?thesis by (simp add: getJobs_uncast server_error_def)
next
  case (Some u)
  with assms have "js = sort_applied_desc (filter (\<lambda>j. job_user j = u) (srv_jobs s)) \<and>
      n = length (filter (\<lambda>j. job_user j = u) (srv_jobs s)) \<and> s' = s"
    by (auto simp: getJobs_cast)
  with Some show ?thesis by (auto simp: sorted_sort_applied_desc)
qed

theorem getJobs_own_jobs_newest_first_witness:
  "getJobs (oid_of_nat 1) demo_state =
     (Response 200 True (RJobs 2 [demo_job 4 1 200 ''interview'' None,
                                  demo_job 3 1 100 ''applied'' (Some ''uploads/100-cv.pdf'')]), demo_state) \<and>
   list_all (\<lambda>j. job_user j = oid_of_nat 1)
     [demo_job 4 1 200 ''interview'' None, demo_job 3 1 100 ''applied'' (Some ''uploads/100-cv.pdf'')]"
proof -
  have h: "getJobs (oid_of_nat 1) demo_state =
     (Response 200 True (RJobs 2 [demo_job 4 1 200 ''interview'' None,
                                  demo_job 3 1 100 ''applied'' (Some ''uploads/100-cv.pdf'')]), demo_state)"
    by (simp add: getJobs_cast demo_simps sort_applied_desc_def)
  show ?thesis
    using getJobs_own_jobs_newest_first [OF h] h by (auto simp: list_all_iff)
qed

lemma addJob_demo:
  "addJob demo_env (oid_of_nat 1) (demo_body (Some ''applied'') (Some ''2024-01-01'')) None demo_state =
     (Response 201 True (RJob (Some (demo_job 6 1 1700000000000 ''applied'' None))),
      snd (addJob demo_env (oid_of_nat 1) (demo_body (Some ''applied'') (Some ''2024-01-01'')) None demo_state))"
  by (simp add: addJob_def Let_def add_literal_def job_create_def cast_user_def interview_value_def
     status_default_def status_enum_def insert_job_def notify_user_def send_mail_def smtp_credentials_def find_user_by_id_def demo_simps)

text \<open>
  C2. A job created by \<open>addJob\<close> is stored, its \<open>appliedDate\<close> is the request's
  time, and its \<open>interviewDate\<close> is the parsed request date when the status is
  \<open>interview\<close> (and then it is present) and absent otherwise, whatever date the
  request carried.
\<close>

theorem addJob_interview_date_rule:
  assumes "addJob e uid b file s = (Response 201 ok (RJob (Some j)), s')"
  shows "j \<in> set (srv_jobs s') \<and> job_applied_date j = env_now e \<and>
    job_interview_date j =
      (if body_status b = Some ''interview'' then env_date e (body_interview_date b) else None) \<and>
    (body_status b = Some ''interview'' \<longrightarrow> job_interview_date j \<noteq> None)"
proof -
  from assms obtain s2 where
    c: "job_create (oid_of_nat (srv_seq s)) (env_now e) (add_literal e uid b file) = Inr j"
    by (auto simp: addJob_201)
  then obtain d where "cast_date (interview_value e (body_status b) (body_interview_date b)) = Inr d"
    "job_interview_date j = d"
    unfolding job_create_Inr by auto
  then have "body_status b = Some ''interview'' \<longrightarrow> job_interview_date j \<noteq> None"
    using interview_value_cast_interview by blast
  with addJob_created [OF assms] show ?thesis by simp
qed

theorem addJob_interview_date_rule_witness:
  "addJob demo_env (oid_of_nat 1) (demo_body (Some ''applied'') (Some ''2024-01-01'')) None demo_state =
     (Response 201 True (RJob (Some (demo_job 6 1 1700000000000 ''applied'' None))),
      snd (addJob demo_env (oid_of_nat 1) (demo_body (Some ''applied'') (Some ''2024-01-01'')) None demo_state)) \<and>
   job_interview_date (demo_job 6 1 1700000000000 ''applied'' None) = None"
  using addJob_interview_date_rule [OF addJob_demo] addJob_demo by (simp add: demo_body_def)

text \<open>
  C3. A successful updateJob answers with the stored record: it is in the new job list, its lastUpdated is the request time, and its interviewDate is the parsed request date when the new status is interview and is cleared otherwise.
\<close>

theorem updateJob_interview_date_rule:
  assumes "updateJob e uid i b file s = (Response 200 ok (RJob (Some j)), s')"
  shows "j \<in> set (srv_jobs s') \<and> job_last_updated j = env_now e \<and>
    job_interview_date j =
      (if body_status b = Some ''interview'' then env_date e (body_interview_date b) else None)"
proof -
  from updateJob_200 [OF assms] obtain k j0 d where
    f: "find (\<lambda>x. job_id x = k) (srv_jobs s) = Some j0" and
    d: "cast_date (interview_value e (body_status b) (body_interview_date b)) = Inr d" and
    r: "j = job_set (update_doc e b file j0) d j0" and
    js: "srv_jobs s' = map (\<lambda>x. if job_id x = k then job_set (update_doc e b file j0) d x else x) (srv_jobs s)"
    by auto
  have "j \<in> set (srv_jobs s')" using find_job_id_mem [OF f] r js by simp
  moreover have "d = (if body_status b = Some ''interview'' then env_date e (body_interview_date b) else None)"
    using d by (rule interview_value_cast)
  ultimately show ?thesis using r by (simp add: update_doc_def Let_def)
qed

lemma updateJob_demo:
  "updateJob demo_env (oid_of_nat 1) (oid_of_nat 4) (demo_body (Some ''applied'') None) None demo_state =
     (Response 200 True (RJob (Some ((demo_job 4 1 200 ''applied'' None)\<lparr>job_last_updated := 1700000000000\<rparr>))),
      snd (updateJob demo_env (oid_of_nat 1) (oid_of_nat 4) (demo_body (Some ''applied'') None) None demo_state))"
  by (simp add: updateJob_def find_job_by_id_cast update_job_by_id_def cast_id_def update_doc_def
      interview_value_def job_set_def set_path_def set_opt_path_def notify_user_def send_mail_def smtp_credentials_def find_user_by_id_def
      Let_def demo_simps)

theorem updateJob_interview_date_rule_witness:
  "updateJob demo_env (oid_of_nat 1) (oid_of_nat 4) (demo_body (Some ''applied'') None) None demo_state =
     (Response 200 True (RJob (Some ((demo_job 4 1 200 ''applied'' None)\<lparr>job_last_updated := 1700000000000\<rparr>))),
      snd (updateJob demo_env (oid_of_nat 1) (oid_of_nat 4) (demo_body (Some ''applied'') None) None demo_state)) \<and>
   job_interview_date (demo_job 4 1 200 ''interview'' None) = None"
  using updateJob_interview_date_rule [OF updateJob_demo] updateJob_demo by (simp add: demo_simps)

text \<open>
  C4. When the target record exists but belongs to another user, updateJob, deleteJob and downloadResume all answer 401 and leave the server state (jobs, users, files, mails) unchanged.
\<close>

theorem foreign_job_untouched:
  assumes "cast_oid i = Some k" "find (\<lambda>x. job_id x = k) (srv_jobs s) = Some j" "job_user j \<noteq> uid"
  shows "updateJob e uid i b file s = (Response 401 False (RMsg ''Not authorized to update this job''), s) \<and>
    deleteJob uid i s = (Response 401 False (RMsg ''Not authorized to delete this job''), s) \<and>
    downloadResume uid i s = (Response 401 False (RMsg ''Not authorized to download this resume''), s)"
proof -
  have "find_job_by_id i (srv_jobs s) = Inr (Some j)"
    using assms(1,2) by (simp add: find_job_by_id_cast)
  with assms(3) show ?thesis by (simp add: target_not_owner)
qed

theorem foreign_job_untouched_witness:
  "cast_oid (oid_of_nat 5) = Some (oid_of_nat 5) \<and>
   find (\<lambda>x. job_id x = oid_of_nat 5) (srv_jobs demo_state) = Some (demo_job 5 2 300 ''offer'' None) \<and>
   job_user (demo_job 5 2 300 ''offer'' None) \<noteq> oid_of_nat 1 \<and>
   deleteJob (oid_of_nat 1) (oid_of_nat 5) demo_state =
     (Response 401 False (RMsg ''Not authorized to delete this job''), demo_state)"
proof -
  have h1: "cast_oid (oid_of_nat 5) = Some (oid_of_nat 5)" by simp
  have h2: "find (\<lambda>x. job_id x = oid_of_nat 5) (srv_jobs demo_state) = Some (demo_job 5 2 300 ''offer'' None)"
    by (simp add: demo_simps)
  have h3: "job_user (demo_job 5 2 300 ''offer'' None) \<noteq> oid_of_nat 1" by (simp add: demo_simps)
  show ?thesis using foreign_job_untouched [OF h1 h2 h3, of demo_env] h1 h2 h3 by simp
qed

text \<open>
  C5. Behind a valid token, an upload under the resume field that is not a PDF, or a PDF over 5 MiB, is refused by the upload middleware before the controller runs: the request fails with the multer error (the Express default 500) and the state is unchanged.
\<close>

theorem upload_rejected_before_any_write:
  assumes "auth secret (jwt_now e) hdr = Inr ru" "up_fieldname f = ''resume''"
  shows "(up_mimetype f \<noteq> ''application/pdf'' \<longrightarrow>
      job_routes secret e hdr (Some f) (PostJob b) s =
        (Response 500 False (RMsg ''Only PDF files are allowed!''), s)) \<and>
    (up_mimetype f = ''application/pdf'' \<and> 5 * 1024 * 1024 < up_size f \<longrightarrow>
      job_routes secret e hdr (Some f) (PostJob b) s = (Response 500 False (RMsg ''File too large''), s))"
  using assms
  by (simp add: job_routes_def with_upload_def upload_single_def upload_field_def file_filter_def
      allowed_types_def file_size_limit_def)

lemma demo_token_auth:
  "auth demo_secret (jwt_now demo_env) (Some demo_token) = Inr \<lparr>ru_id = oid_of_nat 1, ru_name = Some ''A''\<rparr>"
  by (simp add: auth_def jwt_verify_sign demo_token_def jwt_now_def demo_env_def token_lifetime_def
      user_payload_def decode_payload_def)

theorem upload_rejected_before_any_write_witness:
  "auth demo_secret (jwt_now demo_env) (Some demo_token) = Inr \<lparr>ru_id = oid_of_nat 1, ru_name = Some ''A''\<rparr> \<and>
   job_routes demo_secret demo_env (Some demo_token) (Some (demo_pdf 100 ''image/png''))
     (PostJob (demo_body None None)) demo_state =
       (Response 500 False (RMsg ''Only PDF files are allowed!''), demo_state)"
  using upload_rejected_before_any_write [OF demo_token_auth, of "demo_pdf 100 ''image/png''"]
    demo_token_auth by (simp add: demo_pdf_def)

text \<open>
  C6. deleteJob by the owner of a record with a resume removes the record from the collection and the resume file from disk, answers 200, and afterwards no record with that id is found.
\<close>

theorem deleteJob_removes_record_and_file:
  assumes "cast_oid i = Some k" "find (\<lambda>x. job_id x = k) (srv_jobs s) = Some j" "job_user j = uid"
    and "job_resume j = Some p" "p \<noteq> []"
  shows "deleteJob uid i s =
    (Response 200 True (RMsg ''Job removed successfully''),
     s\<lparr>srv_files := srv_files s - {p}, srv_jobs := filter (\<lambda>x. job_id x \<noteq> k) (srv_jobs s)\<rparr>) \<and>
    find (\<lambda>x. job_id x = k) (filter (\<lambda>x. job_id x \<noteq> k) (srv_jobs s)) = None"
  using deleteJob_owner [OF assms(1-3)] assms(4,5)
  by (simp add: unlink_resume_Some find_None_iff)

theorem deleteJob_removes_record_and_file_witness:
  "cast_oid (oid_of_nat 3) = Some (oid_of_nat 3) \<and>
   find (\<lambda>x. job_id x = oid_of_nat 3) (srv_jobs demo_state) =
     Some (demo_job 3 1 100 ''applied'' (Some ''uploads/100-cv.pdf'')) \<and>
   srv_files (snd (deleteJob (oid_of_nat 1) (oid_of_nat 3) demo_state)) = {}"
proof -
  have h2: "find (\<lambda>x. job_id x = oid_of_nat 3) (srv_jobs demo_state) =
     Some (demo_job 3 1 100 ''applied'' (Some ''uploads/100-cv.pdf''))"
    by (simp add: demo_simps)
  show ?thesis
    using deleteJob_removes_record_and_file [OF _ h2, of "oid_of_nat 3" "oid_of_nat 1" "''uploads/100-cv.pdf''"] h2
    by (simp add: demo_simps)
qed

text \<open>
  C7. In every state reachable from the empty server by authenticated job requests and register/login/me requests, job ids are distinct valid ObjectIds below the id counter, owners are valid ObjectIds, and user ids and emails are distinct.
\<close>

theorem reachable_invariant:
  assumes "reachable secret s"
  shows "distinct (map job_id (srv_jobs s)) \<and>
    list_all (\<lambda>j. valid_oid (job_id j) \<and> valid_oid (job_user j) \<and> oid_value (job_id j) < srv_seq s) (srv_jobs s) \<and>
    distinct (map user_id (srv_users s)) \<and> distinct (map user_email (srv_users s))"
  using reachable_sys_inv [OF assms]
  by (auto simp: sys_inv_def server_wf_def jobs_wf_def users_wf_def list_all_iff)

theorem reachable_invariant_witness:
  "reachable demo_secret (snd (auth_routes demo_secret demo_env None (Register ''A'' ''a@x.com'' ''pw'') init_server)) \<and>
   distinct (map user_email (srv_users (snd (auth_routes demo_secret demo_env None (Register ''A'' ''a@x.com'' ''pw'') init_server))))"
proof -
  have r: "reachable demo_secret (snd (auth_routes demo_secret demo_env None (Register ''A'' ''a@x.com'' ''pw'') init_server))"
    by (rule reachable.auth_step [OF reachable.init])
  show ?thesis using reachable_invariant [OF r] r by simp
qed

text \<open>
  C8. Whatever updateJob is asked, every job keeps its id, its owner and its appliedDate, in the same order: an update never moves a record to another user or re-dates its application.
\<close>

theorem updateJob_keeps_identity:
  "map (\<lambda>j. (job_id j, job_user j, job_applied_date j)) (srv_jobs (snd (updateJob e uid i b file s))) =
   map (\<lambda>j. (job_id j, job_user j, job_applied_date j)) (srv_jobs s)"
  using updateJob_state [of e uid i b "file" s]
  by (auto dest: update_job_by_id_identity)

text \<open>
  C9. getJobsByStatus returns exactly the jobs of getJobs whose status is the requested one, in the same newest-first order.
\<close>

theorem getJobsByStatus_filters_getJobs:
  assumes "getJobs uid s = (Response 200 True (RJobs n js), s)"
  shows "getJobsByStatus uid st s =
    (Response 200 True (RJobs (length (filter (\<lambda>j. job_status j = st) js)) (filter (\<lambda>j. job_status j = st) js)), s)"
proof (cases "cast_oid uid")
  case None
  with assms show ?thesis by (simp add: getJobs_uncast server_error_def)
next
  case (Some u)
  with assms have js: "js = sort_applied_desc (filter (\<lambda>j. job_user j = u) (srv_jobs s))"
    by (simp add: getJobs_cast)
  have "filter (\<lambda>j. job_status j = st) js =
      sort_applied_desc (filter (\<lambda>j. job_user j = u \<and> job_status j = st) (srv_jobs s))"
    unfolding js filter_sort_applied_desc by (simp add: conj_commute)
  with Some show ?thesis by (simp add: getJobsByStatus_cast)
qed

theorem getJobsByStatus_filters_getJobs_witness:
  "getJobs (oid_of_nat 1) demo_state =
     (Response 200 True (RJobs 2 [demo_job 4 1 200 ''interview'' None,
                                  demo_job 3 1 100 ''applied'' (Some ''uploads/100-cv.pdf'')]), demo_state) \<and>
   getJobsByStatus (oid_of_nat 1) ''interview'' demo_state =
     (Response 200 True (RJobs 1 [demo_job 4 1 200 ''interview'' None]), demo_state)"
proof -
  have h: "getJobs (oid_of_nat 1) demo_state =
     (Response 200 True (RJobs 2 [demo_job 4 1 200 ''interview'' None,
                                  demo_job 3 1 100 ''applied'' (Some ''uploads/100-cv.pdf'')]), demo_state)"
    by (simp add: getJobs_cast demo_simps sort_applied_desc_def)
  show ?thesis using getJobsByStatus_filters_getJobs [OF h, of "''interview''"] h by (simp add: demo_simps)
qed

text \<open>
  C10. The four counters of getJobStats never add up to more than the total, and they add up to the total exactly when every job of the caller has one of the four enumerated statuses.
\<close>

theorem getJobStats_counts:
  assumes "getJobStats uid s = (Response 200 True (RStats st), s')"
  shows "st_applied st + st_interview st + st_offer st + st_rejected st \<le> st_total st \<and>
    (st_applied st + st_interview st + st_offer st + st_rejected st = st_total st \<longleftrightarrow>
     list_all (\<lambda>j. Some (job_user j) = cast_oid uid \<longrightarrow> job_status j \<in> set status_enum) (srv_jobs s))"
proof (cases "cast_oid uid")
  case None
  with assms show ?thesis by (simp add: getJobStats_def find_jobs_uncast server_error_def)
next
  case (Some u)
  with assms have st: "st = job_stats (filter (\<lambda>j. job_user j = u) (srv_jobs s))"
    by (auto simp: getJobStats_cast)
  let ?own = "filter (\<lambda>j. job_user j = u) (srv_jobs s)"
  have sum: "st_applied st + st_interview st + st_offer st + st_rejected st =
      length (filter (\<lambda>j. job_status j \<in> set status_enum) ?own)"
    unfolding st by (rule job_stats_sum)
  have "length (filter (\<lambda>j. job_status j \<in> set status_enum) ?own) = length ?own \<longleftrightarrow>
      list_all (\<lambda>j. Some (job_user j) = cast_oid uid \<longrightarrow> job_status j \<in> set status_enum) (srv_jobs s)"
  proof -
    have "length (filter (\<lambda>j. job_status j \<in> set status_enum) ?own) = length ?own \<longleftrightarrow>
        (\<forall>j \<in> set ?own. job_status j \<in> set status_enum)"
      by (rule length_filter_eq_iff)
    also have "\<dots> \<longleftrightarrow> list_all (\<lambda>j. Some (job_user j) = cast_oid uid \<longrightarrow> job_status j \<in> set status_enum) (srv_jobs s)"
      using Some by (auto simp: list_all_iff)
    finally show ?thesis .
  qed
  with sum st show ?thesis by (simp del: filter_filter)
qed

theorem getJobStats_counts_witness:
  "getJobStats (oid_of_nat 1) demo_state =
     (Response 200 True (RStats \<lparr>st_applied = 1, st_interview = 1, st_offer = 0, st_rejected = 0, st_total = 2\<rparr>),
      demo_state) \<and>
   (1::nat) + 1 + 0 + 0 \<le> 2"
proof -
  have h: "getJobStats (oid_of_nat 1) demo_state =
     (Response 200 True (RStats \<lparr>st_applied = 1, st_interview = 1, st_offer = 0, st_rejected = 0, st_total = 2\<rparr>),
      demo_state)"
    by (simp add: getJobStats_cast demo_simps job_stats_def count_status_def)
  show ?thesis using getJobStats_counts [OF h] h by simp
qed

text \<open>
  C11. Mail goes only to the caller: an authenticated request through the job router, of any kind,
  appends at most one message to the outbox, and that message is sent from EMAIL_USER to the
  email of the user document whose id is the caller's.
\<close>

theorem job_routes_mail_to_caller:
  assumes "auth secret (jwt_now e) hdr = Inr ru"
  shows "\<exists>ms. srv_outbox (snd (job_routes secret e hdr up rq s)) = srv_outbox s @ ms \<and> length ms \<le> 1 \<and>
    list_all (mail_to_caller e (ru_id ru) (srv_users s)) ms"
proof -
  let ?P = "\<lambda>s'. \<exists>ms. srv_outbox s' = srv_outbox s @ ms \<and> length ms \<le> 1 \<and>
    list_all (mail_to_caller e (ru_id ru) (srv_users s)) ms"
  have nil: "?P s" by (intro exI [of _ "[]"]) simp
  show ?thesis
  proof (cases rq)
    case (PostJob b)
    have "?P (snd (with_upload e up s (\<lambda>f s'. addJob e (ru_id ru) b f s')))"
    proof (rule with_upload_snd [of ?P, OF _ nil])
      fix f files
      show "?P (snd (addJob e (ru_id ru) b f (s\<lparr>srv_files := files\<rparr>)))"
        using addJob_outbox [of e "ru_id ru" b "f" "s\<lparr>srv_files := files\<rparr>"] by simp
    qed
    with PostJob show ?thesis by (simp add: job_routes_Inr [OF assms])
  next
    case (PutJob i b)
    have "?P (snd (with_upload e up s (\<lambda>f s'. updateJob e (ru_id ru) i b f s')))"
    proof (rule with_upload_snd [of ?P, OF _ nil])
      fix f files
      show "?P (snd (updateJob e (ru_id ru) i b f (s\<lparr>srv_files := files\<rparr>)))"
        using updateJob_outbox [of e "ru_id ru" i b "f" "s\<lparr>srv_files := files\<rparr>"] by simp
    qed
    with PutJob show ?thesis by (simp add: job_routes_Inr [OF assms])
  qed (use nil in \<open>simp_all add: job_routes_Inr [OF assms]\<close>)
qed

theorem job_routes_mail_to_caller_witness:
  "auth demo_secret (jwt_now demo_env) (Some demo_token) = Inr \<lparr>ru_id = oid_of_nat 1, ru_name = Some ''A''\<rparr> \<and>
   (\<exists>ms. srv_outbox (snd (job_routes demo_secret demo_env (Some demo_token) None
      (PostJob (demo_body (Some ''applied'') None)) demo_state)) = srv_outbox demo_state @ ms \<and> length ms \<le> 1 \<and>
    list_all (mail_to_caller demo_env (oid_of_nat 1) (srv_users demo_state)) ms)"
  using job_routes_mail_to_caller [OF demo_token_auth, of None "PostJob (demo_body (Some ''applied'') None)" demo_state]
    demo_token_auth by simp

text \<open>
  C12. findByIdAndUpdate runs no validators: when the owner updates a job with any status string other than interview (one outside the four of the enum included), that string is what the collection stores for the job afterwards, whatever the mail step does.
\<close>

theorem updateJob_stores_any_status:
  assumes "cast_oid i = Some k" "find (\<lambda>x. job_id x = k) (srv_jobs s) = Some j" "job_user j = uid"
    and "body_status b = Some st" "st \<noteq> ''interview''"
  shows "map_option job_status (find (\<lambda>x. job_id x = k) (srv_jobs (snd (updateJob e uid i b file s)))) = Some st"
proof -
  have "cast_date (interview_value e (body_status b) (body_interview_date b)) = Inr None"
    using assms(4,5) by (simp add: interview_value_def)
  from updateJob_owner_jobs [OF assms(1-3) this] assms(2,4) show ?thesis
    by (simp add: find_replace_job_set job_set_def set_path_def update_doc_def Let_def)
qed

theorem updateJob_stores_any_status_witness:
  "cast_oid (oid_of_nat 4) = Some (oid_of_nat 4) \<and>
   find (\<lambda>x. job_id x = oid_of_nat 4) (srv_jobs demo_state) = Some (demo_job 4 1 200 ''interview'' None) \<and>
   map_option job_status (find (\<lambda>x. job_id x = oid_of_nat 4)
     (srv_jobs (snd (updateJob demo_env (oid_of_nat 1) (oid_of_nat 4) (demo_body (Some ''ghosted'') None) None demo_state))))
     = Some ''ghosted''"
proof -
  have h1: "cast_oid (oid_of_nat 4) = Some (oid_of_nat 4)" by simp
  have h2: "find (\<lambda>x. job_id x = oid_of_nat 4) (srv_jobs demo_state) = Some (demo_job 4 1 200 ''interview'' None)"
    by (simp add: demo_simps)
  have h3: "job_user (demo_job 4 1 200 ''interview'' None) = oid_of_nat 1" by (simp add: demo_simps)
  show ?thesis
    using updateJob_stores_any_status [OF h1 h2 h3, of "demo_body (Some ''ghosted'') None" "''ghosted''" demo_env None]
      h1 h2 by (simp add: demo_simps)
qed

text \<open>
  C13. When the caller has an email and sendMail rejects the message (EMAIL_USER or EMAIL_PASS is missing, or the transport refuses it), addJob answers 500 although the new job has already been saved: the state keeps the appended record and the advanced id counter.
\<close>

theorem addJob_mail_failure_keeps_job:
  assumes "\<not> (smtp_credentials e \<and> env_mail_ok e)" "find_user_by_id uid (srv_users s) = Inr (Some u)" "user_email u \<noteq> []"
    and "job_create (oid_of_nat (srv_seq s)) (env_now e) (add_literal e uid b file) = Inr j"
    and "job_id j \<notin> set (map job_id (srv_jobs s))"
  shows "addJob e uid b file s =
    (Response 500 False (RMsg ''Server error while adding job''),
     s\<lparr>srv_seq := Suc (srv_seq s), srv_jobs := srv_jobs s @ [j]\<rparr>)"
  using assms by (simp add: addJob_def Let_def insert_job_def notify_user_def send_mail_def smtp_credentials_def server_error_def)

theorem addJob_mail_failure_keeps_job_witness:
  "find_user_by_id (oid_of_nat 1) (srv_users demo_state) = Inr (Some (demo_user 1 ''a@x.com'')) \<and>
   job_create (oid_of_nat 6) 1700000000000
     (add_literal (demo_env\<lparr>env_mail_ok := False\<rparr>) (oid_of_nat 1) (demo_body (Some ''applied'') None) None) =
     Inr (demo_job 6 1 1700000000000 ''applied'' None) \<and>
   fst (addJob (demo_env\<lparr>env_mail_ok := False\<rparr>) (oid_of_nat 1) (demo_body (Some ''applied'') None) None demo_state) =
     Response 500 False (RMsg ''Server error while adding job'')"
proof -
  have h2: "find_user_by_id (oid_of_nat 1) (srv_users demo_state) = Inr (Some (demo_user 1 ''a@x.com''))"
    by (simp add: find_user_by_id_valid demo_simps)
  have h4: "job_create (oid_of_nat (srv_seq demo_state)) (env_now (demo_env\<lparr>env_mail_ok := False\<rparr>))
     (add_literal (demo_env\<lparr>env_mail_ok := False\<rparr>) (oid_of_nat 1) (demo_body (Some ''applied'') None) None) =
     Inr (demo_job 6 1 1700000000000 ''applied'' None)"
    by (simp add: add_literal_def job_create_def cast_user_def interview_value_def status_default_def
        status_enum_def demo_simps)
  have h5: "job_id (demo_job 6 1 1700000000000 ''applied'' None) \<notin> set (map job_id (srv_jobs demo_state))"
    by (simp add: demo_simps)
  show ?thesis
    using addJob_mail_failure_keeps_job [OF _ h2 _ h4 h5] h2 h4 by (simp add: demo_simps)
qed

text \<open>
  C14. A PUT carrying a valid PDF for a job of another user is refused with 401 by the controller, but multer has already written the file: the state differs from the old one by the new upload path, which no record references.
\<close>

theorem put_foreign_job_keeps_upload:
  assumes "auth secret (jwt_now e) hdr = Inr ru"
    and "cast_oid i = Some k" "find (\<lambda>x. job_id x = k) (srv_jobs s) = Some j" "job_user j \<noteq> ru_id ru"
    and "up_fieldname f = ''resume''" "up_mimetype f = ''application/pdf''" "up_size f \<le> 5 * 1024 * 1024"
  shows "job_routes secret e hdr (Some f) (PutJob i b) s =
    (Response 401 False (RMsg ''Not authorized to update this job''),
     s\<lparr>srv_files := insert (''uploads/'' @ dec_string (env_now e) @ ''-'' @ up_originalname f) (srv_files s)\<rparr>)"
proof -
  have "find_job_by_id i (srv_jobs s) = Inr (Some j)"
    using assms(2,3) by (simp add: find_job_by_id_cast)
  with assms show ?thesis
    by (simp add: job_routes_def with_upload_def upload_single_def upload_field_def file_filter_def
        allowed_types_def file_size_limit_def upload_destination_def upload_filename_def Let_def
        target_not_owner)
qed

theorem put_foreign_job_keeps_upload_witness:
  "auth demo_secret (jwt_now demo_env) (Some demo_token) = Inr \<lparr>ru_id = oid_of_nat 1, ru_name = Some ''A''\<rparr> \<and>
   find (\<lambda>x. job_id x = oid_of_nat 5) (srv_jobs demo_state) = Some (demo_job 5 2 300 ''offer'' None) \<and>
   srv_files (snd (job_routes demo_secret demo_env (Some demo_token) (Some (demo_pdf 100 ''application/pdf''))
     (PutJob (oid_of_nat 5) (demo_body None None)) demo_state)) = {''uploads/100-cv.pdf'', ''uploads/1700000000000-cv.pdf''}"
proof -
  have h2: "cast_oid (oid_of_nat 5) = Some (oid_of_nat 5)" by simp
  have h3: "find (\<lambda>x. job_id x = oid_of_nat 5) (srv_jobs demo_state) = Some (demo_job 5 2 300 ''offer'' None)"
    by (simp add: demo_simps)
  have h4: "job_user (demo_job 5 2 300 ''offer'' None) \<noteq> ru_id \<lparr>ru_id = oid_of_nat 1, ru_name = Some ''A''\<rparr>"
    by (simp add: demo_simps)
  have d: "dec_string (env_now demo_env) = ''1700000000000''"
    by (simp add: demo_env_def dec_string.simps digit_char_def char_of_def bit_simps)
  show ?thesis
    using put_foreign_job_keeps_upload [OF demo_token_auth h2 h3 h4, of "demo_pdf 100 ''application/pdf''"]
      demo_token_auth h3 d by (simp add: demo_pdf_def demo_state_def insert_commute)
qed

text \<open>
  C15. An update by the owner whose body has no status keeps the stored status but still mails the owner that the status has changed from the old one to undefined.
\<close>

theorem updateJob_without_status_mails:
  assumes "cast_oid i = Some k" "find (\<lambda>x. job_id x = k) (srv_jobs s) = Some j" "job_user j = uid"
    and "body_status b = None" "smtp_credentials e" "env_mail_ok e"
    and "find_user_by_id uid (srv_users s) = Inr (Some u)" "user_email u \<noteq> []"
  shows "srv_outbox (snd (updateJob e uid i b file s)) = srv_outbox s @
      [\<lparr>mail_from = env_email_user e, mail_to = user_email u, mail_subject = ''Job Status Updated'',
        mail_text = ''The status of your job application for '' @ js_template (body_company b) @ '' - '' @
          js_template (body_role b) @ '' has changed from '' @ job_status j @ '' to undefined.''\<rparr>] \<and>
    map_option job_status (find (\<lambda>x. job_id x = k) (srv_jobs (snd (updateJob e uid i b file s)))) =
      Some (job_status j)"
proof -
  have d: "cast_date (interview_value e (body_status b) (body_interview_date b)) = Inr None"
    using assms(4) by (simp add: interview_value_def)
  have "srv_outbox (snd (updateJob e uid i b file s)) = srv_outbox s @
      [\<lparr>mail_from = env_email_user e, mail_to = user_email u, mail_subject = ''Job Status Updated'',
        mail_text = status_text b (job_status j)\<rparr>]"
    using assms(4-8) d
    by (simp add: updateJob_owner [OF assms(1-3)] Let_def notify_user_def send_mail_def smtp_credentials_def)
  moreover have "map_option job_status (find (\<lambda>x. job_id x = k) (srv_jobs (snd (updateJob e uid i b file s)))) =
      Some (job_status j)"
    using updateJob_owner_jobs [OF assms(1-3) d] assms(2,4)
    by (simp add: find_replace_job_set job_set_def set_path_def update_doc_def Let_def)
  ultimately show ?thesis using assms(4) by (simp add: status_text_def)
qed

theorem updateJob_without_status_mails_witness:
  "find_user_by_id (oid_of_nat 1) (srv_users demo_state) = Inr (Some (demo_user 1 ''a@x.com'')) \<and>
   srv_outbox (snd (updateJob demo_env (oid_of_nat 1) (oid_of_nat 3) (demo_body None None) None demo_state)) =
     [\<lparr>mail_from = Some ''tracker@x.com'', mail_to = ''a@x.com'', mail_subject = ''Job Status Updated'',
       mail_text = ''The status of your job application for Acme - Eng has changed from applied to undefined.''\<rparr>]"
proof -
  have h1: "cast_oid (oid_of_nat 3) = Some (oid_of_nat 3)" by simp
  have h2: "find (\<lambda>x. job_id x = oid_of_nat 3) (srv_jobs demo_state) =
      Some (demo_job 3 1 100 ''applied'' (Some ''uploads/100-cv.pdf''))"
    by (simp add: demo_simps)
  have h3: "job_user (demo_job 3 1 100 ''applied'' (Some ''uploads/100-cv.pdf'')) = oid_of_nat 1"
    by (simp add: demo_simps)
  have h6: "find_user_by_id (oid_of_nat 1) (srv_users demo_state) = Inr (Some (demo_user 1 ''a@x.com''))"
    by (simp add: find_user_by_id_valid demo_simps)
  show ?thesis
    using updateJob_without_status_mails [OF h1 h2 h3 _ _ _ h6, of "demo_body None None" demo_env None] h6
    by (simp add: demo_simps smtp_credentials_def)
qed

text \<open>
  C16. A file multer stores is recorded under its path in the file system, the base name of that path is the stored file name, and that name splits back into the upload time and the original name (when the original name has no slash).
\<close>

theorem upload_name_roundtrip:
  assumes "upload_single now (Some f) files = Inr (Some sf, files')" "CHR ''/'' \<notin> set (up_originalname f)"
  shows "sf_path sf \<in> files' \<and> basename (sf_path sf) = sf_filename sf \<and>
    split_upload_filename (sf_filename sf) = (now, up_originalname f)"
  using assms basename_upload_path [OF assms(2)]
  by (simp add: upload_single_Inr_Some split_upload_filename_inverse)

theorem upload_name_roundtrip_witness:
  "upload_single 1700000000000 (Some (demo_pdf 100 ''application/pdf'')) {} =
     Inr (Some \<lparr>sf_originalname = ''cv.pdf'', sf_mimetype = ''application/pdf'',
                sf_filename = upload_filename 1700000000000 (demo_pdf 100 ''application/pdf''),
                sf_path = upload_destination @ upload_filename 1700000000000 (demo_pdf 100 ''application/pdf''),
                sf_size = 100\<rparr>,
          {upload_destination @ upload_filename 1700000000000 (demo_pdf 100 ''application/pdf'')}) \<and>
   split_upload_filename (upload_filename 1700000000000 (demo_pdf 100 ''application/pdf'')) = (1700000000000, ''cv.pdf'')"
proof -
  have h: "upload_single 1700000000000 (Some (demo_pdf 100 ''application/pdf'')) {} =
     Inr (Some \<lparr>sf_originalname = ''cv.pdf'', sf_mimetype = ''application/pdf'',
                sf_filename = upload_filename 1700000000000 (demo_pdf 100 ''application/pdf''),
                sf_path = upload_destination @ upload_filename 1700000000000 (demo_pdf 100 ''application/pdf''),
                sf_size = 100\<rparr>,
          {upload_destination @ upload_filename 1700000000000 (demo_pdf 100 ''application/pdf'')})"
    by (simp add: upload_single_Inr_Some upload_field_def file_filter_def allowed_types_def
        file_size_limit_def demo_pdf_def)
  have o: "CHR ''/'' \<notin> set (up_originalname (demo_pdf 100 ''application/pdf''))"
    by (simp add: demo_pdf_def)
  show ?thesis using upload_name_roundtrip [OF h o] h by (simp add: demo_pdf_def)
qed

text \<open>
  C17. Two stored uploads get the same path exactly when they arrive in the same millisecond with the same original name: the later one then overwrites the earlier file.
\<close>

theorem upload_paths_collide:
  assumes "upload_single now (Some f) files = Inr (Some sf, fs1)"
    and "upload_single now' (Some f') files' = Inr (Some sf', fs2)"
  shows "sf_path sf = sf_path sf' \<longleftrightarrow> now = now' \<and> up_originalname f = up_originalname f'"
  using assms by (simp add: upload_single_Inr_Some upload_filename_inj)

theorem upload_paths_collide_witness:
  "upload_single 5 (Some (demo_pdf 100 ''application/pdf'')) {} =
     Inr (Some \<lparr>sf_originalname = ''cv.pdf'', sf_mimetype = ''application/pdf'',
                sf_filename = ''5-cv.pdf'', sf_path = ''uploads/5-cv.pdf'', sf_size = 100\<rparr>, {''uploads/5-cv.pdf''}) \<and>
   upload_single 5 (Some (demo_pdf 200 ''application/pdf'')) {''uploads/5-cv.pdf''} =
     Inr (Some \<lparr>sf_originalname = ''cv.pdf'', sf_mimetype = ''application/pdf'',
                sf_filename = ''5-cv.pdf'', sf_path = ''uploads/5-cv.pdf'', sf_size = 200\<rparr>, {''uploads/5-cv.pdf''})"
proof -
  have d: "dec_string 5 = ''5''" by (simp add: dec_string.simps digit_char_def char_of_def bit_simps)
  have h1: "upload_single 5 (Some (demo_pdf 100 ''application/pdf'')) {} =
     Inr (Some \<lparr>sf_originalname = ''cv.pdf'', sf_mimetype = ''application/pdf'',
                sf_filename = ''5-cv.pdf'', sf_path = ''uploads/5-cv.pdf'', sf_size = 100\<rparr>, {''uploads/5-cv.pdf''})"
    by (simp add: upload_single_Inr_Some upload_field_def file_filter_def allowed_types_def
        file_size_limit_def demo_pdf_def upload_filename_def upload_destination_def d)
  have h2: "upload_single 5 (Some (demo_pdf 200 ''application/pdf'')) {''uploads/5-cv.pdf''} =
     Inr (Some \<lparr>sf_originalname = ''cv.pdf'', sf_mimetype = ''application/pdf'',
                sf_filename = ''5-cv.pdf'', sf_path = ''uploads/5-cv.pdf'', sf_size = 200\<rparr>, {''uploads/5-cv.pdf''})"
    by (simp add: upload_single_Inr_Some upload_field_def file_filter_def allowed_types_def
        file_size_limit_def demo_pdf_def upload_filename_def upload_destination_def d)
  show ?thesis using upload_paths_collide [OF h1 h2] h1 h2 by simp
qed





text \<open>
  C19. A token issued for a user authenticates that user, with the name it carries, at every second before one hour after issue and is refused from then on; a token signed with any other key is refused.
\<close>

theorem token_valid_until_expiry:
  assumes "uid \<noteq> []"
  shows "auth secret now (Some (jwt_sign secret iat (user_payload uid name))) =
      (if now < iat + 3600 then Inr \<lparr>ru_id = uid, ru_name = Some name\<rparr> else Inl TokenNotValid) \<and>
    (key \<noteq> secret \<longrightarrow> auth secret now (Some (jwt_sign key iat p)) = Inl TokenNotValid)"
  using assms
  by (simp add: auth_def jwt_verify_sign jwt_verify_other_key token_lifetime_def user_payload_def
      decode_payload_def)

theorem token_valid_until_expiry_witness:
  "auth demo_secret 1700003599 (Some demo_token) = Inr \<lparr>ru_id = oid_of_nat 1, ru_name = Some ''A''\<rparr> \<and>
   auth demo_secret 1700003600 (Some demo_token) = Inl TokenNotValid"
  using token_valid_until_expiry [of "oid_of_nat 1" demo_secret 1700003599 1700000000 "''A''"]
    token_valid_until_expiry [of "oid_of_nat 1" demo_secret 1700003600 1700000000 "''A''"]
  by (simp add: demo_token_def)

text \<open>
  C21. When authentication fails, every job route and GET /me answer 401 with the middleware message and leave the state unchanged: no upload, controller or query runs.
\<close>

theorem routes_refuse_unauthenticated:
  assumes "auth secret (jwt_now e) hdr = Inl err"
  shows "job_routes secret e hdr up rq s = (auth_error_response err, s) \<and>
    auth_routes secret e hdr Me s = (auth_error_response err, s) \<and>
    resp_code (auth_error_response err) = 401"
  using assms by (cases err) (simp_all add: job_routes_def auth_routes_def)

theorem routes_refuse_unauthenticated_witness:
  "auth demo_secret (jwt_now demo_env) None = Inl NoToken \<and>
   job_routes demo_secret demo_env None None (DeleteJob (oid_of_nat 3)) demo_state =
     (Response 401 False (RMsg ''No token, authorization denied''), demo_state)"
  using routes_refuse_unauthenticated [of demo_secret demo_env None NoToken None "DeleteJob (oid_of_nat 3)" demo_state]
  by (simp add: auth_def)

text \<open>
  C22. An authenticated PUT, DELETE or resume download whose id is not a valid ObjectId answers 500 (the CastError is caught as a server error), not 404, and changes nothing.
\<close>

theorem malformed_id_server_error:
  assumes "auth secret (jwt_now e) hdr = Inr ru" "cast_oid i = None"
  shows "job_routes secret e hdr None (PutJob i b) s = (Response 500 False (RMsg ''Server error while updating job''), s) \<and>
    job_routes secret e hdr None (DeleteJob i) s = (Response 500 False (RMsg ''Server error while deleting job''), s) \<and>
    job_routes secret e hdr None (GetResume i) s =
      (Response 500 False (RMsg ''Server error while downloading resume''), s)"
  using assms
  by (simp add: job_routes_def with_upload_def upload_single_def target_uncast server_error_def)

theorem malformed_id_server_error_witness:
  "cast_oid ''42'' = None \<and>
   job_routes demo_secret demo_env (Some demo_token) None (DeleteJob ''42'') demo_state =
     (Response 500 False (RMsg ''Server error while deleting job''), demo_state)"
proof -
  have h: "cast_oid ''42'' = None" by (simp add: cast_oid_def)
  show ?thesis using malformed_id_server_error [OF demo_token_auth h] h by simp
qed

text \<open>
  C23. Creating a job with status interview and a missing or unparsable interview date fails with 500 (the invalid Date is a CastError) and stores nothing; only the id counter has advanced.
\<close>

theorem addJob_interview_without_date:
  assumes "body_status b = Some ''interview''" "env_date e (body_interview_date b) = None"
  shows "addJob e uid b file s =
    (Response 500 False (RMsg ''Server error while adding job''), s\<lparr>srv_seq := Suc (srv_seq s)\<rparr>)"
  using assms
  by (simp add: addJob_def Let_def add_literal_def job_create_def interview_value_def server_error_def
      split: sum.splits)

theorem addJob_interview_without_date_witness:
  "demo_date None = None \<and>
   addJob demo_env (oid_of_nat 1) (demo_body (Some ''interview'') None) None demo_state =
     (Response 500 False (RMsg ''Server error while adding job''), demo_state\<lparr>srv_seq := 7\<rparr>)"
  using addJob_interview_without_date [of "demo_body (Some ''interview'') None" demo_env]
  by (simp add: demo_simps)

text \<open>
  C24. addJob makes progress on valid input: in a well-formed state whose id counter has not overflowed, a caller with a valid id who sends a non-empty company and role, a status of applied, offer or rejected (or none), and whose mail transport works, gets 201.
\<close>

theorem addJob_succeeds:
  assumes "server_wf s" "srv_seq s < 16 ^ 24" "cast_oid uid = Some u"
    and "body_company b = Some c" "c \<noteq> []" "body_role b = Some r" "r \<noteq> []"
    and "body_status b \<in> {None, Some ''applied'', Some ''offer'', Some ''rejected''}"
    and "smtp_credentials e" "env_mail_ok e"
  shows "resp_code (fst (addJob e uid b file s)) = 201"
proof -
  obtain st where st: "status_default (body_status b) = Inr st"
    using assms(8) by (auto simp: status_default_def status_enum_def)
  have d: "cast_date (interview_value e (body_status b) (body_interview_date b)) = Inr None"
    using assms(8) by (auto simp: interview_value_def)
  obtain j where j: "job_create (oid_of_nat (srv_seq s)) (env_now e) (add_literal e uid b file) = Inr j"
    using assms(3-7) st d by (simp add: job_create_def add_literal_def Let_def)
  have id: "job_id j \<notin> set (map job_id (srv_jobs s))"
    using j server_wf_fresh [OF assms(1,2)] by (auto simp: job_create_Inr)
  obtain s2 where "notify_user e uid ''New Job Application Added'' (add_text b)
      (s\<lparr>srv_seq := Suc (srv_seq s), srv_jobs := srv_jobs s @ [j]\<rparr>) = Inr s2"
    using notify_user_Inr assms(3,9,10) by blast
  with j id show ?thesis by (simp add: addJob_def Let_def insert_job_def)
qed

lemma demo_state_wf: "server_wf demo_state"
  by (simp add: server_wf_def jobs_wf_def demo_simps)

theorem addJob_succeeds_witness:
  "server_wf demo_state \<and> resp_code (fst (addJob demo_env (oid_of_nat 1) (demo_body (Some ''offer'') None) None demo_state)) = 201"
  using addJob_succeeds [OF demo_state_wf, of "oid_of_nat 1" "oid_of_nat 1" "demo_body (Some ''offer'') None" "''Acme''" "''Eng''" demo_env None]
    demo_state_wf by (simp add: demo_simps smtp_credentials_def)

text \<open>
  C25. The owner downloading a resume that multer stored and that is still on disk gets the file with the download name resume_<company>_<id> followed by the extension of the uploaded file name.
\<close>

theorem downloadResume_keeps_extension:
  assumes "cast_oid i = Some k" "find (\<lambda>x. job_id x = k) (srv_jobs s) = Some j" "job_user j = uid"
    and "job_resume j = Some (upload_destination @ upload_filename now f)"
    and "upload_destination @ upload_filename now f \<in> srv_files s"
    and "CHR ''/'' \<notin> set (up_originalname f)" "up_originalname f = base @ CHR ''.'' # ext" "CHR ''.'' \<notin> set ext"
  shows "downloadResume uid i s =
    (Response 200 True (RDownload (upload_destination @ upload_filename now f)
       (''resume_'' @ job_company j @ ''_'' @ job_id j @ CHR ''.'' # ext)), s)"
  using assms(1-5) extname_upload_path [OF assms(6-8)]
  by (simp add: downloadResume_def find_job_by_id_cast download_name_def upload_filename_def)

theorem downloadResume_keeps_extension_witness:
  "find (\<lambda>x. job_id x = oid_of_nat 3) (srv_jobs demo_state) = Some (demo_job 3 1 100 ''applied'' (Some ''uploads/100-cv.pdf'')) \<and>
   downloadResume (oid_of_nat 1) (oid_of_nat 3) demo_state =
     (Response 200 True (RDownload ''uploads/100-cv.pdf'' (''resume_Acme_'' @ oid_of_nat 3 @ ''.pdf'')), demo_state)"
proof -
  have d: "dec_string 100 = ''100''" by (simp add: dec_string.simps digit_char_def char_of_def bit_simps)
  have p: "upload_destination @ upload_filename 100 (demo_pdf 2 ''application/pdf'') = ''uploads/100-cv.pdf''"
    by (simp add: upload_destination_def upload_filename_def demo_pdf_def d)
  have h1: "cast_oid (oid_of_nat 3) = Some (oid_of_nat 3)" by simp
  have h2: "find (\<lambda>x. job_id x = oid_of_nat 3) (srv_jobs demo_state) =
      Some (demo_job 3 1 100 ''applied'' (Some ''uploads/100-cv.pdf''))"
    by (simp add: demo_simps)
  have h3: "job_user (demo_job 3 1 100 ''applied'' (Some ''uploads/100-cv.pdf'')) = oid_of_nat 1"
    by (simp add: demo_simps)
  have h4: "job_resume (demo_job 3 1 100 ''applied'' (Some ''uploads/100-cv.pdf'')) =
      Some (upload_destination @ upload_filename 100 (demo_pdf 2 ''application/pdf''))"
    by (simp add: p demo_job_def)
  have h5: "upload_destination @ upload_filename 100 (demo_pdf 2 ''application/pdf'') \<in> srv_files demo_state"
    by (simp add: p demo_state_def)
  have h6: "CHR ''/'' \<notin> set (up_originalname (demo_pdf 2 ''application/pdf''))" by (simp add: demo_pdf_def)
  have h7: "up_originalname (demo_pdf 2 ''application/pdf'') = ''cv'' @ CHR ''.'' # ''pdf''" by (simp add: demo_pdf_def)
  have h8: "CHR ''.'' \<notin> set ''pdf''" by simp
  show ?thesis
    using downloadResume_keeps_extension [OF h1 h2 h3 h4 h5 h6 h7 h8] h2 p
    by (simp add: demo_job_def)
qed

lemma demo_register:
  "fst (register demo_secret demo_env ''C'' ''c@x.com'' ''pw'' demo_state) =
     Response 201 True (RToken (jwt_sign demo_secret 1700000000 (user_payload (oid_of_nat 6) ''C'')))"
  by (simp add: register_def register_exists_def find_user_by_email_def register_save_def Let_def
      jwt_now_def demo_simps)

text \<open>
  C26. Registrations run one after the other keep emails unique: after register stores a user, every
  further registration with the same email, whatever the name, password or time, answers 400 and
  changes nothing, and the stored users hold that email exactly once.
\<close>

theorem register_twice_refused:
  assumes "register secret e name email pw s = (Response 201 ok r, s1)"
  shows "register secret e' name' email pw' s1 = (Response 400 False (RMsg ''User already exists''), s1) \<and>
    length (filter (\<lambda>u. user_email u = email) (srv_users s1)) = 1"
proof -
  have ne: "\<not> register_exists email s" using assms by (auto simp: register_def)
  then have save: "register_save secret e name email pw s = (Response 201 ok r, s1)"
    using assms by (simp add: register_def)
  then have users: "srv_users s1 = srv_users s @ [\<lparr>user_id = oid_of_nat (srv_seq s), user_name = name,
      user_email = email, user_password = Hashed pw\<rparr>]"
    by (auto simp: register_save_def Let_def split: if_splits)
  then have "register_exists email s1" by (simp add: register_exists_iff)
  moreover have "filter (\<lambda>u. user_email u = email) (srv_users s) = []"
    using ne by (auto simp: register_exists_iff filter_empty_conv)
  ultimately show ?thesis by (simp add: register_existing users)
qed

theorem register_twice_refused_witness:
  "\<exists>t s1. register demo_secret demo_env ''C'' ''c@x.com'' ''pw'' demo_state = (Response 201 True (RToken t), s1) \<and>
     register demo_secret demo_env ''D'' ''c@x.com'' ''other'' s1 =
       (Response 400 False (RMsg ''User already exists''), s1)"
proof -
  define S1 where "S1 = snd (register demo_secret demo_env ''C'' ''c@x.com'' ''pw'' demo_state)"
  have reg: "register demo_secret demo_env ''C'' ''c@x.com'' ''pw'' demo_state =
      (Response 201 True (RToken (jwt_sign demo_secret 1700000000 (user_payload (oid_of_nat 6) ''C''))), S1)"
    using demo_register unfolding S1_def by (metis prod.collapse)
  with register_twice_refused [OF reg, of demo_env "''D''" "''other''"] show ?thesis by blast
qed

text \<open>
  C27. A user who logs in with the right password gets a token with which GET /me, at the same time, returns that user without the credential.
\<close>

theorem login_then_me:
  assumes "find_user_by_email email (srv_users s) = Some u" "bcrypt_compare pw (user_password u)"
    and "valid_oid (user_id u)" "distinct (map user_id (srv_users s))"
  shows "\<exists>t. login secret e email pw s = (Response 200 True (RToken t), s) \<and>
    auth_routes secret e (Some t) Me s = (Response 200 True (RUser (public_view u)), s)"
proof -
  have mem: "u \<in> set (srv_users s)"
    using assms(1) by (auto simp: find_user_by_email_def find_Some_iff)
  have "user_id u \<noteq> []" using assms(3) by (auto simp: valid_oid_def cast_oid_def)
  then show ?thesis
    using assms find_key_unique [OF assms(4) mem]
    by (simp add: login_def auth_routes_def auth_def jwt_verify_sign token_lifetime_def user_payload_def
        decode_payload_def getMe_def find_user_by_id_valid)
qed

theorem login_then_me_witness:
  "find_user_by_email ''a@x.com'' (srv_users demo_state) = Some (demo_user 1 ''a@x.com'') \<and>
   fst (login demo_secret demo_env ''a@x.com'' ''pw'' demo_state) =
     Response 200 True (RToken (jwt_sign demo_secret 1700000000 (user_payload (oid_of_nat 1) ''A'')))"
proof -
  have h1: "find_user_by_email ''a@x.com'' (srv_users demo_state) = Some (demo_user 1 ''a@x.com'')"
    by (simp add: find_user_by_email_def demo_simps)
  have h2: "bcrypt_compare ''pw'' (user_password (demo_user 1 ''a@x.com''))" by (simp add: demo_user_def)
  have h3: "valid_oid (user_id (demo_user 1 ''a@x.com''))" by (simp add: demo_user_def)
  have h4: "distinct (map user_id (srv_users demo_state))" by (simp add: demo_simps)
  from login_then_me [OF h1 h2 h3 h4, of demo_secret demo_env] h1 show ?thesis
    by (simp add: login_def jwt_now_def demo_simps)
qed

lemma e2e_register:
  "auth_routes demo_secret demo_env None (Register ''A'' ''a@x.com'' ''pw'') init_server =
     (Response 201 True (RToken e2e_token), e2e_s1)"
  by (simp add: auth_routes_def register_def register_exists_def find_user_by_email_def register_save_def
      init_server_def e2e_s1_def e2e_token_def e2e_user_def jwt_now_def demo_env_def)

lemma e2e_login:
  "auth_routes demo_secret demo_env None (Login ''a@x.com'' ''pw'') (e2e_s1) =
     (Response 200 True (RToken e2e_token), e2e_s1)"
  by (simp add: auth_routes_def login_def find_user_by_email_def e2e_s1_def e2e_user_def e2e_token_def jwt_now_def demo_env_def)

lemma e2e_auth:
  "auth demo_secret (jwt_now demo_env) (Some e2e_token) = Inr \<lparr>ru_id = oid_of_nat 0, ru_name = Some ''A''\<rparr>"
  by (simp add: auth_def jwt_verify_sign e2e_token_def jwt_now_def demo_env_def token_lifetime_def
      user_payload_def decode_payload_def)


lemma e2e_add:
  "job_routes demo_secret demo_env (Some e2e_token) None (PostJob (demo_body (Some ''applied'') None)) e2e_s1 =
     (Response 201 True (RJob (Some e2e_job)), e2e_s2)"
  unfolding job_routes_Inr [OF e2e_auth]
  by (simp add: with_upload_def upload_single_def addJob_def Let_def add_literal_def
      job_create_def cast_user_def interview_value_def status_default_def status_enum_def insert_job_def
      notify_user_def send_mail_def smtp_credentials_def find_user_by_id_def add_text_def e2e_s1_def e2e_s2_def e2e_user_def e2e_job_def
      e2e_mail_added_def demo_simps)

lemma e2e_update:
  "job_routes demo_secret demo_env (Some e2e_token) None
     (PutJob (oid_of_nat 1) (demo_body (Some ''interview'') (Some ''2024-01-01''))) e2e_s2 =
     (Response 200 True (RJob (Some (e2e_job_interview))), e2e_s3)"
  unfolding job_routes_Inr [OF e2e_auth]
  by (simp add: with_upload_def upload_single_def updateJob_def find_job_by_id_cast
      update_job_by_id_def cast_id_def update_doc_def interview_value_def job_set_def set_path_def
      set_opt_path_def notify_user_def send_mail_def smtp_credentials_def find_user_by_id_def status_text_def Let_def
      e2e_s2_def e2e_s3_def e2e_user_def e2e_job_def e2e_job_interview_def e2e_mail_status_def demo_simps)

lemma e2e_delete:
  "job_routes demo_secret demo_env (Some e2e_token) None (DeleteJob (oid_of_nat 1)) e2e_s3 =
     (Response 200 True (RMsg ''Job removed successfully''), e2e_s4)"
  unfolding job_routes_Inr [OF e2e_auth]
  by (simp add: deleteJob_def find_job_by_id_cast delete_job_by_id_def cast_id_def
      unlink_resume_def e2e_s3_def e2e_s4_def e2e_job_interview_def e2e_job_def demo_simps)

lemma e2e_list:
  "job_routes demo_secret demo_env (Some e2e_token) None GetJobs e2e_s4 = (Response 200 True (RJobs 0 []), e2e_s4)"
  unfolding job_routes_Inr [OF e2e_auth]
  by (simp add: getJobs_cast sort_applied_desc_def e2e_s4_def)


text \<open>
  The end-to-end run of the spec (section 8, scenario 7): user A registers and logs in; adding an applied job
  for Acme/Eng stores it with appliedDate now and no interview date; updating it to interview on
  2024-01-01 stores that date and mails the status change; deleting it leaves A with an empty job
  list; and the state after the run is a reachable state of the server.
\<close>

theorem end_to_end_scenario:
  "auth_routes demo_secret demo_env None (Register ''A'' ''a@x.com'' ''pw'') init_server =
     (Response 201 True (RToken e2e_token), e2e_s1) \<and>
   auth_routes demo_secret demo_env None (Login ''a@x.com'' ''pw'') e2e_s1 =
     (Response 200 True (RToken e2e_token), e2e_s1) \<and>
   job_routes demo_secret demo_env (Some e2e_token) None (PostJob (demo_body (Some ''applied'') None)) e2e_s1 =
     (Response 201 True (RJob (Some e2e_job)), e2e_s2) \<and>
   job_status e2e_job = ''applied'' \<and> job_applied_date e2e_job = env_now demo_env \<and>
   job_interview_date e2e_job = None \<and>
   job_routes demo_secret demo_env (Some e2e_token) None
     (PutJob (job_id e2e_job) (demo_body (Some ''interview'') (Some ''2024-01-01''))) e2e_s2 =
     (Response 200 True (RJob (Some e2e_job_interview)), e2e_s3) \<and>
   job_interview_date e2e_job_interview = Some 1704067200000 \<and>
   srv_outbox e2e_s3 = srv_outbox e2e_s2 @ [e2e_mail_status] \<and>
   job_routes demo_secret demo_env (Some e2e_token) None (DeleteJob (job_id e2e_job)) e2e_s3 =
     (Response 200 True (RMsg ''Job removed successfully''), e2e_s4) \<and>
   job_routes demo_secret demo_env (Some e2e_token) None GetJobs e2e_s4 = (Response 200 True (RJobs 0 []), e2e_s4) \<and>
   reachable demo_secret e2e_s4"
proof -
  have "reachable demo_secret (snd (auth_routes demo_secret demo_env None (Register ''A'' ''a@x.com'' ''pw'') init_server))"
    by (rule reachable.auth_step [OF reachable.init])
  then have "reachable demo_secret e2e_s1" by (simp only: e2e_register snd_conv)
  then have "reachable demo_secret (snd (job_routes demo_secret demo_env (Some e2e_token) None
      (PostJob (demo_body (Some ''applied'') None)) e2e_s1))"
    by (rule reachable.job_step)
  then have "reachable demo_secret e2e_s2" by (simp only: e2e_add snd_conv)
  then have "reachable demo_secret (snd (job_routes demo_secret demo_env (Some e2e_token) None
      (PutJob (oid_of_nat 1) (demo_body (Some ''interview'') (Some ''2024-01-01''))) e2e_s2))"
    by (rule reachable.job_step)
  then have "reachable demo_secret e2e_s3" by (simp only: e2e_update snd_conv)
  then have "reachable demo_secret (snd (job_routes demo_secret demo_env (Some e2e_token) None
      (DeleteJob (oid_of_nat 1)) e2e_s3))"
    by (rule reachable.job_step)
  then have r4: "reachable demo_secret e2e_s4" by (simp only: e2e_delete snd_conv)
  have j: "job_id e2e_job = oid_of_nat 1" by (simp add: e2e_job_def demo_job_def)
  show ?thesis
    using e2e_register e2e_login e2e_add e2e_update e2e_delete e2e_list r4
    by (simp add: j e2e_job_def e2e_job_interview_def demo_job_def demo_env_def e2e_s2_def e2e_s3_def)
qed

lemma demo_add:
  "fst (addJob demo_env (oid_of_nat 1) (demo_body None None) None demo_state) =
     Response 201 True (RJob (Some (demo_job 6 1 1700000000000 ''applied'' None)))"
  by (simp add: addJob_def add_literal_def job_create_def cast_user_def interview_value_def Let_def
      status_default_def status_enum_def insert_job_def notify_user_def send_mail_def
      smtp_credentials_def find_user_by_id_def demo_simps)

text \<open>
  C28. Deleting a job undoes adding it: after addJob has stored a job for a caller, deleteJob by the
  same caller on the new id answers 200, leaves exactly the collection there was before the add (in
  its order), and unlinks the job's resume, if it has one, from the files there were before.
\<close>

theorem add_then_delete_restores:
  assumes "addJob e uid b file s = (Response 201 ok (RJob (Some j)), s1)" "valid_oid uid"
  shows "deleteJob uid (job_id j) s1 = (Response 200 True (RMsg ''Job removed successfully''),
      s1\<lparr>srv_files := unlink_resume (job_resume j) (srv_files s), srv_jobs := srv_jobs s\<rparr>)"
proof -
  from assms(1) obtain s2 where n: "notify_user e uid ''New Job Application Added'' (add_text b)
      (s\<lparr>srv_seq := Suc (srv_seq s), srv_jobs := srv_jobs s @ [j]\<rparr>) = Inr s2"
    and fresh: "job_id j \<notin> set (map job_id (srv_jobs s))" and "s1 = s2"
    unfolding addJob_201 by auto
  then have files: "srv_files s1 = srv_files s" by (auto dest: notify_user_keeps)
  from addJob_created [OF assms(1)] have jobs: "srv_jobs s1 = srv_jobs s @ [j]"
    and cid: "cast_oid (job_id j) = Some (job_id j)" and user: "job_user j = uid"
    using assms(2) by auto
  have "find (\<lambda>x. job_id x = job_id j) (srv_jobs s1) = Some j"
    using fresh by (simp add: jobs find_snoc_fresh)
  moreover have "filter (\<lambda>x. job_id x \<noteq> job_id j) (srv_jobs s1) = srv_jobs s"
    unfolding jobs by (rule filter_snoc_fresh [OF fresh])
  ultimately show ?thesis
    using deleteJob_owner [OF cid _ user] by (simp add: files)
qed

theorem add_then_delete_restores_witness:
  "\<exists>j s1. addJob demo_env (oid_of_nat 1) (demo_body None None) None demo_state =
        (Response 201 True (RJob (Some j)), s1) \<and>
      srv_jobs (snd (deleteJob (oid_of_nat 1) (job_id j) s1)) = srv_jobs demo_state"
proof -
  define S1 where "S1 = snd (addJob demo_env (oid_of_nat 1) (demo_body None None) None demo_state)"
  have add: "addJob demo_env (oid_of_nat 1) (demo_body None None) None demo_state =
      (Response 201 True (RJob (Some (demo_job 6 1 1700000000000 ''applied'' None))), S1)"
    using demo_add unfolding S1_def by (metis prod.collapse)
  have v: "valid_oid (oid_of_nat 1)" by simp
  from add add_then_delete_restores [OF add v] show ?thesis by auto
qed

text \<open>
  C29. Isolation between users: in every state satisfying the system invariant, no request through the job router, whatever its kind, body, file or target id, changes, removes or reorders any job whose owner is not the authenticated caller, and adds none for another owner.
\<close>

theorem job_routes_isolation:
  assumes "sys_inv s" "auth secret (jwt_now e) hdr = Inr ru"
  shows "filter (\<lambda>j. Some (job_user j) \<noteq> cast_oid (ru_id ru)) (srv_jobs (snd (job_routes secret e hdr up rq s))) =
    filter (\<lambda>j. Some (job_user j) \<noteq> cast_oid (ru_id ru)) (srv_jobs s)"
proof -
  have wf: "jobs_wf (srv_jobs s)" using assms(1) by (simp add: sys_inv_def server_wf_def)
  show ?thesis
  proof (cases rq)
    case (PostJob b)
    then show ?thesis
      by (simp add: job_routes_Inr [OF assms(2)]) (rule with_upload_jobs; simp add: addJob_others)
  next
    case (PutJob i b)
    then show ?thesis
      by (simp add: job_routes_Inr [OF assms(2)]) (rule with_upload_jobs; simp add: updateJob_others wf)
  next
    case (DeleteJob i)
    then show ?thesis by (simp add: job_routes_Inr [OF assms(2)] deleteJob_others wf)
  qed (simp_all add: job_routes_Inr [OF assms(2)])
qed


lemma demo_state_inv: "sys_inv demo_state"
  using demo_state_wf by (simp add: sys_inv_def users_wf_def demo_simps)

theorem job_routes_isolation_witness:
  "sys_inv demo_state \<and>
   filter (\<lambda>j. Some (job_user j) \<noteq> cast_oid (oid_of_nat 1))
     (srv_jobs (snd (job_routes demo_secret demo_env (Some demo_token) None (DeleteJob (oid_of_nat 5)) demo_state))) =
   [demo_job 5 2 300 ''offer'' None]"
  using job_routes_isolation [OF demo_state_inv demo_token_auth, of None "DeleteJob (oid_of_nat 5)"] demo_state_inv
  by (simp add: demo_simps)

text \<open>
  C30. getJobsByStatus does not validate the status parameter: a status that no stored job has (one outside the enum included) answers 200 with an empty list rather than an error.
\<close>

theorem getJobsByStatus_unknown_status:
  assumes "cast_oid uid = Some u" "st \<notin> set (map job_status (srv_jobs s))"
  shows "getJobsByStatus uid st s = (Response 200 True (RJobs 0 []), s)"
proof -
  have "filter (\<lambda>j. job_user j = u \<and> job_status j = st) (srv_jobs s) = []"
    using assms(2) by (auto simp: filter_empty_conv)
  with assms(1) show ?thesis by (simp add: getJobsByStatus_cast sort_applied_desc_def)
qed

theorem getJobsByStatus_unknown_status_witness:
  "''pending'' \<notin> set (map job_status (srv_jobs demo_state)) \<and>
   getJobsByStatus (oid_of_nat 1) ''pending'' demo_state = (Response 200 True (RJobs 0 []), demo_state)"
proof -
  have h: "''pending'' \<notin> set (map job_status (srv_jobs demo_state))" by (simp add: demo_simps)
  show ?thesis using getJobsByStatus_unknown_status [OF _ h, of "oid_of_nat 1"] h by simp
qed

text \<open>
  C31. When the owner updates a job with a newly uploaded resume, the record points to the new path, but the handler deletes no file: the old resume stays on disk unreferenced.
\<close>

theorem updateJob_new_resume_keeps_old_file:
  assumes "cast_oid i = Some k" "find (\<lambda>x. job_id x = k) (srv_jobs s) = Some j" "job_user j = uid"
    and "body_status b \<noteq> Some ''interview''"
  shows "map_option job_resume (find (\<lambda>x. job_id x = k) (srv_jobs (snd (updateJob e uid i b (Some sf) s)))) =
      Some (Some (sf_path sf)) \<and>
    srv_files (snd (updateJob e uid i b (Some sf) s)) = srv_files s"
proof -
  have d: "cast_date (interview_value e (body_status b) (body_interview_date b)) = Inr None"
    using assms(4) by (simp add: interview_value_def)
  have "map_option job_resume (find (\<lambda>x. job_id x = k) (srv_jobs (snd (updateJob e uid i b (Some sf) s)))) =
      Some (Some (sf_path sf))"
    using updateJob_owner_jobs [OF assms(1-3) d] assms(2)
    by (simp add: find_replace_job_set job_set_def set_opt_path_def update_doc_def Let_def)
  moreover have "srv_files (snd (updateJob e uid i b (Some sf) s)) = srv_files s"
    using d by (auto simp: updateJob_owner [OF assms(1-3)] Let_def split: sum.splits dest: notify_user_keeps)
  ultimately show ?thesis by simp
qed

theorem updateJob_new_resume_keeps_old_file_witness:
  "find (\<lambda>x. job_id x = oid_of_nat 3) (srv_jobs demo_state) = Some (demo_job 3 1 100 ''applied'' (Some ''uploads/100-cv.pdf'')) \<and>
   srv_files (snd (updateJob demo_env (oid_of_nat 1) (oid_of_nat 3) (demo_body (Some ''offer'') None)
     (Some \<lparr>sf_originalname = ''cv.pdf'', sf_mimetype = ''application/pdf'', sf_filename = ''9-cv.pdf'',
            sf_path = ''uploads/9-cv.pdf'', sf_size = 1\<rparr>) demo_state)) = {''uploads/100-cv.pdf''}"
proof -
  have h1: "cast_oid (oid_of_nat 3) = Some (oid_of_nat 3)" by simp
  have h2: "find (\<lambda>x. job_id x = oid_of_nat 3) (srv_jobs demo_state) =
      Some (demo_job 3 1 100 ''applied'' (Some ''uploads/100-cv.pdf''))"
    by (simp add: demo_simps)
  have h3: "job_user (demo_job 3 1 100 ''applied'' (Some ''uploads/100-cv.pdf'')) = oid_of_nat 1"
    by (simp add: demo_simps)
  show ?thesis
    using updateJob_new_resume_keeps_old_file [OF h1 h2 h3, of "demo_body (Some ''offer'') None" demo_env
        "\<lparr>sf_originalname = ''cv.pdf'', sf_mimetype = ''application/pdf'', sf_filename = ''9-cv.pdf'',
          sf_path = ''uploads/9-cv.pdf'', sf_size = 1\<rparr>"] h2
    by (simp add: demo_simps)
qed

text \<open>
  C32. The size limit is inclusive: a PDF on the resume field is stored exactly when its size is at most 5 MiB (5242880 bytes).
\<close>

theorem upload_size_boundary:
  assumes "up_fieldname f = ''resume''" "up_mimetype f = ''application/pdf''"
  shows "(\<exists>sf files'. upload_single now (Some f) files = Inr (Some sf, files')) \<longleftrightarrow> up_size f \<le> 5242880"
  using assms by (simp add: upload_single_def upload_field_def file_filter_def allowed_types_def
      file_size_limit_def Let_def)

theorem upload_size_boundary_witness:
  "(\<exists>sf files'. upload_single 1 (Some (demo_pdf 5242880 ''application/pdf'')) {} = Inr (Some sf, files')) \<and>
   \<not> (\<exists>sf files'. upload_single 1 (Some (demo_pdf 5242881 ''application/pdf'')) {} = Inr (Some sf, files'))"
  using upload_size_boundary [of "demo_pdf 5242880 ''application/pdf''" 1 "{}"]
    upload_size_boundary [of "demo_pdf 5242881 ''application/pdf''" 1 "{}"]
  by (simp add: demo_pdf_def)

text \<open>
  C33. Login fails in the same way, 401 with the message Invalid credentials and no change of state, for an unknown email and for a wrong password, so the response does not reveal which emails are registered.
\<close>

theorem login_failure_uniform:
  assumes "find_user_by_email email (srv_users s) = None \<or>
    (\<exists>u. find_user_by_email email (srv_users s) = Some u \<and> \<not> bcrypt_compare pw (user_password u))"
  shows "auth_routes secret e hdr (Login email pw) s = (Response 401 False (RMsg ''Invalid credentials''), s)"
  using assms by (auto simp: auth_routes_def login_def)

theorem login_failure_uniform_witness:
  "find_user_by_email ''z@x.com'' (srv_users demo_state) = None \<and>
   auth_routes demo_secret demo_env None (Login ''z@x.com'' ''pw'') demo_state =
     (Response 401 False (RMsg ''Invalid credentials''), demo_state)"
proof -
  have h: "find_user_by_email ''z@x.com'' (srv_users demo_state) = None"
    by (simp add: find_user_by_email_def demo_simps)
  show ?thesis using login_failure_uniform [of "''z@x.com''" demo_state "''pw''"] h by simp
qed

text \<open>
  C34. The owner asking for a resume gets 404 with one message when the job has no resume and with another when the recorded file is no longer on disk.
\<close>

theorem downloadResume_missing_file:
  assumes "cast_oid i = Some k" "find (\<lambda>x. job_id x = k) (srv_jobs s) = Some j" "job_user j = uid"
  shows "(job_resume j = None \<longrightarrow>
      downloadResume uid i s = (Response 404 False (RMsg ''Resume not found for this job''), s)) \<and>
    (\<forall>p. job_resume j = Some p \<and> p \<noteq> [] \<and> p \<notin> srv_files s \<longrightarrow>
      downloadResume uid i s = (Response 404 False (RMsg ''Resume file not found on server.''), s))"
  using assms by (auto simp: downloadResume_def find_job_by_id_cast)

theorem downloadResume_missing_file_witness:
  "find (\<lambda>x. job_id x = oid_of_nat 4) (srv_jobs demo_state) = Some (demo_job 4 1 200 ''interview'' None) \<and>
   downloadResume (oid_of_nat 1) (oid_of_nat 4) demo_state =
     (Response 404 False (RMsg ''Resume not found for this job''), demo_state)"
proof -
  have h1: "cast_oid (oid_of_nat 4) = Some (oid_of_nat 4)" by simp
  have h2: "find (\<lambda>x. job_id x = oid_of_nat 4) (srv_jobs demo_state) = Some (demo_job 4 1 200 ''interview'' None)"
    by (simp add: demo_simps)
  have h3: "job_user (demo_job 4 1 200 ''interview'' None) = oid_of_nat 1" by (simp add: demo_simps)
  show ?thesis using downloadResume_missing_file [OF h1 h2 h3] h2 by (simp add: demo_job_def)
qed

text \<open>
  C35. Registering a fresh email stores exactly the new user under the next id and returns a token that the auth middleware accepts at the same time as that new user.
\<close>

theorem register_token_authenticates:
  assumes "\<not> register_exists email s" "oid_of_nat (srv_seq s) \<notin> set (map user_id (srv_users s))"
  shows "\<exists>t. register secret e name email pw s = (Response 201 True (RToken t),
      s\<lparr>srv_seq := Suc (srv_seq s), srv_users := srv_users s @
        [\<lparr>user_id = oid_of_nat (srv_seq s), user_name = name, user_email = email, user_password = Hashed pw\<rparr>]\<rparr>) \<and>
    auth secret (jwt_now e) (Some t) = Inr \<lparr>ru_id = oid_of_nat (srv_seq s), ru_name = Some name\<rparr>"
  using assms
  by (simp add: register_def register_save_def Let_def auth_def jwt_verify_sign token_lifetime_def
      user_payload_def decode_payload_def)

theorem register_token_authenticates_witness:
  "\<not> register_exists ''c@x.com'' demo_state \<and>
   oid_of_nat (srv_seq demo_state) \<notin> set (map user_id (srv_users demo_state)) \<and>
   fst (register demo_secret demo_env ''C'' ''c@x.com'' ''pw'' demo_state) =
     Response 201 True (RToken (jwt_sign demo_secret 1700000000 (user_payload (oid_of_nat 6) ''C'')))"
proof -
  have h1: "\<not> register_exists ''c@x.com'' demo_state"
    by (simp add: register_exists_def find_user_by_email_def demo_simps)
  have h2: "oid_of_nat (srv_seq demo_state) \<notin> set (map user_id (srv_users demo_state))"
    by (simp add: demo_simps)
  from register_token_authenticates [OF h1 h2, of demo_secret demo_env "''C''" "''pw''"] h1 h2 show ?thesis
    by (simp add: register_def register_save_def Let_def jwt_now_def demo_simps)
qed

text \<open>
  C36. The application dispatches the seven paths of routes/jobRoutes.js under /api/jobs to the job router with the request the path names: GET and POST on the mount itself, PUT and DELETE on /:id, GET on /status/:status, /resume/:id and /stats, for every id or status that is one non-empty segment.
\<close>

theorem app_job_route_table:
  assumes "CHR ''/'' \<notin> set i" "i \<noteq> []"
  shows "app cfg e (rq\<lparr>rq_method := GET, rq_path := ''/api/jobs''\<rparr>) s =
      job_routes (cfg_secret cfg) e (rq_token rq) (rq_file rq) GetJobs s \<and>
    app cfg e (rq\<lparr>rq_method := POST, rq_path := ''/api/jobs''\<rparr>) s =
      job_routes (cfg_secret cfg) e (rq_token rq) (rq_file rq) (PostJob (rq_body rq)) s \<and>
    app cfg e (rq\<lparr>rq_method := PUT, rq_path := ''/api/jobs/'' @ i\<rparr>) s =
      job_routes (cfg_secret cfg) e (rq_token rq) (rq_file rq) (PutJob i (rq_body rq)) s \<and>
    app cfg e (rq\<lparr>rq_method := DELETE, rq_path := ''/api/jobs/'' @ i\<rparr>) s =
      job_routes (cfg_secret cfg) e (rq_token rq) (rq_file rq) (DeleteJob i) s \<and>
    app cfg e (rq\<lparr>rq_method := GET, rq_path := ''/api/jobs/status/'' @ i\<rparr>) s =
      job_routes (cfg_secret cfg) e (rq_token rq) (rq_file rq) (GetJobsByStatusReq i) s \<and>
    app cfg e (rq\<lparr>rq_method := GET, rq_path := ''/api/jobs/resume/'' @ i\<rparr>) s =
      job_routes (cfg_secret cfg) e (rq_token rq) (rq_file rq) (GetResume i) s \<and>
    app cfg e (rq\<lparr>rq_method := GET, rq_path := ''/api/jobs/stats''\<rparr>) s =
      job_routes (cfg_secret cfg) e (rq_token rq) (rq_file rq) GetStats s"
proof -
  have r1: "route_segments (''/'' @ i) = [i]"
    using assms by (simp add: route_segments_one)
  have r2: "route_segments (''/status/'' @ i) = [''status'', i]"
    using assms route_segments_two [of "''status''" i] by simp
  have r3: "route_segments (''/resume/'' @ i) = [''resume'', i]"
    using assms route_segments_two [of "''resume''" i] by simp
  have r4: "route_segments ''/stats'' = [''stats'']"
    by (rule route_segments_one) simp_all
  note segs = route_segments_root r1 [simplified] r2 [simplified] r3 [simplified] r4
  show ?thesis
    using assms by (simp add: app_def Let_def strip_mount_def route_method_def segs)
qed

text \<open>
  C37. express.static at /uploads serves every stored file to any GET request, with or without a token: the resume of one user can be fetched by anyone who names the file, bypassing the ownership check of downloadResume.
\<close>

theorem uploads_served_without_token:
  assumes "rq_method rq = GET" "rq_path rq = ''/uploads/'' @ n" "''uploads/'' @ n \<in> srv_files s"
  shows "app cfg e rq s = (Response 200 True (RStatic (''uploads/'' @ n)), s)"
proof -
  have "strip_mount ''/uploads'' (rq_path rq) = Some (CHR ''/'' # n)"
    using assms(2) strip_mount_below [of "''/uploads''" n] by simp
  with assms show ?thesis by (simp add: app_def static_uploads_def route_method_def)
qed

theorem app_job_route_table_witness:
  "CHR ''/'' \<notin> set ''abc'' \<and>
   app demo_cfg demo_env (demo_request\<lparr>rq_method := DELETE, rq_path := ''/api/jobs/abc''\<rparr>) demo_state =
     job_routes demo_secret demo_env (Some demo_token) None (DeleteJob ''abc'') demo_state"
  using app_job_route_table [of "''abc''" demo_cfg demo_env demo_request demo_state]
  by (simp add: demo_cfg_def demo_request_def)

theorem uploads_served_without_token_witness:
  "''uploads/100-cv.pdf'' \<in> srv_files demo_state \<and>
   app demo_cfg demo_env (demo_request\<lparr>rq_path := ''/uploads/100-cv.pdf'', rq_token := None\<rparr>) demo_state =
     (Response 200 True (RStatic ''uploads/100-cv.pdf''), demo_state)"
proof -
  have h: "''uploads/'' @ ''100-cv.pdf'' \<in> srv_files demo_state" by (simp add: demo_state_def)
  show ?thesis
    using uploads_served_without_token [of "demo_request\<lparr>rq_path := ''/uploads/100-cv.pdf'', rq_token := None\<rparr>"
        "''100-cv.pdf''" demo_state demo_cfg demo_env] h
    by (simp add: demo_request_def)
qed

text \<open>
  The job collection refines a map from ids to documents (the abstraction store_abs): findById is a lookup, save succeeds exactly on a fresh id and adds it, findByIdAndUpdate replaces the document under the id by its update (and returns it), and findByIdAndDelete removes the id.
\<close>

theorem job_store_refines_map:
  assumes "cast_oid i = Some k"
  shows "find_job_by_id i js = Inr (store_abs js k) \<and>
    (insert_job j js = Inr js1 \<longleftrightarrow> store_abs js (job_id j) = None \<and> js1 = js @ [j]) \<and>
    (insert_job j js = Inr js1 \<longrightarrow> store_abs js1 = (store_abs js)(job_id j \<mapsto> j)) \<and>
    (update_job_by_id i u js = Inr (r, js2) \<longrightarrow>
       (\<exists>d. cast_date (upd_interview_date u) = Inr d \<and> r = map_option (job_set u d) (store_abs js k) \<and>
            store_abs js2 = (store_abs js)(k := r))) \<and>
    (delete_job_by_id i js = Inr js3 \<longrightarrow> store_abs js3 = (store_abs js)(k := None))"
  using assms update_job_by_id_abs [OF assms, of u js r js2]
  by (auto simp: find_job_by_id_cast find_store_abs insert_job_Inr store_abs_None store_abs_append_new
      store_abs_delete delete_job_by_id_cast)

text \<open>
  C38. The job router guards its routes one by one, not its mount: in development mode a request
  under /api/jobs that matches none of the seven routes of routes/jobRoutes.js is answered by
  Express's 404 Cannot METHOD path, with or without a token, and changes nothing.
\<close>

theorem app_unrouted_job_path:
  assumes "\<not> cfg_production cfg" "rq_method rq \<noteq> OPTIONS"
    and "strip_mount ''/api/jobs'' (rq_path rq) = Some r"
    and "match_job_route (route_method (rq_method rq)) (route_segments r) (rq_body rq) = None"
  shows "app cfg e rq s =
    (Response 404 False (RMsg (''Cannot '' @ method_name (rq_method rq) @ '' '' @ rq_path rq)), s)"
proof -
  have "strip_mount ''/uploads'' (rq_path rq) = None"
    using strip_mount_apart [of "''/uploads''" "rq_path rq" "''/api/jobs''"] assms(3)
    by (cases "strip_mount ''/uploads'' (rq_path rq)") auto
  moreover have "strip_mount ''/api/auth'' (rq_path rq) = None"
    using strip_mount_apart [of "''/api/auth''" "rq_path rq" "''/api/jobs''"] assms(3)
    by (cases "strip_mount ''/api/auth'' (rq_path rq)") auto
  ultimately show ?thesis
    using assms by (simp add: app_def app_fallback_def)
qed

theorem app_unrouted_job_path_witness:
  "app demo_cfg demo_env (demo_request\<lparr>rq_method := PATCH, rq_path := ''/api/jobs/x'', rq_token := None\<rparr>) demo_state =
    (Response 404 False (RMsg ''Cannot PATCH /api/jobs/x''), demo_state)"
proof -
  have m: "strip_mount ''/api/jobs'' ''/api/jobs/x'' = Some ''/x''" by (simp add: strip_mount_def)
  have r: "route_segments ''/x'' = [''x'']" using route_segments_one [of "''x''"] by simp
  show ?thesis
    using app_unrouted_job_path [of demo_cfg "demo_request\<lparr>rq_method := PATCH, rq_path := ''/api/jobs/x'', rq_token := None\<rparr>"
        "''/x''" demo_env demo_state] m r
    by (simp add: demo_cfg_def route_method_def)
qed

text \<open>
  C39. Every document addJob creates conforms to the schema: its owner is a valid ObjectId, company and role are non-empty, its status is one of the enum, and its id is the fresh ObjectId issued by the counter.
\<close>

theorem addJob_creates_valid_document:
  assumes "addJob e uid b file s = (Response 201 ok (RJob (Some j)), s')"
  shows "job_valid j \<and> valid_oid (job_id j) \<and> job_id j = oid_of_nat (srv_seq s)"
proof -
  from assms obtain s2 where
    c: "job_create (oid_of_nat (srv_seq s)) (env_now e) (add_literal e uid b file) = Inr j"
    by (auto simp: addJob_201)
  have "job_id j = oid_of_nat (srv_seq s)" using c by (auto simp: job_create_Inr)
  with job_create_valid [OF c] show ?thesis by simp
qed

theorem addJob_creates_valid_document_witness:
  "addJob demo_env (oid_of_nat 1) (demo_body (Some ''applied'') (Some ''2024-01-01'')) None demo_state =
     (Response 201 True (RJob (Some (demo_job 6 1 1700000000000 ''applied'' None))),
      snd (addJob demo_env (oid_of_nat 1) (demo_body (Some ''applied'') (Some ''2024-01-01'')) None demo_state)) \<and>
   job_valid (demo_job 6 1 1700000000000 ''applied'' None)"
  using addJob_creates_valid_document [OF addJob_demo] addJob_demo by simp

end
